theory Spec2Isabelle
  imports Complex_Main
begin

section \<open>JavaScript values used by the sources\<close>

text \<open>
  Strings of the program are modelled as \<^typ>\<open>string\<close>: sequences of code units below 256.
  The white space of the regular-expression class \<^verbatim>\<open>\s\<close> and of \<^verbatim>\<open>String.prototype.trim\<close>
  inside that range is TAB, LF, VT, FF, CR, SPACE and NBSP.
\<close>

definition is_space :: "char \<Rightarrow> bool" where
  "is_space c = (of_char c \<in> {9, 10, 11, 12, 13, 32, 160 :: nat})"

definition is_digit :: "char \<Rightarrow> bool" where
  "is_digit c = (48 \<le> (of_char c :: nat) \<and> (of_char c :: nat) \<le> 57)"

text \<open>The class \<^verbatim>\<open>\w\<close>: ASCII letters, digits and the underscore.\<close>

definition is_word_char :: "char \<Rightarrow> bool" where
  "is_word_char c =
     (let n = (of_char c :: nat)
      in (65 \<le> n \<and> n \<le> 90) \<or> (97 \<le> n \<and> n \<le> 122) \<or> (48 \<le> n \<and> n \<le> 57) \<or> n = 95)"

text \<open>\<^verbatim>\<open>s.trim()\<close>\<close>

definition js_trim :: "string \<Rightarrow> string" where
  "js_trim s = rev (dropWhile is_space (rev (dropWhile is_space s)))"

text \<open>
  \<^verbatim>\<open>s.replace(/X+/g, ' ')\<close> for a character class \<open>X\<close>: every maximal run of characters of
  the class becomes one space.
\<close>

function replace_runs :: "(char \<Rightarrow> bool) \<Rightarrow> string \<Rightarrow> string" where
  "replace_runs P [] = []"
| "replace_runs P (c # cs) =
     (if P c then CHR '' '' # replace_runs P (dropWhile P cs) else c # replace_runs P cs)"
  by pat_completeness auto
termination
  by (relation "measure (\<lambda>(P, s). length s)") (auto simp: le_imp_less_Suc length_dropWhile_le)

text \<open>
  \<^verbatim>\<open>s.split(/\s+/).length\<close>: the pieces are separated by the maximal white-space runs, so
  there is one piece more than there are runs (the empty string gives the one piece \<^verbatim>\<open>""\<close>).
\<close>

function count_runs :: "(char \<Rightarrow> bool) \<Rightarrow> string \<Rightarrow> nat" where
  "count_runs P [] = 0"
| "count_runs P (c # cs) =
     (if P c then Suc (count_runs P (dropWhile P cs)) else count_runs P cs)"
  by pat_completeness auto
termination
  by (relation "measure (\<lambda>(P, s). length s)") (auto simp: le_imp_less_Suc length_dropWhile_le)

definition split_ws_length :: "string \<Rightarrow> nat" where
  "split_ws_length s = Suc (count_runs is_space s)"

text \<open>\<^verbatim>\<open>s.lastIndexOf(c)\<close>: the last position of \<open>c\<close>, or \<open>-1\<close>.\<close>

fun lastIndexOf :: "string \<Rightarrow> char \<Rightarrow> int" where
  "lastIndexOf [] c = -1"
| "lastIndexOf (x # xs) c =
     (let r = lastIndexOf xs c
      in if 0 \<le> r then r + 1 else if x = c then 0 else -1)"

text \<open>Template literals print a non-negative integer in decimal.\<close>

function string_of_nat :: "nat \<Rightarrow> string" where
  "string_of_nat n =
     (if n < 10 then [char_of (48 + n)]
      else string_of_nat (n div 10) @ [char_of (48 + n mod 10)])"
  by pat_completeness auto
termination
  by (relation "measure id") auto

text \<open>\<^verbatim>\<open>parseInt(ds, 10)\<close> on a string of decimal digits.\<close>

definition parseInt :: "string \<Rightarrow> nat" where
  "parseInt ds = foldl (\<lambda>a c. 10 * a + (of_char c - 48)) 0 ds"

text \<open>\<^verbatim>\<open>s.toLowerCase()\<close> on the ASCII letters.\<close>

definition lower_char :: "char \<Rightarrow> char" where
  "lower_char c =
     (let n = (of_char c :: nat) in if 65 \<le> n \<and> n \<le> 90 then char_of (n + 32) else c)"

definition toLowerCase :: "string \<Rightarrow> string" where
  "toLowerCase s = map lower_char s"

text \<open>\<^verbatim>\<open>s.includes(pat)\<close> and \<^verbatim>\<open>s.split(pat)[0]\<close> for a non-empty literal \<open>pat\<close>.\<close>

fun js_includes :: "string \<Rightarrow> string \<Rightarrow> bool" where
  "js_includes [] pat = (pat = [])"
| "js_includes (c # cs) pat = (take (length pat) (c # cs) = pat \<or> js_includes cs pat)"

fun split_first :: "string \<Rightarrow> string \<Rightarrow> string" where
  "split_first pat [] = []"
| "split_first pat (c # cs) =
     (if take (length pat) (c # cs) = pat then [] else c # split_first pat cs)"

text \<open>\<^verbatim>\<open>[...new Set(xs)]\<close>: duplicates are dropped, the first occurrence stays in place.\<close>

fun dedupe :: "'a list \<Rightarrow> 'a list" where
  "dedupe [] = []"
| "dedupe (x # xs) = x # dedupe (filter (\<lambda>y. y \<noteq> x) xs)"

text \<open>\<^verbatim>\<open>a || b\<close> on values that are a string or \<^verbatim>\<open>undefined\<close>; \<^verbatim>\<open>x || null\<close>; \<^verbatim>\<open>x || ''\<close>.\<close>

definition truthy_str :: "string option \<Rightarrow> bool" where
  "truthy_str v = (case v of None \<Rightarrow> False | Some t \<Rightarrow> t \<noteq> [])"

definition js_or :: "string option \<Rightarrow> string option \<Rightarrow> string option" where
  "js_or a b = (if truthy_str a then a else b)"

definition or_null :: "string option \<Rightarrow> string option" where
  "or_null a = (if truthy_str a then a else None)"

definition or_empty :: "string option \<Rightarrow> string" where
  "or_empty a = (case a of None \<Rightarrow> [] | Some t \<Rightarrow> t)"


section \<open>Calls that can throw\<close>

text \<open>
  An asynchronous function of the sources is a function from the state it runs in to its
  outcome and the state it leaves: \<open>Inl message\<close> when it throws, \<open>Inr value\<close> when it
  returns. \<open>io_bind\<close> is sequencing with \<^verbatim>\<open>await\<close>, \<open>io_catch\<close> is \<^verbatim>\<open>try { ... } catch\<close>.
\<close>

type_synonym ('st, 'a) io = "'st \<Rightarrow> (string + 'a) \<times> 'st"

definition io_return :: "'a \<Rightarrow> ('st, 'a) io" where
  "io_return x = (\<lambda>st. (Inr x, st))"

definition io_throw :: "string \<Rightarrow> ('st, 'a) io" where
  "io_throw e = (\<lambda>st. (Inl e, st))"

definition io_bind :: "('st, 'a) io \<Rightarrow> ('a \<Rightarrow> ('st, 'b) io) \<Rightarrow> ('st, 'b) io" where
  "io_bind m f = (\<lambda>st. case m st of (Inl e, st') \<Rightarrow> (Inl e, st') | (Inr x, st') \<Rightarrow> f x st')"

definition io_catch :: "('st, 'a) io \<Rightarrow> (string \<Rightarrow> ('st, 'a) io) \<Rightarrow> ('st, 'a) io" where
  "io_catch m h = (\<lambda>st. case m st of (Inl e, st') \<Rightarrow> h e st' | (Inr x, st') \<Rightarrow> (Inr x, st'))"

text \<open>
  The state carries a trace: every call of a collaborator is appended to it together with
  whether it returned (\<open>True\<close>) or threw (\<open>False\<close>). \<open>observe\<close> is a call that reads the
  state, \<open>act\<close> one that may change it.
\<close>

definition returned :: "string + 'a \<Rightarrow> bool" where
  "returned r = (case r of Inl e \<Rightarrow> False | Inr x \<Rightarrow> True)"

definition observe :: "'c \<Rightarrow> ('s \<Rightarrow> string + 'a) \<Rightarrow> ('s \<times> ('c \<times> bool) list, 'a) io" where
  "observe c f = (\<lambda>(s, tr). (f s, (s, tr @ [(c, returned (f s))])))"

definition act :: "'c \<Rightarrow> ('s \<Rightarrow> (string + 'a) \<times> 's) \<Rightarrow> ('s \<times> ('c \<times> bool) list, 'a) io" where
  "act c f = (\<lambda>(s, tr). case f s of (r, s') \<Rightarrow> (r, (s', tr @ [(c, returned r)])))"


section \<open>The browser page\<close>

text \<open>
  Errors are modelled by their message (\<^verbatim>\<open>error.message\<close>); a call that can throw returns
  \<open>Inl message\<close>. Element handles are numbers. A page is a state \<open>'s\<close> with the operations
  the sources call on it. Queries observe the state; actions may change it, also when they
  throw. Logging is not modelled: a logger call neither throws nor touches the page.
\<close>

type_synonym error = string
type_synonym elem = nat

datatype browser_call =
    Query string
  | TextOf elem
  | PageUrl
  | Click elem nat
  | TypeInto elem string
  | WaitForTimeout nat
  | NavigationRace nat nat

type_synonym 's session = "'s \<times> (browser_call \<times> bool) list"

record dom_element =
  tagName :: string
  el_type :: "string option"
  textContent :: string
  el_value :: "string option"
  placeholder :: "string option"
  offsetParent_null :: bool
  rect_left :: rat
  rect_top :: rat
  rect_width :: rat
  rect_height :: rat
  el_href :: "string option"
  className :: "string option"
  el_id :: "string option"

record document =
  location_href :: string
  doc_title :: string
  now_iso :: string
  querySelectorAll :: "string \<Rightarrow> dom_element list"

record 's page_ops =
  query :: "'s \<Rightarrow> string \<Rightarrow> error + elem option"
  query_all :: "'s \<Rightarrow> string \<Rightarrow> error + elem list"
  xpath :: "'s \<Rightarrow> string \<Rightarrow> error + elem list"
  page_url :: "'s \<Rightarrow> string"
  text_of :: "'s \<Rightarrow> elem \<Rightarrow> error + string"
  evaluate_in :: "'s \<Rightarrow> error + document"
  click :: "'s \<Rightarrow> elem \<Rightarrow> nat \<Rightarrow> (error + unit) \<times> 's"
  type_into :: "'s \<Rightarrow> elem \<Rightarrow> string \<Rightarrow> (error + unit) \<times> 's"
  waitForTimeout :: "'s \<Rightarrow> nat \<Rightarrow> (error + unit) \<times> 's"
  navigation_race :: "'s \<Rightarrow> nat \<Rightarrow> nat \<Rightarrow> (error + unit) \<times> 's"

text \<open>
  \<open>query\<close> is \<^verbatim>\<open>page.$\<close>, \<open>query_all\<close> is \<^verbatim>\<open>page.$$\<close>, \<open>xpath\<close> is \<^verbatim>\<open>page.$x\<close>,
  \<open>text_of\<close> is \<^verbatim>\<open>page.evaluate(el => el.textContent, el)\<close>, \<open>evaluate_in\<close> gives the document
  in which \<^verbatim>\<open>page.evaluate(fn)\<close> runs \<^verbatim>\<open>fn\<close> (or the error it raises), \<open>click s el n\<close> is
  \<^verbatim>\<open>el.click({clickCount: n})\<close>, and \<open>navigation_race s t1 t2\<close> is
  \<^verbatim>\<open>Promise.race([page.waitForNavigation({timeout: t1}), page.waitForTimeout(t2)])\<close>.
\<close>


section \<open>The operating system, the network and the encoder\<close>

text \<open>
  The world outside the program is a state \<open>'w\<close> with the calls the sources make on it:
  the file system (\<^verbatim>\<open>fs/promises\<close>), \<^verbatim>\<open>fetch\<close>, timers, \<^verbatim>\<open>Math.random\<close>, the \<^verbatim>\<open>path\<close> module
  and one run of an ffmpeg command. Buffers are lists of byte values.
\<close>

record voice_settings =
  stability :: rat
  similarity_boost :: rat
  style :: rat
  use_speaker_boost :: bool

record request =
  req_url :: string
  req_api_key :: string
  req_text :: string
  req_voice_settings :: voice_settings
  req_model_id :: string
  req_output_format :: string

record response =
  ok :: bool
  status :: nat
  statusText :: string
  body_text :: "string + string"
  body_arrayBuffer :: "string + nat list"

record ffmpeg_command =
  inputs :: "string list"
  inputFPS :: "nat option"
  out_fps :: "nat option"
  out_size :: "string option"
  videoCodec :: "string option"
  cmd_videoBitrate :: "string option"
  audioCodec :: "string option"
  cmd_audioBitrate :: "string option"
  outputOptions :: "string list"
  output_path :: string

datatype sys_call =
    Fetch request
  | Sleep nat
  | Random nat
  | Mkdir string
  | WriteFile string "nat list"
  | Stat string
  | Readdir string
  | Unlink string
  | Rmdir string
  | Access string
  | Ffmpeg ffmpeg_command

record 'w sys_ops =
  fetch :: "'w \<Rightarrow> request \<Rightarrow> (string + response) \<times> 'w"
  set_timeout :: "'w \<Rightarrow> nat \<Rightarrow> 'w"
  math_random :: "'w \<Rightarrow> nat \<Rightarrow> nat \<times> 'w"
  fs_mkdir :: "'w \<Rightarrow> string \<Rightarrow> (string + unit) \<times> 'w"
  fs_writeFile :: "'w \<Rightarrow> string \<Rightarrow> nat list \<Rightarrow> (string + unit) \<times> 'w"
  fs_stat_size :: "'w \<Rightarrow> string \<Rightarrow> (string + nat) \<times> 'w"
  fs_readdir :: "'w \<Rightarrow> string \<Rightarrow> (string + string list) \<times> 'w"
  fs_unlink :: "'w \<Rightarrow> string \<Rightarrow> (string + unit) \<times> 'w"
  fs_rmdir :: "'w \<Rightarrow> string \<Rightarrow> (string + unit) \<times> 'w"
  fs_access :: "'w \<Rightarrow> string \<Rightarrow> (string + unit) \<times> 'w"
  ffmpeg_run :: "'w \<Rightarrow> ffmpeg_command \<Rightarrow> (string + unit) \<times> 'w"
  path_dirname :: "string \<Rightarrow> string"
  path_join :: "string \<Rightarrow> string \<Rightarrow> string"
  api_key :: "string option"

text \<open>
  \<open>math_random w n\<close> stands for \<^verbatim>\<open>Math.floor(Math.random() * n)\<close>, \<open>api_key\<close> for
  \<^verbatim>\<open>process.env.ELEVENLABS_API_KEY\<close>, and \<open>ffmpeg_run\<close> for building and running one command
  of the encoding engine until its \<^verbatim>\<open>end\<close> or \<^verbatim>\<open>error\<close> event.
\<close>

type_synonym 'w world = "'w \<times> (sys_call \<times> bool) list"

definition sys_mkdir :: "'w sys_ops \<Rightarrow> string \<Rightarrow> ('w world, unit) io" where
  "sys_mkdir sys dir = act (Mkdir dir) (\<lambda>w. fs_mkdir sys w dir)"

definition sys_writeFile :: "'w sys_ops \<Rightarrow> string \<Rightarrow> nat list \<Rightarrow> ('w world, unit) io" where
  "sys_writeFile sys file data = act (WriteFile file data) (\<lambda>w. fs_writeFile sys w file data)"

definition sys_unlink :: "'w sys_ops \<Rightarrow> string \<Rightarrow> ('w world, unit) io" where
  "sys_unlink sys file = act (Unlink file) (\<lambda>w. fs_unlink sys w file)"

definition sys_ffmpeg :: "'w sys_ops \<Rightarrow> ffmpeg_command \<Rightarrow> ('w world, unit) io" where
  "sys_ffmpeg sys cmd = act (Ffmpeg cmd) (\<lambda>w. ffmpeg_run sys w cmd)"

text \<open>\<^verbatim>\<open>promise.catch(() => {})\<close>: the call is made, its failure is dropped.\<close>

definition ignore_failure :: "('st, unit) io \<Rightarrow> ('st, unit) io" where
  "ignore_failure m = io_catch m (\<lambda>e. io_return ())"

text \<open>Calls made one after the other, each awaited.\<close>

fun io_each :: "('a \<Rightarrow> ('st, unit) io) \<Rightarrow> 'a list \<Rightarrow> ('st, unit) io" where
  "io_each f [] = io_return ()"
| "io_each f (x # xs) = io_bind (f x) (\<lambda>_. io_each f xs)"


section \<open>Audio generator (src/audio/generator.js, functional module)\<close>

subsection \<open>preprocessText\<close>

text \<open>The characters kept by \<^verbatim>\<open>replace(/[^\w\s.,!?;:()\-'"]/g, '')\<close>.\<close>

definition kept_char :: "char \<Rightarrow> bool" where
  "kept_char c = (is_word_char c \<or> is_space c \<or> c \<in> set ''.,!?;:()-'' \<or> of_char c \<in> {39, 34 :: nat})"

definition is_ascii :: "char \<Rightarrow> bool" where
  "is_ascii c = ((of_char c :: nat) \<le> 127)"

definition maxLength :: nat where
  "maxLength = 4500"

definition preprocessText :: "string \<Rightarrow> string" where
  "preprocessText text =
     (if text = [] then []
      else
        let cleanText = js_trim (replace_runs (\<lambda>c. c = CHR 0x0A) (replace_runs is_space text));
            cleanText = filter kept_char cleanText;
            cleanText = filter is_ascii cleanText;
            cleanText = js_trim (replace_runs is_space cleanText)
        in if length cleanText > maxLength then
             (let truncated = take maxLength cleanText;
                  lastSentence = lastIndexOf truncated CHR ''.''
              in if lastSentence > 3600 then take (nat (lastSentence + 1)) truncated
                 else truncated @ ''...'')
           else cleanText)"

subsection \<open>estimateAudioDuration\<close>

text \<open>
  \<^verbatim>\<open>Math.ceil(wordCount / 155 * 60)\<close>. The quotient is computed here in exact arithmetic; the
  preprocessed text has at most 4503 characters, hence fewer than 2300 pieces, and for every
  count below 2573 the double-precision result has the same ceiling as the exact one.
\<close>

definition wordsPerMinute :: rat where
  "wordsPerMinute = 155"

definition duration_of_count :: "nat \<Rightarrow> int" where
  "duration_of_count wordCount = \<lceil>(of_nat wordCount / wordsPerMinute) * 60\<rceil>"

definition estimateAudioDuration :: "string \<Rightarrow> int" where
  "estimateAudioDuration text =
     (if text = [] then 0
      else duration_of_count (split_ws_length (preprocessText text)))"

text \<open>
  The number of words of a text, as a reader counts them: the maximal runs of characters that
  are not white space.
\<close>

definition word_count :: "string \<Rightarrow> nat" where
  "word_count s = count_runs (\<lambda>c. \<not> is_space c) s"


subsection \<open>Voices\<close>

definition male_voices :: "(string \<times> string) list" where
  "male_voices =
     [(''antoni'', ''ErXwobaYiN019PkySvjV''), (''adam'', ''pNInz6obpgDQGcFmaJgB''),
      (''sam'', ''yoZ06aMxZJJ28mfd3POQ''), (''jake'', ''onwK4e9ZLuTAKqWW03F9''),
      (''drew'', ''29vD33N1CtxCmqQRPOHJ'')]"

definition female_voices :: "(string \<times> string) list" where
  "female_voices =
     [(''rachel'', ''21m00Tcm4TlvDq8ikWAM''), (''bella'', ''EXAVITQu4vr4xnSDxMaL''),
      (''elli'', ''MF3mGyEYCl7XYWbV9V6O''), (''grace'', ''oWAxZDx7w5VEj9dCyTzz''),
      (''charlotte'', ''XB0fDUnXU5powFXDhCwa'')]"

definition VOICES :: "(string \<times> string) list" where
  "VOICES = male_voices @ female_voices"

definition CONVERSATIONAL_VOICE_SETTINGS :: voice_settings where
  "CONVERSATIONAL_VOICE_SETTINGS =
     \<lparr>stability = 6 / 10, similarity_boost = 85 / 100, style = 2 / 10, use_speaker_boost = True\<rparr>"

text \<open>
  getRandomVoice: the random index is below the number of voices, so the lookup always finds
  a voice.
\<close>

definition getRandomVoice :: "'w sys_ops \<Rightarrow> string option \<Rightarrow> ('w world, string) io" where
  "getRandomVoice sys gender =
     (let availableVoices =
            (if gender = Some ''male'' then male_voices
             else if gender = Some ''female'' then female_voices else VOICES)
      in io_bind (act (Random (length availableVoices))
                    (\<lambda>w. case math_random sys w (length availableVoices) of (i, w') \<Rightarrow> (Inr i, w')))
           (\<lambda>randomIndex. io_return (snd (availableVoices ! (randomIndex mod length availableVoices)))))"

subsection \<open>makeApiRequest\<close>

definition api_request :: "string \<Rightarrow> string \<Rightarrow> string \<Rightarrow> voice_settings \<Rightarrow> request" where
  "api_request text apiKey voiceId voiceSettings =
     \<lparr>req_url = ''https://api.elevenlabs.io/v1/text-to-speech/'' @ voiceId,
      req_api_key = apiKey, req_text = text, req_voice_settings = voiceSettings,
      req_model_id = ''eleven_monolingual_v1'', req_output_format = ''mp3_44100_128''\<rparr>"

text \<open>The body of the \<^verbatim>\<open>try\<close> block: one request and the reading of its answer.\<close>

definition api_attempt :: "'w sys_ops \<Rightarrow> request \<Rightarrow> ('w world, nat list) io" where
  "api_attempt sys req =
     io_bind (act (Fetch req) (\<lambda>w. fetch sys w req)) (\<lambda>response.
       if \<not> ok response then
         (let errorText = (case body_text response of Inl e \<Rightarrow> ''Unknown error'' | Inr t \<Rightarrow> t)
          in io_throw (''Eleven Labs API error: '' @ string_of_nat (status response) @ '' ''
                        @ statusText response @ '' - '' @ errorText))
       else (case body_arrayBuffer response of Inl e \<Rightarrow> io_throw e | Inr buf \<Rightarrow> io_return buf))"

definition sys_sleep :: "'w sys_ops \<Rightarrow> nat \<Rightarrow> ('w world, unit) io" where
  "sys_sleep sys ms = act (Sleep ms) (\<lambda>w. (Inr (), set_timeout sys w ms))"

text \<open>
  The \<^verbatim>\<open>for\<close> loop from the iteration \<open>attempt\<close> on. The result \<open>None\<close> is the \<^verbatim>\<open>undefined\<close>
  that the function returns when the loop ends without an iteration.
\<close>

function makeApiRequest_from ::
  "'w sys_ops \<Rightarrow> request \<Rightarrow> nat \<Rightarrow> nat \<Rightarrow> ('w world, nat list option) io" where
  "makeApiRequest_from sys req retries attempt =
     (if attempt < retries then
        io_catch (io_bind (api_attempt sys req) (\<lambda>buf. io_return (Some buf)))
          (\<lambda>error. if attempt = retries - 1 then io_throw error
                    else io_bind (sys_sleep sys (2 ^ attempt * 1000))
                           (\<lambda>_. makeApiRequest_from sys req retries (Suc attempt)))
      else io_return None)"
  by pat_completeness auto
termination
  by (relation "measure (\<lambda>(sys, req, retries, attempt). retries - attempt)") auto

definition makeApiRequest ::
  "'w sys_ops \<Rightarrow> string \<Rightarrow> string \<Rightarrow> string \<Rightarrow> voice_settings \<Rightarrow> nat \<Rightarrow> ('w world, nat list option) io" where
  "makeApiRequest sys text apiKey voiceId voiceSettings retries =
     makeApiRequest_from sys (api_request text apiKey voiceId voiceSettings) retries 0"

subsection \<open>mockGenerateAudio\<close>

definition mockAudioData :: "nat list" where
  "mockAudioData = [0xFF, 0xFB, 0x90, 0x00] @ replicate 1000 0x00"

definition mockGenerateAudio :: "'w sys_ops \<Rightarrow> string \<Rightarrow> string \<Rightarrow> ('w world, string) io" where
  "mockGenerateAudio sys text outputPath =
     io_bind (sys_mkdir sys (path_dirname sys outputPath)) (\<lambda>_.
     io_bind (sys_writeFile sys outputPath mockAudioData) (\<lambda>_.
     io_return outputPath))"

subsection \<open>generateSpeech\<close>

record speech_options =
  voice :: "string option"
  gender :: "string option"
  voiceSettings :: voice_settings

text \<open>
  \<open>enhance\<close> stands for enhanceTextForSpeech, a function from strings to strings; what is
  proved of generateSpeech holds for every such function. The default number of retries of
  makeApiRequest is 3. \<^verbatim>\<open>Buffer.from(undefined)\<close> throws a TypeError.
\<close>

definition generateSpeech ::
  "'w sys_ops \<Rightarrow> (string \<Rightarrow> string) \<Rightarrow> string \<Rightarrow> string \<Rightarrow> speech_options \<Rightarrow> ('w world, string) io" where
  "generateSpeech sys enhance text outputPath options =
     io_catch
       (if text = [] \<or> length (js_trim text) = 0
        then io_throw ''Text is required and must be a non-empty string''
        else if truthy_str (gender options) \<and> gender options \<notin> {Some ''male'', Some ''female''}
        then io_throw (''Gender must be '' @ [CHR 0x22] @ ''male'' @ [CHR 0x22] @ '', ''
                        @ [CHR 0x22] @ ''female'' @ [CHR 0x22] @ '', or null'')
        else if \<not> truthy_str (api_key sys)
        then mockGenerateAudio sys text outputPath
        else
          io_catch
            (io_bind (if truthy_str (voice options) then io_return (or_empty (voice options))
                      else getRandomVoice sys (gender options)) (\<lambda>voiceId.
             let enhancedText = enhance text;
                 processedText = preprocessText enhancedText
             in if length processedText = 0 then io_throw ''Text becomes empty after preprocessing''
                else
                  io_bind (sys_mkdir sys (path_dirname sys outputPath)) (\<lambda>_.
                  io_bind (makeApiRequest sys processedText (or_empty (api_key sys)) voiceId
                             (voiceSettings options) 3) (\<lambda>audioBuffer.
                  io_bind (case audioBuffer of
                             None \<Rightarrow> io_throw ''The first argument must be of type string or an instance of Buffer''
                           | Some buf \<Rightarrow> sys_writeFile sys outputPath buf) (\<lambda>_.
                  io_bind (act (Stat outputPath) (\<lambda>w. fs_stat_size sys w outputPath)) (\<lambda>size.
                  if size = 0 then io_throw ''Generated voiceover file is empty''
                  else io_return outputPath))))))
            (\<lambda>apiError. mockGenerateAudio sys text outputPath))
       (\<lambda>error. io_throw (''Failed to generate speech: '' @ error))"


section \<open>Video processor (VideoProcessor)\<close>

subsection \<open>getQualitySettings\<close>

record quality_settings =
  videoBitrate :: string
  audioBitrate :: string

text \<open>
  The result of reading a property of the object literal \<^verbatim>\<open>settings\<close>: one of its own three
  entries, or a member inherited from \<^verbatim>\<open>Object.prototype\<close> (a function, or the prototype
  object itself for \<^verbatim>\<open>__proto__\<close>), which has no bitrate fields.
\<close>

datatype settings_value = Own quality_settings | Inherited string

definition settings_high :: quality_settings where
  "settings_high = \<lparr>videoBitrate = ''5000k'', audioBitrate = ''192k''\<rparr>"

definition settings_medium :: quality_settings where
  "settings_medium = \<lparr>videoBitrate = ''2500k'', audioBitrate = ''128k''\<rparr>"

definition settings_low :: quality_settings where
  "settings_low = \<lparr>videoBitrate = ''1000k'', audioBitrate = ''96k''\<rparr>"

definition settings :: "(string \<times> quality_settings) list" where
  "settings = [(''high'', settings_high), (''medium'', settings_medium), (''low'', settings_low)]"

definition object_prototype_keys :: "string list" where
  "object_prototype_keys =
     [''constructor'', ''__defineGetter__'', ''__defineSetter__'', ''hasOwnProperty'',
      ''__lookupGetter__'', ''__lookupSetter__'', ''isPrototypeOf'', ''propertyIsEnumerable'',
      ''toString'', ''valueOf'', ''__proto__'', ''toLocaleString'']"

text \<open>\<^verbatim>\<open>settings[key]\<close>: own properties first, then the prototype; \<open>None\<close> is \<^verbatim>\<open>undefined\<close>.\<close>

definition settings_get :: "string \<Rightarrow> settings_value option" where
  "settings_get key =
     (case map_of settings key of
        Some s \<Rightarrow> Some (Own s)
      | None \<Rightarrow> if key \<in> set object_prototype_keys then Some (Inherited key) else None)"

text \<open>
  \<^verbatim>\<open>return settings[this.quality] || settings.high\<close>. Every value that the lookup finds is an
  object or a function, hence truthy; only \<^verbatim>\<open>undefined\<close> falls through to the default.
\<close>

definition getQualitySettings :: "string \<Rightarrow> settings_value" where
  "getQualitySettings quality =
     (case settings_get quality of Some v \<Rightarrow> v | None \<Rightarrow> Own settings_high)"

text \<open>\<^verbatim>\<open>qualitySettings.videoBitrate\<close> and \<^verbatim>\<open>qualitySettings.audioBitrate\<close> as the encoder reads them.\<close>

fun videoBitrate_of :: "settings_value \<Rightarrow> string option" where
  "videoBitrate_of (Own s) = Some (videoBitrate s)"
| "videoBitrate_of (Inherited k) = None"

fun audioBitrate_of :: "settings_value \<Rightarrow> string option" where
  "audioBitrate_of (Own s) = Some (audioBitrate s)"
| "audioBitrate_of (Inherited k) = None"


subsection \<open>The recording\<close>

record frame =
  frame_buffer :: "nat list"
  frame_timestamp :: int
  frameNumber :: nat

record audio_segment =
  segment_buffer :: "nat list"
  startTime :: int
  duration :: int
  segmentNumber :: nat

record video_processor =
  has_logger :: bool
  outputDir :: string
  fps :: nat
  quality :: string
  resolution_width :: nat
  resolution_height :: nat
  frames :: "frame list"
  audioSegments :: "audio_segment list"

subsection \<open>saveFramesToDisk\<close>

text \<open>\<^verbatim>\<open>index.toString().padStart(6, '0')\<close>\<close>

definition padStart6 :: "string \<Rightarrow> string" where
  "padStart6 t = replicate (6 - length t) CHR ''0'' @ t"

definition framePath :: "'w sys_ops \<Rightarrow> string \<Rightarrow> nat \<Rightarrow> string" where
  "framePath sys tempDir index =
     path_join sys tempDir (''frame_'' @ padStart6 (string_of_nat index) @ ''.png'')"

text \<open>
  \<^verbatim>\<open>await Promise.all(frames.map(async ...))\<close>: every write is started, in the order of the
  frames; when one of them fails the whole call throws, here with the error of the first
  frame whose write failed.
\<close>

fun write_all :: "'w sys_ops \<Rightarrow> (string \<times> nat list) list \<Rightarrow> ('w world, string option) io" where
  "write_all sys [] = io_return None"
| "write_all sys ((file, data) # rest) =
     (\<lambda>st. case sys_writeFile sys file data st of
        (Inl e, st') \<Rightarrow> (case write_all sys rest st' of (r, st'') \<Rightarrow> (Inr (Some e), st''))
      | (Inr u, st') \<Rightarrow> write_all sys rest st')"

definition saveFramesToDisk :: "'w sys_ops \<Rightarrow> video_processor \<Rightarrow> string \<Rightarrow> ('w world, unit) io" where
  "saveFramesToDisk sys vp tempDir =
     io_bind (write_all sys (map (\<lambda>(index, f). (framePath sys tempDir index, frame_buffer f))
                               (enumerate 0 (frames vp))))
       (\<lambda>failure. case failure of None \<Rightarrow> io_return () | Some e \<Rightarrow> io_throw e)"

subsection \<open>createAudioTrack\<close>

definition segmentPath :: "'w sys_ops \<Rightarrow> video_processor \<Rightarrow> nat \<Rightarrow> string" where
  "segmentPath sys vp index =
     path_join sys (outputDir vp) (''temp_audio_'' @ string_of_nat index @ ''.wav'')"

text \<open>
  The writes of the segments are started and not awaited: a failure is dropped, and a segment
  becomes an input of the command when its write completes. The command is run in the same
  turn; its inputs are given here as the segments whose write succeeded.
\<close>

fun write_segments ::
  "'w sys_ops \<Rightarrow> (string \<times> nat list) list \<Rightarrow> ('w world, string list) io" where
  "write_segments sys [] = io_return []"
| "write_segments sys ((file, data) # rest) =
     (\<lambda>st. case sys_writeFile sys file data st of
        (Inl e, st') \<Rightarrow> write_segments sys rest st'
      | (Inr u, st') \<Rightarrow> io_bind (write_segments sys rest) (\<lambda>files. io_return (file # files)) st')"

definition audio_track_command :: "string list \<Rightarrow> string \<Rightarrow> ffmpeg_command" where
  "audio_track_command segment_files audioPath =
     \<lparr>inputs = segment_files, inputFPS = None, out_fps = None, out_size = None,
      videoCodec = None, cmd_videoBitrate = None, audioCodec = Some ''pcm_s16le'',
      cmd_audioBitrate = None, outputOptions = [], output_path = audioPath\<rparr>"

definition createAudioTrack :: "'w sys_ops \<Rightarrow> video_processor \<Rightarrow> ('w world, string) io" where
  "createAudioTrack sys vp =
     (let audioPath = path_join sys (outputDir vp) ''temp_audio.wav''
      in io_bind (write_segments sys (map (\<lambda>(index, seg). (segmentPath sys vp index, segment_buffer seg))
                                        (enumerate 0 (audioSegments vp)))) (\<lambda>segment_files.
         io_bind (sys_ffmpeg sys (audio_track_command segment_files audioPath)) (\<lambda>_.
         io_return audioPath)))"

subsection \<open>createVideoWithAudio and createVideoOnly\<close>

definition encoder_options :: "string list" where
  "encoder_options = [''-pix_fmt yuv420p'', ''-preset medium'', ''-crf 23'', ''-movflags +faststart'']"

definition size_string :: "video_processor \<Rightarrow> string" where
  "size_string vp = string_of_nat (resolution_width vp) @ ''x'' @ string_of_nat (resolution_height vp)"

definition video_with_audio_command ::
  "'w sys_ops \<Rightarrow> video_processor \<Rightarrow> string \<Rightarrow> string \<Rightarrow> string \<Rightarrow> ffmpeg_command" where
  "video_with_audio_command sys vp tempDir audioPath outputPath =
     (let qualitySettings = getQualitySettings (quality vp)
      in \<lparr>inputs = [path_join sys tempDir ''frame_%06d.png'', audioPath],
          inputFPS = Some (fps vp), out_fps = Some (fps vp), out_size = Some (size_string vp),
          videoCodec = Some ''libx264'', cmd_videoBitrate = videoBitrate_of qualitySettings,
          audioCodec = Some ''aac'', cmd_audioBitrate = audioBitrate_of qualitySettings,
          outputOptions = encoder_options, output_path = outputPath\<rparr>)"

definition video_only_command ::
  "'w sys_ops \<Rightarrow> video_processor \<Rightarrow> string \<Rightarrow> string \<Rightarrow> ffmpeg_command" where
  "video_only_command sys vp tempDir outputPath =
     (let qualitySettings = getQualitySettings (quality vp)
      in \<lparr>inputs = [path_join sys tempDir ''frame_%06d.png''],
          inputFPS = Some (fps vp), out_fps = Some (fps vp), out_size = Some (size_string vp),
          videoCodec = Some ''libx264'', cmd_videoBitrate = videoBitrate_of qualitySettings,
          audioCodec = None, cmd_audioBitrate = None,
          outputOptions = encoder_options, output_path = outputPath\<rparr>)"

definition createVideoWithAudio ::
  "'w sys_ops \<Rightarrow> video_processor \<Rightarrow> string \<Rightarrow> string \<Rightarrow> string \<Rightarrow> ('w world, unit) io" where
  "createVideoWithAudio sys vp tempDir audioPath outputPath =
     sys_ffmpeg sys (video_with_audio_command sys vp tempDir audioPath outputPath)"

definition createVideoOnly ::
  "'w sys_ops \<Rightarrow> video_processor \<Rightarrow> string \<Rightarrow> string \<Rightarrow> ('w world, unit) io" where
  "createVideoOnly sys vp tempDir outputPath =
     sys_ffmpeg sys (video_only_command sys vp tempDir outputPath)"

subsection \<open>cleanupTempFiles and fileExists\<close>

definition cleanupTempFiles :: "'w sys_ops \<Rightarrow> video_processor \<Rightarrow> string \<Rightarrow> ('w world, unit) io" where
  "cleanupTempFiles sys vp tempDir =
     io_catch
       (io_bind (act (Readdir tempDir) (\<lambda>w. fs_readdir sys w tempDir)) (\<lambda>files.
        io_bind (io_each (\<lambda>file. ignore_failure (sys_unlink sys (path_join sys tempDir file))) files) (\<lambda>_.
        io_bind (ignore_failure (act (Rmdir tempDir) (\<lambda>w. fs_rmdir sys w tempDir))) (\<lambda>_.
        io_bind (io_each (\<lambda>index. ignore_failure (sys_unlink sys (segmentPath sys vp index)))
                   [0 ..< length (audioSegments vp)]) (\<lambda>_.
        ignore_failure (sys_unlink sys (path_join sys (outputDir vp) ''temp_audio.wav'')))))))
       (\<lambda>error. io_return ())"

definition fileExists :: "'w sys_ops \<Rightarrow> string \<Rightarrow> ('w world, bool) io" where
  "fileExists sys filePath =
     io_catch (io_bind (act (Access filePath) (\<lambda>w. fs_access sys w filePath)) (\<lambda>_. io_return True))
       (\<lambda>error. io_return False)"

subsection \<open>finalizeVideo\<close>

text \<open>
  The file-existence test is an argument of the final log call, which is made only when the
  processor has a logger.
\<close>

definition finalizeVideo :: "'w sys_ops \<Rightarrow> video_processor \<Rightarrow> string \<Rightarrow> ('w world, string) io" where
  "finalizeVideo sys vp outputPath =
     io_catch
       (io_bind (sys_mkdir sys (path_dirname sys outputPath)) (\<lambda>_.
        let tempDir = path_join sys (outputDir vp) ''temp_frames''
        in io_bind (sys_mkdir sys tempDir) (\<lambda>_.
           io_bind (saveFramesToDisk sys vp tempDir) (\<lambda>_.
           io_bind (if length (audioSegments vp) > 0
                    then io_bind (createAudioTrack sys vp) (\<lambda>audioPath.
                           createVideoWithAudio sys vp tempDir audioPath outputPath)
                    else createVideoOnly sys vp tempDir outputPath) (\<lambda>_.
           io_bind (cleanupTempFiles sys vp tempDir) (\<lambda>_.
           io_bind (if has_logger vp then io_bind (fileExists sys outputPath) (\<lambda>_. io_return ())
                    else io_return ()) (\<lambda>_.
           io_return outputPath)))))))
       (\<lambda>error. io_throw (''Video processing failed: '' @ error))"

text \<open>The runs of the encoding engine in a trace, in order.\<close>

fun ffmpeg_runs :: "(sys_call \<times> bool) list \<Rightarrow> ffmpeg_command list" where
  "ffmpeg_runs [] = []"
| "ffmpeg_runs ((Ffmpeg cmd, b) # tr) = cmd # ffmpeg_runs tr"
| "ffmpeg_runs (c # tr) = ffmpeg_runs tr"


section \<open>Browser manager (BrowserManager)\<close>

subsection \<open>extractNthIndex\<close>

definition nth_of_type_open :: string where
  "nth_of_type_open = '':nth-of-type(''"

text \<open>
  One attempt of \<^verbatim>\<open>/:nth-of-type\((\d+)\)/\<close> at the start of \<open>s\<close>: the literal, a non-empty
  greedy run of digits, and a closing parenthesis right after the run.
\<close>

definition match_nth_at :: "string \<Rightarrow> nat option" where
  "match_nth_at s =
     (if take (length nth_of_type_open) s = nth_of_type_open then
        (let rest = drop (length nth_of_type_open) s;
             ds = takeWhile is_digit rest;
             after = dropWhile is_digit rest
         in if ds \<noteq> [] \<and> take 1 after = '')'' then Some (parseInt ds) else None)
      else None)"

text \<open>\<^verbatim>\<open>selector.match(...)\<close>: the leftmost position where the attempt succeeds.\<close>

fun find_nth :: "string \<Rightarrow> nat option" where
  "find_nth [] = None"
| "find_nth (c # cs) =
     (case match_nth_at (c # cs) of Some k \<Rightarrow> Some k | None \<Rightarrow> find_nth cs)"

definition extractNthIndex :: "string \<Rightarrow> nat" where
  "extractNthIndex selector = (case find_nth selector of Some k \<Rightarrow> k | None \<Rightarrow> 1)"

subsection \<open>generateFallbackSelectors\<close>

definition generateFallbackSelectors :: "string \<Rightarrow> string list" where
  "generateFallbackSelectors selector =
     (if js_includes selector nth_of_type_open then
        (let baseSelector = split_first nth_of_type_open selector;
             currentIndex = int (extractNthIndex selector)
         in map (\<lambda>i. baseSelector @ nth_of_type_open @ string_of_nat (nat i) @ '')'')
              (filter (\<lambda>i. i \<noteq> currentIndex) [max 1 (currentIndex - 2) ..currentIndex + 2])
            @ [baseSelector @ '':first-of-type'', baseSelector @ '':last-of-type'', baseSelector])
      else [])
     @ (if js_includes selector ''button''
        then [''button'', ''[role='' @ [CHR 0x22] @ ''button'' @ [CHR 0x22] @ '']'',
              ''input[type='' @ [CHR 0x22] @ ''button'' @ [CHR 0x22] @ '']'',
              ''input[type='' @ [CHR 0x22] @ ''submit'' @ [CHR 0x22] @ '']'']
        else [])
     @ (if js_includes selector ''input''
        then [''input'', ''input[type='' @ [CHR 0x22] @ ''text'' @ [CHR 0x22] @ '']'',
              ''input[type='' @ [CHR 0x22] @ ''email'' @ [CHR 0x22] @ '']'']
        else [])
     @ (if js_includes selector ''a'' then [''a'', ''a[href]''] else [])"

text \<open>
  The selector without its nth-of-type part, as generateFallbackSelectors computes it:
  \<^verbatim>\<open>selector.split(':nth-of-type(')[0]\<close>, which is the whole selector when it has no such part.
\<close>

definition index_free_base :: "string \<Rightarrow> string" where
  "index_free_base selector = split_first nth_of_type_open selector"

subsection \<open>extractTextKeywords\<close>

text \<open>
  \<^verbatim>\<open>description.match(/q([^q]+)q/g)\<close> for a quote character \<open>q\<close>: the matches from left to
  right, each with its quotes; the search goes on behind a match.
\<close>

function quoted_matches :: "char \<Rightarrow> string \<Rightarrow> string list" where
  "quoted_matches q [] = []"
| "quoted_matches q (c # cs) =
     (if c = q then
        (let body = takeWhile (\<lambda>x. x \<noteq> q) cs;
             rest = dropWhile (\<lambda>x. x \<noteq> q) cs
         in if body \<noteq> [] \<and> rest \<noteq> [] then (q # body @ [q]) # quoted_matches q (tl rest)
            else quoted_matches q cs)
      else quoted_matches q cs)"
  by pat_completeness auto
termination
proof (relation "measure (\<lambda>(q, s). length s)")
  show "wf (measure (\<lambda>(q, s). length s))" by simp
next
  fix q :: char and c :: char and cs body rest
  assume "rest = dropWhile (\<lambda>x. x \<noteq> q) cs"
  then have "length rest \<le> length cs"
    by (simp add: length_dropWhile_le)
  then have "length (tl rest) \<le> length cs"
    by simp
  then show "((q, tl rest), (q, c # cs)) \<in> measure (\<lambda>(q, s). length s)" by simp
qed auto

definition action_words :: "string list" where
  "action_words =
     [''sign up'', ''login'', ''submit'', ''get'', ''access'', ''early'', ''button'', ''click'']"

text \<open>
  One attempt of \<^verbatim>\<open>/\b(sign up|login|...|click)\b/i\<close> at the start of \<open>s\<close>, the boundary in front
  being given: the first alternative that matches without regard to case and is followed by
  the end of the string or a character outside \<^verbatim>\<open>\w\<close>. The matched text keeps its case.
\<close>

definition match_action_at :: "string \<Rightarrow> string option" where
  "match_action_at s =
     map_option (\<lambda>w. take (length w) s)
       (find (\<lambda>w. toLowerCase (take (length w) s) = w \<and>
                   (case drop (length w) s of [] \<Rightarrow> True | d # _ \<Rightarrow> \<not> is_word_char d))
          action_words)"

text \<open>The global match; \<open>pw\<close> says whether the character in front is a word character.\<close>

function action_matches :: "bool \<Rightarrow> string \<Rightarrow> string list" where
  "action_matches pw [] = []"
| "action_matches pw (c # cs) =
     (case (if pw then None else match_action_at (c # cs)) of
        Some m \<Rightarrow> m # action_matches True (drop (length m) (c # cs))
      | None \<Rightarrow> action_matches (is_word_char c) cs)"
  by pat_completeness auto
termination
proof (relation "measure (\<lambda>(pw, s). length s)")
  show "wf (measure (\<lambda>(pw, s). length s))" by simp
next
  fix pw :: bool and c :: char and cs m
  assume "(if pw then None else match_action_at (c # cs)) = Some m"
  then obtain w where
    "find (\<lambda>w. toLowerCase (take (length w) (c # cs)) = w \<and>
               (case drop (length w) (c # cs) of [] \<Rightarrow> True | d # _ \<Rightarrow> \<not> is_word_char d))
       action_words = Some w"
    and m: "m = take (length w) (c # cs)"
    by (auto simp: match_action_at_def split: if_splits)
  then have "w \<in> set action_words" and "toLowerCase m = w"
    by (auto simp: find_Some_iff)
  then have "m \<noteq> []"
    by (auto simp: action_words_def toLowerCase_def)
  then show "((True, drop (length m) (c # cs)), (pw, c # cs)) \<in> measure (\<lambda>(pw, s). length s)"
    by (cases m) auto
qed auto

definition is_quote :: "char \<Rightarrow> bool" where
  "is_quote c = (of_char c \<in> {39, 34 :: nat})"

definition extractTextKeywords :: "string \<Rightarrow> string list" where
  "extractTextKeywords description =
     (if description = [] then []
      else
        let single = quoted_matches (CHR 0x27) description;
            quotedText = (if single \<noteq> [] then single else quoted_matches (CHR 0x22) description);
            actionWords = action_matches False description;
            keywords = map (filter (\<lambda>c. \<not> is_quote c)) quotedText @ actionWords
        in dedupe keywords)"

subsection \<open>findElementWithFallback\<close>

definition translate_call :: "string \<Rightarrow> string" where
  "translate_call node =
     ''translate('' @ node @ '', '' @ [CHR 0x27] @ ''ABCDEFGHIJKLMNOPQRSTUVWXYZ'' @ [CHR 0x27]
       @ '', '' @ [CHR 0x27] @ ''abcdefghijklmnopqrstuvwxyz'' @ [CHR 0x27] @ '')''"

definition contains_clause :: "string \<Rightarrow> string \<Rightarrow> string" where
  "contains_clause node keyword =
     ''[contains('' @ translate_call node @ '', '' @ [CHR 0x22] @ toLowerCase keyword @ [CHR 0x22] @ '')]''"

definition keyword_xpaths :: "string \<Rightarrow> string list" where
  "keyword_xpaths keyword =
     [''//button'' @ contains_clause ''text()'' keyword,
      ''//a'' @ contains_clause ''text()'' keyword,
      ''//*[@role='' @ [CHR 0x27] @ ''button'' @ [CHR 0x27] @ '' or @onclick or name()=''
        @ [CHR 0x27] @ ''button'' @ [CHR 0x27] @ '' or name()='' @ [CHR 0x27] @ ''a'' @ [CHR 0x27] @ '']''
        @ contains_clause ''text()'' keyword,
      ''//*'' @ contains_clause ''.'' keyword]"

text \<open>The XPath searches for one keyword, in order; the first element of the first hit.\<close>

fun first_xpath_hit :: "'s page_ops \<Rightarrow> 's \<Rightarrow> string list \<Rightarrow> error + elem option" where
  "first_xpath_hit ops s [] = Inr None"
| "first_xpath_hit ops s (x # xs) =
     (case xpath ops s x of
        Inl e \<Rightarrow> Inl e
      | Inr [] \<Rightarrow> first_xpath_hit ops s xs
      | Inr (el # _) \<Rightarrow> Inr (Some el))"

text \<open>Strategy 2: an exception inside the searches for a keyword moves on to the next keyword.\<close>

fun text_strategy :: "'s page_ops \<Rightarrow> 's \<Rightarrow> string list \<Rightarrow> elem option" where
  "text_strategy ops s [] = None"
| "text_strategy ops s (keyword # keywords) =
     (case first_xpath_hit ops s (keyword_xpaths keyword) of
        Inr (Some el) \<Rightarrow> Some el
      | _ \<Rightarrow> text_strategy ops s keywords)"

text \<open>Strategy 3: the fallback selectors in order.\<close>

fun try_selectors :: "'s page_ops \<Rightarrow> 's \<Rightarrow> string list \<Rightarrow> error + elem option" where
  "try_selectors ops s [] = Inr None"
| "try_selectors ops s (f # fs) =
     (case query ops s f of
        Inl e \<Rightarrow> Inl e
      | Inr (Some el) \<Rightarrow> Inr (Some el)
      | Inr None \<Rightarrow> try_selectors ops s fs)"

text \<open>
  Strategy 4 on the list \<^verbatim>\<open>elements\<close> that \<^verbatim>\<open>page.$$(baseSelector)\<close> returned:
  \<^verbatim>\<open>elements[Math.min(targetIndex - 1, elements.length - 1)] || elements[0]\<close>. An index outside
  the array reads \<^verbatim>\<open>undefined\<close>, and element handles are truthy. Indices are exact here;
  JavaScript numbers agree with them below \<open>2^53\<close>.
\<close>

definition positional_pick :: "string \<Rightarrow> 'a list \<Rightarrow> 'a option" where
  "positional_pick selector elements =
     (if length elements > 0 then
        (let targetIndex = int (extractNthIndex selector);
             i = min (targetIndex - 1) (int (length elements) - 1)
         in if 0 \<le> i \<and> i < int (length elements) then Some (elements ! nat i)
            else Some (elements ! 0))
      else None)"

text \<open>
  Strategy 4 as a whole: \<^verbatim>\<open>selector.split(':')[0]\<close> is the selector up to its first colon, and
  \<^verbatim>\<open>page.$$\<close> of it gives the list from which the pick is made.
\<close>

definition positional_strategy :: "'s page_ops \<Rightarrow> 's \<Rightarrow> string \<Rightarrow> error + elem option" where
  "positional_strategy ops s selector =
     (let baseSelector = takeWhile (\<lambda>c. c \<noteq> CHR '':'') selector
      in case query_all ops s baseSelector of
           Inl e \<Rightarrow> Inl e
         | Inr elements \<Rightarrow> Inr (positional_pick selector elements))"

definition findElementWithFallback ::
  "'s page_ops \<Rightarrow> 's option \<Rightarrow> string \<Rightarrow> string \<Rightarrow> error + elem option" where
  "findElementWithFallback ops page selector description =
     (case page of
        None \<Rightarrow> Inr None
      | Some s \<Rightarrow>
          (case query ops s selector of
             Inl e \<Rightarrow> Inl e
           | Inr (Some el) \<Rightarrow> Inr (Some el)
           | Inr None \<Rightarrow>
               (case (if description \<noteq> [] then text_strategy ops s (extractTextKeywords description)
                      else None) of
                  Some el \<Rightarrow> Inr (Some el)
                | None \<Rightarrow>
                    (case try_selectors ops s (generateFallbackSelectors selector) of
                       Inl e \<Rightarrow> Inl e
                     | Inr (Some el) \<Rightarrow> Inr (Some el)
                     | Inr None \<Rightarrow> positional_strategy ops s selector))))"

subsection \<open>capturePageState\<close>

record element_info =
  tag :: string
  info_type :: "string option"
  info_text :: string
  info_selector :: string
  position_x :: rat
  position_y :: rat
  size_width :: rat
  size_height :: rat
  visible :: bool

record ai_element_info = element_info +
  href :: "string option"
  info_className :: string
  info_id :: string

record 'i page_state =
  url :: string
  title :: string
  timestamp :: string
  interactiveElements :: "'i list"

text \<open>
  \<^verbatim>\<open>el.textContent?.trim() || el.value || el.placeholder || ''\<close>. Coordinates are exact rationals
  here; the page computes them in double precision.
\<close>

definition element_text :: "dom_element \<Rightarrow> string" where
  "element_text el =
     or_empty (js_or (js_or (js_or (Some (js_trim (textContent el))) (el_value el)) (placeholder el))
                 (Some []))"

definition elementInfo :: "string \<Rightarrow> nat \<Rightarrow> dom_element \<Rightarrow> element_info" where
  "elementInfo selector index el =
     \<lparr>tag = toLowerCase (tagName el),
      info_type = or_null (el_type el),
      info_text = element_text el,
      info_selector = selector @ '':nth-of-type('' @ string_of_nat (index + 1) @ '')'',
      position_x = rect_left el + rect_width el / 2,
      position_y = rect_top el + rect_height el / 2,
      size_width = rect_width el,
      size_height = rect_height el,
      visible = (rect_width el > 0 \<and> rect_height el > 0)\<rparr>"

definition ai_elementInfo :: "string \<Rightarrow> nat \<Rightarrow> dom_element \<Rightarrow> ai_element_info" where
  "ai_elementInfo selector index el =
     element_info.extend (elementInfo selector index el)
       (ai_element_info.fields (or_null (el_href el)) (or_empty (className el)) (or_empty (el_id el)))"

definition browser_selectors :: "string list" where
  "browser_selectors =
     [''button'', ''a[href]'',
      ''input[type='' @ [CHR 0x22] @ ''button'' @ [CHR 0x22] @ '']'',
      ''input[type='' @ [CHR 0x22] @ ''submit'' @ [CHR 0x22] @ '']'',
      ''[role='' @ [CHR 0x22] @ ''button'' @ [CHR 0x22] @ '']'',
      ''[onclick]'', ''select'',
      ''input[type='' @ [CHR 0x22] @ ''text'' @ [CHR 0x22] @ '']'',
      ''input[type='' @ [CHR 0x22] @ ''email'' @ [CHR 0x22] @ '']'',
      ''textarea'']"

definition ai_selectors :: "string list" where
  "ai_selectors =
     [''button'', ''a[href]'',
      ''input[type='' @ [CHR 0x22] @ ''button'' @ [CHR 0x22] @ '']'',
      ''input[type='' @ [CHR 0x22] @ ''submit'' @ [CHR 0x22] @ '']'',
      ''input[type='' @ [CHR 0x22] @ ''text'' @ [CHR 0x22] @ '']'',
      ''input[type='' @ [CHR 0x22] @ ''email'' @ [CHR 0x22] @ '']'',
      ''input[type='' @ [CHR 0x22] @ ''password'' @ [CHR 0x22] @ '']'',
      ''textarea'', ''select'',
      ''[role='' @ [CHR 0x22] @ ''button'' @ [CHR 0x22] @ '']'',
      ''[onclick]'', ''.btn'', ''.button'']"

text \<open>
  The two nested \<^verbatim>\<open>forEach\<close> loops: for every selector in order, for every matched element
  with its index, the element is pushed when it passes the tests.
\<close>

definition collect ::
  "document \<Rightarrow> string list \<Rightarrow> (string \<Rightarrow> nat \<Rightarrow> dom_element \<Rightarrow> 'i) \<Rightarrow> ('i \<Rightarrow> bool) \<Rightarrow> 'i list" where
  "collect doc selectors info keep =
     concat (map (\<lambda>selector.
        concat (map (\<lambda>(index, el).
            if \<not> offsetParent_null el \<and> keep (info selector index el)
            then [info selector index el] else [])
          (enumerate 0 (querySelectorAll doc selector))))
       selectors)"

text \<open>The function that BrowserManager.capturePageState evaluates in the page.\<close>

definition browser_snapshot :: "document \<Rightarrow> element_info page_state" where
  "browser_snapshot doc =
     (let interactiveElements =
            collect doc browser_selectors elementInfo
              (\<lambda>i. info_text i \<noteq> [] \<or> truthy_str (info_type i))
      in \<lparr>url = location_href doc, title = doc_title doc, timestamp = now_iso doc,
          interactiveElements = take 20 interactiveElements\<rparr>)"

definition BrowserManager_capturePageState ::
  "'s page_ops \<Rightarrow> 's option \<Rightarrow> error + element_info page_state" where
  "BrowserManager_capturePageState ops page =
     (case page of
        None \<Rightarrow> Inl ''Browser not initialized. Call initialize() first.''
      | Some s \<Rightarrow> (case evaluate_in ops s of Inl e \<Rightarrow> Inl e | Inr doc \<Rightarrow> Inr (browser_snapshot doc)))"


section \<open>Interaction planner (AIDecisionMaker)\<close>

subsection \<open>capturePageState\<close>

text \<open>The function that AIDecisionMaker.capturePageState evaluates in the page.\<close>

definition ai_snapshot :: "document \<Rightarrow> ai_element_info page_state" where
  "ai_snapshot doc =
     (let interactiveElements =
            collect doc ai_selectors ai_elementInfo
              (\<lambda>i. visible i \<and> (info_text i \<noteq> [] \<or> truthy_str (info_type i)))
      in \<lparr>url = location_href doc, title = doc_title doc, timestamp = now_iso doc,
          interactiveElements = take 30 interactiveElements\<rparr>)"

definition AIDecisionMaker_capturePageState ::
  "'s page_ops \<Rightarrow> 's \<Rightarrow> error + ai_element_info page_state" where
  "AIDecisionMaker_capturePageState ops s =
     (case evaluate_in ops s of Inl e \<Rightarrow> Inl e | Inr doc \<Rightarrow> Inr (ai_snapshot doc))"

subsection \<open>validateInteraction\<close>

text \<open>The values that \<^verbatim>\<open>JSON.parse\<close> returns, and \<^verbatim>\<open>undefined\<close> for a property that is absent.\<close>

datatype jsval =
    JUndefined
  | JNull
  | JBool bool
  | JNum rat
  | JStr string
  | JArr "jsval list"
  | JObj "(string \<times> jsval) list"

fun truthy :: "jsval \<Rightarrow> bool" where
  "truthy JUndefined = False"
| "truthy JNull = False"
| "truthy (JBool b) = b"
| "truthy (JNum n) = (n \<noteq> 0)"
| "truthy (JStr t) = (t \<noteq> [])"
| "truthy (JArr xs) = True"
| "truthy (JObj kvs) = True"

text \<open>\<^verbatim>\<open>typeof v === 'object'\<close>\<close>

fun typeof_object :: "jsval \<Rightarrow> bool" where
  "typeof_object JNull = True"
| "typeof_object (JArr xs) = True"
| "typeof_object (JObj kvs) = True"
| "typeof_object v = False"

text \<open>
  \<^verbatim>\<open>v.key\<close> for the keys \<^verbatim>\<open>type\<close>, \<^verbatim>\<open>selector\<close>, \<^verbatim>\<open>description\<close> and \<^verbatim>\<open>text\<close>, which neither
  arrays nor \<^verbatim>\<open>Object.prototype\<close> define.
\<close>

fun get_prop :: "jsval \<Rightarrow> string \<Rightarrow> jsval" where
  "get_prop (JObj kvs) key = (case map_of kvs key of Some v \<Rightarrow> v | None \<Rightarrow> JUndefined)"
| "get_prop v key = JUndefined"

definition supportedInteractions :: "string list" where
  "supportedInteractions = [''click'', ''type'', ''hover'', ''scroll'', ''wait'']"

definition validateInteraction :: "jsval \<Rightarrow> bool" where
  "validateInteraction interaction =
     (if \<not> truthy interaction \<or> \<not> typeof_object interaction then False
      else
        let type = get_prop interaction ''type'';
            selector = get_prop interaction ''selector'';
            description = get_prop interaction ''description''
        in if \<not> truthy type \<or> \<not> truthy selector \<or> \<not> truthy description then False
           else if type \<notin> set (map JStr supportedInteractions) then False
           else if type = JStr ''type'' \<and> \<not> truthy (get_prop interaction ''text'') then False
           else True)"

subsection \<open>planInteractions\<close>

text \<open>\<^verbatim>\<open>xs.slice(0, n)\<close> for an integer \<open>n\<close>: a negative end counts from the end of the array.\<close>

definition slice0 :: "'a list \<Rightarrow> int \<Rightarrow> 'a list" where
  "slice0 xs n = (if n < 0 then take (nat (int (length xs) + n)) xs else take (nat n) xs)"

text \<open>
  The planner's configuration and its reasoning service. \<open>generateInteractionPlan\<close> stands for
  the request built from the page state and its analysis, the call of the service and the
  parsing of the answer: it raises, or returns the parsed JSON value.
\<close>

record planner =
  maxInteractions :: int
  generateInteractionPlan :: "ai_element_info page_state \<Rightarrow> error + jsval"

definition planInteractions :: "planner \<Rightarrow> 's page_ops \<Rightarrow> 's \<Rightarrow> error + jsval list" where
  "planInteractions pl ops s =
     (case
        (case AIDecisionMaker_capturePageState ops s of
           Inl e \<Rightarrow> Inl e
         | Inr pageState \<Rightarrow>
             (case generateInteractionPlan pl pageState of
                Inl e \<Rightarrow> Inl e
              | Inr (JArr interactions) \<Rightarrow>
                  Inr (slice0 (filter validateInteraction interactions) (maxInteractions pl))
              | Inr v \<Rightarrow> Inl ''interactions.filter is not a function''))
      of
        Inl e \<Rightarrow> Inl (''Failed to generate interaction plan: '' @ e)
      | Inr validInteractions \<Rightarrow> Inr validInteractions)"

text \<open>
  A step as the planner's data model has it: an object whose \<^verbatim>\<open>type\<close>, \<^verbatim>\<open>selector\<close>,
  \<^verbatim>\<open>description\<close> and \<^verbatim>\<open>text\<close> are strings where they are present.
\<close>

fun string_or_absent :: "jsval \<Rightarrow> bool" where
  "string_or_absent JUndefined = True"
| "string_or_absent JNull = True"
| "string_or_absent (JStr t) = True"
| "string_or_absent v = False"

fun is_step :: "jsval \<Rightarrow> bool" where
  "is_step (JObj kvs) =
     (string_or_absent (get_prop (JObj kvs) ''type'') \<and>
      string_or_absent (get_prop (JObj kvs) ''selector'') \<and>
      string_or_absent (get_prop (JObj kvs) ''description'') \<and>
      string_or_absent (get_prop (JObj kvs) ''text''))"
| "is_step v = False"

text \<open>A field that is present and not empty.\<close>

fun present_nonempty :: "jsval \<Rightarrow> bool" where
  "present_nonempty (JStr t) = (t \<noteq> [])"
| "present_nonempty v = False"

text \<open>
  The acceptance condition in the specification's words: kind, selector and description
  present and non-empty, the kind one of the five supported ones, and non-empty text when the
  kind is \<^verbatim>\<open>type\<close>.
\<close>

definition accepted_by_spec :: "jsval \<Rightarrow> bool" where
  "accepted_by_spec step =
     (present_nonempty (get_prop step ''type'') \<and>
      present_nonempty (get_prop step ''selector'') \<and>
      present_nonempty (get_prop step ''description'') \<and>
      get_prop step ''type'' \<in> {JStr ''click'', JStr ''type'', JStr ''hover'', JStr ''scroll'', JStr ''wait''} \<and>
      (if get_prop step ''type'' = JStr ''type'' then present_nonempty (get_prop step ''text'') else True))"


section \<open>Authentication handler (AuthenticationHandler)\<close>

record credentials =
  user :: "string option"
  password :: "string option"

record login_form =
  found :: bool
  emailField :: "elem option"
  passwordField :: "elem option"
  submitButton :: "elem option"

record auth_result =
  success :: bool
  newUrl :: "string option"
  auth_error :: "string option"

definition timeout :: nat where
  "timeout = 30000"

definition attr_selector :: "string \<Rightarrow> string \<Rightarrow> string \<Rightarrow> string \<Rightarrow> string" where
  "attr_selector el attr rel v = el @ ''['' @ attr @ rel @ [CHR 0x22] @ v @ [CHR 0x22] @ '']''"

definition emailSelectors :: "string list" where
  "emailSelectors =
     [attr_selector ''input'' ''type'' ''='' ''email'',
      attr_selector ''input'' ''name'' ''*='' ''email'',
      attr_selector ''input'' ''name'' ''*='' ''username'',
      attr_selector ''input'' ''name'' ''*='' ''user'',
      attr_selector ''input'' ''id'' ''*='' ''email'',
      attr_selector ''input'' ''id'' ''*='' ''username'',
      attr_selector ''input'' ''id'' ''*='' ''user'',
      ''input[placeholder*='' @ [CHR 0x22] @ ''email'' @ [CHR 0x22] @ '' i]'',
      ''input[placeholder*='' @ [CHR 0x22] @ ''username'' @ [CHR 0x22] @ '' i]'']"

definition passwordSelectors :: "string list" where
  "passwordSelectors =
     [attr_selector ''input'' ''type'' ''='' ''password'',
      attr_selector ''input'' ''name'' ''*='' ''password'',
      attr_selector ''input'' ''id'' ''*='' ''password'',
      ''input[placeholder*='' @ [CHR 0x22] @ ''password'' @ [CHR 0x22] @ '' i]'']"

definition contains_selector :: "string \<Rightarrow> string \<Rightarrow> string" where
  "contains_selector el t = el @ '':contains('' @ [CHR 0x22] @ t @ [CHR 0x22] @ '')''"

definition submitSelectors :: "string list" where
  "submitSelectors =
     [attr_selector ''button'' ''type'' ''='' ''submit'',
      attr_selector ''input'' ''type'' ''='' ''submit'',
      contains_selector ''button'' ''Login'',
      contains_selector ''button'' ''Sign in'',
      contains_selector ''button'' ''Log in'',
      contains_selector (attr_selector [] ''role'' ''='' ''button'') ''Login'',
      contains_selector (attr_selector [] ''role'' ''='' ''button'') ''Sign in'']"

definition form_button_selector :: string where
  "form_button_selector = ''form button, form '' @ attr_selector ''input'' ''type'' ''='' ''submit''"

definition errorSelectors :: "string list" where
  "errorSelectors =
     [''.error'', ''.alert-danger'', ''.alert-error'',
      attr_selector [] ''class'' ''*='' ''error'',
      attr_selector [] ''class'' ''*='' ''invalid'',
      attr_selector [] ''role'' ''='' ''alert'']"

definition page_query :: "'s page_ops \<Rightarrow> string \<Rightarrow> ('s session, elem option) io" where
  "page_query ops selector = observe (Query selector) (\<lambda>s. query ops s selector)"

subsection \<open>detectLoginForm\<close>

text \<open>\<^verbatim>\<open>for (const selector of selectors) { field = await page.$(selector); if (field) break; }\<close>\<close>

fun first_match :: "'s page_ops \<Rightarrow> string list \<Rightarrow> ('s session, elem option) io" where
  "first_match ops [] = io_return None"
| "first_match ops (selector # selectors) =
     io_bind (page_query ops selector)
       (\<lambda>field. case field of Some el \<Rightarrow> io_return (Some el) | None \<Rightarrow> first_match ops selectors)"

definition detectLoginForm :: "'s page_ops \<Rightarrow> ('s session, login_form) io" where
  "detectLoginForm ops =
     io_catch
       (io_bind (first_match ops emailSelectors) (\<lambda>emailField.
        io_bind (first_match ops passwordSelectors) (\<lambda>passwordField.
        io_bind (first_match ops submitSelectors) (\<lambda>submitButton.
        io_bind (if submitButton = None \<and> emailField \<noteq> None \<and> passwordField \<noteq> None
                 then page_query ops form_button_selector else io_return submitButton) (\<lambda>submitButton.
        io_return \<lparr>found = (emailField \<noteq> None \<and> passwordField \<noteq> None \<and> submitButton \<noteq> None),
                   emailField = emailField, passwordField = passwordField,
                   submitButton = submitButton\<rparr>)))))
       (\<lambda>error. io_return \<lparr>found = False, emailField = None, passwordField = None,
                             submitButton = None\<rparr>)"

subsection \<open>fillLoginForm\<close>

text \<open>A method call on a handle that is \<^verbatim>\<open>null\<close> throws a TypeError.\<close>

definition on_handle :: "elem option \<Rightarrow> (elem \<Rightarrow> ('st, 'a) io) \<Rightarrow> ('st, 'a) io" where
  "on_handle h f = (case h of None \<Rightarrow> io_throw ''Cannot read properties of null'' | Some el \<Rightarrow> f el)"

definition fillLoginForm ::
  "'s page_ops \<Rightarrow> login_form \<Rightarrow> string \<Rightarrow> string \<Rightarrow> ('s session, unit) io" where
  "fillLoginForm ops formElements user_text password_text =
     io_catch
       (io_bind (on_handle (emailField formElements) (\<lambda>el. act (Click el 3) (\<lambda>s. click ops s el 3))) (\<lambda>_.
        io_bind (on_handle (emailField formElements) (\<lambda>el. act (TypeInto el user_text) (\<lambda>s. type_into ops s el user_text))) (\<lambda>_.
        io_bind (on_handle (passwordField formElements) (\<lambda>el. act (Click el 3) (\<lambda>s. click ops s el 3))) (\<lambda>_.
        io_bind (on_handle (passwordField formElements) (\<lambda>el. act (TypeInto el password_text) (\<lambda>s. type_into ops s el password_text))) (\<lambda>_.
        io_bind (act (WaitForTimeout 500) (\<lambda>s. waitForTimeout ops s 500)) (\<lambda>_.
        on_handle (submitButton formElements) (\<lambda>el. act (Click el 1) (\<lambda>s. click ops s el 1))))))))
       (\<lambda>error. io_throw error)"

subsection \<open>waitForAuthenticationResult\<close>

text \<open>
  The scan of the error selectors: the first selector that matches an element ends the scan
  with that element's text content.
\<close>

fun find_error_message :: "'s page_ops \<Rightarrow> string list \<Rightarrow> ('s session, string option) io" where
  "find_error_message ops [] = io_return None"
| "find_error_message ops (selector # selectors) =
     io_bind (page_query ops selector)
       (\<lambda>errorElement. case errorElement of
            Some el \<Rightarrow> io_bind (observe (TextOf el) (\<lambda>s. text_of ops s el)) (\<lambda>t. io_return (Some t))
          | None \<Rightarrow> find_error_message ops selectors)"

definition unclear_message :: string where
  "unclear_message = ''Authentication result unclear - no URL change or error message detected''"

definition waitForAuthenticationResult ::
  "'s page_ops \<Rightarrow> string \<Rightarrow> ('s session, auth_result) io" where
  "waitForAuthenticationResult ops originalUrl =
     io_catch
       (io_bind (act (NavigationRace timeout 5000) (\<lambda>s. navigation_race ops s timeout 5000)) (\<lambda>_.
        io_bind (observe PageUrl (\<lambda>s. Inr (page_url ops s))) (\<lambda>newUrl.
        if newUrl \<noteq> originalUrl
        then io_return \<lparr>success = True, newUrl = Some newUrl, auth_error = None\<rparr>
        else
          io_bind (find_error_message ops errorSelectors) (\<lambda>errorMessage.
          if truthy_str errorMessage
          then io_return \<lparr>success = False, newUrl = None,
                          auth_error = Some (js_trim (or_empty errorMessage))\<rparr>
          else io_return \<lparr>success = False, newUrl = None, auth_error = Some unclear_message\<rparr>))))
       (\<lambda>error. io_return \<lparr>success = False, newUrl = None, auth_error = Some error\<rparr>)"

subsection \<open>authenticate\<close>

definition authenticate :: "'s page_ops \<Rightarrow> credentials \<Rightarrow> ('s session, bool) io" where
  "authenticate ops creds =
     (if \<not> truthy_str (user creds) \<or> \<not> truthy_str (password creds)
      then io_throw ''Missing required credentials: user and password''
      else
        io_catch
          (io_bind (detectLoginForm ops) (\<lambda>loginForm.
           if \<not> found loginForm then io_return False
           else
             io_bind (observe PageUrl (\<lambda>s. Inr (page_url ops s))) (\<lambda>originalUrl.
             io_bind (fillLoginForm ops loginForm (or_empty (user creds)) (or_empty (password creds))) (\<lambda>_.
             io_bind (waitForAuthenticationResult ops originalUrl) (\<lambda>result.
             if success result then io_return True else io_return False)))))
          (\<lambda>error. io_return False))"

section \<open>Example inputs\<close>

text \<open>A page that answers no query and accepts every action.\<close>

definition blank_page :: "unit page_ops" where
  "blank_page =
     \<lparr>query = (\<lambda>s selector. Inr None), query_all = (\<lambda>s selector. Inr []),
      xpath = (\<lambda>s expr. Inr []), page_url = (\<lambda>s. ''https://x.test/''),
      text_of = (\<lambda>s el. Inr []), evaluate_in = (\<lambda>s. Inl ''Execution context was destroyed''),
      click = (\<lambda>s el n. (Inr (), s)), type_into = (\<lambda>s el t. (Inr (), s)),
      waitForTimeout = (\<lambda>s ms. (Inr (), s)), navigation_race = (\<lambda>s t1 t2. (Inr (), s))\<rparr>"

text \<open>A document with forty visible buttons and nothing else.\<close>

definition sample_button :: dom_element where
  "sample_button =
     \<lparr>tagName = ''BUTTON'', el_type = Some ''submit'', textContent = '' Save '',
      el_value = Some [], placeholder = None, offsetParent_null = False,
      rect_left = 10, rect_top = 20, rect_width = 80, rect_height = 24,
      el_href = None, className = Some [], el_id = Some []\<rparr>"

definition crowded_document :: document where
  "crowded_document =
     \<lparr>location_href = ''https://x.test/app'', doc_title = ''App'',
      now_iso = ''2024-01-01T00:00:00.000Z'',
      querySelectorAll = (\<lambda>selector. if selector = ''button'' then replicate 40 sample_button else [])\<rparr>"

definition crowded_page :: "unit page_ops" where
  "crowded_page = blank_page\<lparr>evaluate_in := (\<lambda>s. Inr crowded_document)\<rparr>"

text \<open>
  A page with three list items (the handles 10, 20 and 30) and nothing else: only the
  selector \<^verbatim>\<open>li\<close> matches.
\<close>

definition list_page :: "unit page_ops" where
  "list_page =
     blank_page\<lparr>query := (\<lambda>s selector. if selector = ''li'' then Inr (Some 10) else Inr None),
                 query_all := (\<lambda>s selector. if selector = ''li'' then Inr [10, 20, 30] else Inr [])\<rparr>"

text \<open>
  The position that the specification names for the positional pick, \<open>min(k, n) - 1\<close>, and
  the statement that a result is the element at that position of the matched list.
\<close>

definition claimed_position :: "string \<Rightarrow> 'a list \<Rightarrow> int" where
  "claimed_position selector elements =
     min (int (extractNthIndex selector)) (int (length elements)) - 1"

definition picks_claimed_position :: "string \<Rightarrow> elem list \<Rightarrow> error + elem option \<Rightarrow> bool" where
  "picks_claimed_position selector elements result =
     (let p = claimed_position selector elements
      in 0 \<le> p \<and> p < int (length elements) \<and> result = Inr (Some (elements ! nat p)))"

text \<open>A planner limited to two steps whose reasoning service proposes four, one of them invalid.\<close>

definition click_step :: jsval where
  "click_step = JObj [(''type'', JStr ''click''), (''selector'', JStr ''button:nth-of-type(1)''),
                      (''description'', JStr ''Open the menu'')]"

definition bad_step :: jsval where
  "bad_step = JObj [(''type'', JStr ''type''), (''selector'', JStr ''input:nth-of-type(1)''),
                    (''description'', JStr ''Fill the search box'')]"

definition type_step :: jsval where
  "type_step = JObj [(''type'', JStr ''type''), (''selector'', JStr ''input:nth-of-type(1)''),
                     (''text'', JStr ''demo''), (''description'', JStr ''Fill the search box'')]"

definition hover_step :: jsval where
  "hover_step = JObj [(''type'', JStr ''hover''), (''selector'', JStr ''a:nth-of-type(2)''),
                      (''description'', JStr ''Point at the link'')]"

definition sample_planner :: planner where
  "sample_planner =
     \<lparr>maxInteractions = 2,
      generateInteractionPlan = (\<lambda>pageState. Inr (JArr [click_step, bad_step, type_step, hover_step]))\<rparr>"

text \<open>
  The failed login in the specification's words: the texts of the elements that the error
  selectors match, in the order of the selectors, and the first of them that shows any text.
\<close>

definition indicator_texts :: "'s page_ops \<Rightarrow> 's \<Rightarrow> string list" where
  "indicator_texts ops s =
     concat (map (\<lambda>selector.
        case query ops s selector of
          Inr (Some el) \<Rightarrow> (case text_of ops s el of Inr t \<Rightarrow> [t] | Inl e \<Rightarrow> [])
        | _ \<Rightarrow> []) errorSelectors)"

definition first_indicator_text :: "'s page_ops \<Rightarrow> 's \<Rightarrow> string option" where
  "first_indicator_text ops s = find (\<lambda>t. js_trim t \<noteq> []) (indicator_texts ops s)"

text \<open>The reason that the specification names for a failed login on a page state.\<close>

definition claimed_failure_reason :: "'s page_ops \<Rightarrow> 's \<Rightarrow> string" where
  "claimed_failure_reason ops s =
     (case first_indicator_text ops s of None \<Rightarrow> unclear_message | Some t \<Rightarrow> t)"

text \<open>
  What the scan of waitForAuthenticationResult reports on a page state: the first error
  selector whose query does not come back empty decides. A query or a text read that throws
  gives its message; a matched element gives its trimmed text, or the generic message when
  its text is empty.
\<close>

definition first_hit :: "'s page_ops \<Rightarrow> 's \<Rightarrow> string list \<Rightarrow> string option" where
  "first_hit ops s selectors = find (\<lambda>selector. query ops s selector \<noteq> Inr None) selectors"

definition failure_reason :: "'s page_ops \<Rightarrow> 's \<Rightarrow> string" where
  "failure_reason ops s =
     (case first_hit ops s errorSelectors of
        None \<Rightarrow> unclear_message
      | Some selector \<Rightarrow>
          (case query ops s selector of
             Inl e \<Rightarrow> e
           | Inr None \<Rightarrow> unclear_message
           | Inr (Some el) \<Rightarrow>
               (case text_of ops s el of
                  Inl e \<Rightarrow> e
                | Inr t \<Rightarrow> if t = [] then unclear_message else js_trim t)))"

text \<open>
  A login page whose address does not change. The element 1 has the class \<^verbatim>\<open>error\<close> and the
  element 2 the role \<^verbatim>\<open>alert\<close>; \<open>rejecting_page t1 t2\<close> gives them the texts \<open>t1\<close> and \<open>t2\<close>.
\<close>

definition rejecting_page :: "string \<Rightarrow> string \<Rightarrow> unit page_ops" where
  "rejecting_page t1 t2 =
     blank_page
       \<lparr>query := (\<lambda>s selector.
           if selector = ''.error'' \<or> selector = attr_selector [] ''class'' ''*='' ''error''
           then Inr (Some 1)
           else if selector = attr_selector [] ''role'' ''='' ''alert'' then Inr (Some 2)
           else Inr None),
        page_url := (\<lambda>s. ''https://x.test/login''),
        text_of := (\<lambda>s el. if el = 1 then Inr t1 else Inr t2)\<rparr>"

text \<open>
  A login form with an e-mail field (1), a password field (2) and a submit button (3); the
  state is 0 before the button is clicked and 1 after it, when the address is the dashboard's.
\<close>

definition login_page :: "nat page_ops" where
  "login_page =
     \<lparr>query = (\<lambda>s selector.
          if selector = attr_selector ''input'' ''type'' ''='' ''email'' then Inr (Some 1)
          else if selector = attr_selector ''input'' ''type'' ''='' ''password'' then Inr (Some 2)
          else if selector = attr_selector ''button'' ''type'' ''='' ''submit'' then Inr (Some 3)
          else Inr None),
      query_all = (\<lambda>s selector. Inr []), xpath = (\<lambda>s expr. Inr []),
      page_url = (\<lambda>s. if s = 0 then ''https://x.test/login'' else ''https://x.test/dashboard''),
      text_of = (\<lambda>s el. Inr []), evaluate_in = (\<lambda>s. Inl ''Execution context was destroyed''),
      click = (\<lambda>s el n. (Inr (), if el = 3 then 1 else s)),
      type_into = (\<lambda>s el t. (Inr (), s)),
      waitForTimeout = (\<lambda>s ms. (Inr (), s)), navigation_race = (\<lambda>s t1 t2. (Inr (), s))\<rparr>"

text \<open>
  A machine without network: every request fails, the file system works. The key of the
  speech service is set in \<open>offline_world\<close> and absent in \<open>keyless_world\<close>.
\<close>

definition offline_world :: "unit sys_ops" where
  "offline_world =
     \<lparr>fetch = (\<lambda>w req. (Inl ''fetch failed'', w)), set_timeout = (\<lambda>w ms. w),
      math_random = (\<lambda>w n. (0, w)),
      fs_mkdir = (\<lambda>w dir. (Inr (), w)), fs_writeFile = (\<lambda>w file data. (Inr (), w)),
      fs_stat_size = (\<lambda>w file. (Inr 1004, w)), fs_readdir = (\<lambda>w dir. (Inr [], w)),
      fs_unlink = (\<lambda>w file. (Inr (), w)), fs_rmdir = (\<lambda>w dir. (Inr (), w)),
      fs_access = (\<lambda>w file. (Inr (), w)), ffmpeg_run = (\<lambda>w cmd. (Inr (), w)),
      path_dirname = (\<lambda>p. ''out''), path_join = (\<lambda>a b. a @ ''/'' @ b),
      api_key = Some ''sk_test''\<rparr>"

definition keyless_world :: "unit sys_ops" where
  "keyless_world = offline_world\<lparr>api_key := None\<rparr>"

definition rachel_options :: speech_options where
  "rachel_options =
     \<lparr>voice = Some ''21m00Tcm4TlvDq8ikWAM'', gender = None,
      voiceSettings = CONVERSATIONAL_VOICE_SETTINGS\<rparr>"

text \<open>The request that generateSpeech sends for the narration \<^verbatim>\<open>Open the settings page\<close>.\<close>

definition settings_request :: request where
  "settings_request =
     api_request ''Open the settings page'' ''sk_test'' ''21m00Tcm4TlvDq8ikWAM''
       CONVERSATIONAL_VOICE_SETTINGS"

text \<open>
  The body of the inner \<^verbatim>\<open>try\<close> block of generateSpeech, which is the path taken with a key.
\<close>

definition api_path ::
  "'w sys_ops \<Rightarrow> (string \<Rightarrow> string) \<Rightarrow> string \<Rightarrow> string \<Rightarrow> speech_options \<Rightarrow> ('w world, string) io" where
  "api_path sys enhance text outputPath options =
     io_bind (if truthy_str (voice options) then io_return (or_empty (voice options))
              else getRandomVoice sys (gender options)) (\<lambda>voiceId.
       let enhancedText = enhance text;
           processedText = preprocessText enhancedText
       in if length processedText = 0 then io_throw ''Text becomes empty after preprocessing''
          else
            io_bind (sys_mkdir sys (path_dirname sys outputPath)) (\<lambda>_.
            io_bind (makeApiRequest sys processedText (or_empty (api_key sys)) voiceId
                       (voiceSettings options) 3) (\<lambda>audioBuffer.
            io_bind (case audioBuffer of
                       None \<Rightarrow> io_throw ''The first argument must be of type string or an instance of Buffer''
                     | Some buf \<Rightarrow> sys_writeFile sys outputPath buf) (\<lambda>_.
            io_bind (act (Stat outputPath) (\<lambda>w. fs_stat_size sys w outputPath)) (\<lambda>size.
            if size = 0 then io_throw ''Generated voiceover file is empty''
            else io_return outputPath)))))"

text \<open>
  Options that ask for a gender the module does not know, and machines without the key on
  which the directory cannot be created or the file cannot be written.
\<close>

definition robot_options :: speech_options where
  "robot_options = rachel_options\<lparr>gender := Some ''robot''\<rparr>"

definition keyless_readonly_world :: "unit sys_ops" where
  "keyless_readonly_world =
     keyless_world\<lparr>fs_mkdir := (\<lambda>w dir. (Inl ''EACCES: permission denied'', w))\<rparr>"

definition keyless_full_world :: "unit sys_ops" where
  "keyless_full_world =
     keyless_world\<lparr>fs_writeFile := (\<lambda>w name data. (Inl ''ENOSPC: no space left on device'', w))\<rparr>"

text \<open>
  The three stages of finalizeVideo: the steps before the encoding (the two directories and
  the frames on disk), the encoding, and the steps after it (the cleanup and the logged
  existence test); the paths it computes; and the property of a computation that it only
  appends to the trace and runs no ffmpeg command.
\<close>

definition tempDir_of :: "'w sys_ops \<Rightarrow> video_processor \<Rightarrow> string" where
  "tempDir_of sys vp = path_join sys (outputDir vp) ''temp_frames''"

definition audioPath_of :: "'w sys_ops \<Rightarrow> video_processor \<Rightarrow> string" where
  "audioPath_of sys vp = path_join sys (outputDir vp) ''temp_audio.wav''"

definition preparation :: "'w sys_ops \<Rightarrow> video_processor \<Rightarrow> string \<Rightarrow> ('w world, unit) io" where
  "preparation sys vp outputPath =
     io_bind (sys_mkdir sys (path_dirname sys outputPath)) (\<lambda>_.
     io_bind (sys_mkdir sys (tempDir_of sys vp)) (\<lambda>_.
     saveFramesToDisk sys vp (tempDir_of sys vp)))"

definition encoding :: "'w sys_ops \<Rightarrow> video_processor \<Rightarrow> string \<Rightarrow> ('w world, unit) io" where
  "encoding sys vp outputPath =
     (if length (audioSegments vp) > 0
      then io_bind (createAudioTrack sys vp) (\<lambda>audioPath.
             createVideoWithAudio sys vp (tempDir_of sys vp) audioPath outputPath)
      else createVideoOnly sys vp (tempDir_of sys vp) outputPath)"

definition after_encoding :: "'w sys_ops \<Rightarrow> video_processor \<Rightarrow> string \<Rightarrow> ('w world, string) io" where
  "after_encoding sys vp outputPath =
     io_bind (cleanupTempFiles sys vp (tempDir_of sys vp)) (\<lambda>_.
     io_bind (if has_logger vp then io_bind (fileExists sys outputPath) (\<lambda>_. io_return ())
              else io_return ()) (\<lambda>_.
     io_return outputPath))"

definition quiet :: "('w world, 'a) io \<Rightarrow> bool" where
  "quiet m = (\<forall>st. \<exists>new. snd (snd (m st)) = snd st @ new \<and> ffmpeg_runs new = [])"

text \<open>A recording of two frames without narration, and the same recording with one clip.\<close>

definition silent_recording :: video_processor where
  "silent_recording =
     \<lparr>has_logger = True, outputDir = ''out'', fps = 30, quality = ''high'',
      resolution_width = 1920, resolution_height = 1080,
      frames = [\<lparr>frame_buffer = [137, 80, 78, 71], frame_timestamp = 33, frameNumber = 0\<rparr>,
                \<lparr>frame_buffer = [137, 80, 78, 71], frame_timestamp = 67, frameNumber = 1\<rparr>],
      audioSegments = []\<rparr>"

definition narrated_recording :: video_processor where
  "narrated_recording =
     silent_recording
       \<lparr>audioSegments := [\<lparr>segment_buffer = [255, 251, 144, 0], startTime = 40,
                           duration = 3000, segmentNumber = 0\<rparr>]\<rparr>"

text \<open>A machine on which the output directory cannot be created.\<close>

definition readonly_world :: "unit sys_ops" where
  "readonly_world = offline_world\<lparr>fs_mkdir := (\<lambda>w dir. (Inl ''EACCES: permission denied'', w))\<rparr>"


section \<open>Traces of calls\<close>

text \<open>
  Two properties of a computation over a traced state, for a set \<open>good\<close> of results.
  \<open>sound m good\<close>: the computation only appends to the trace, and when it returns a good
  result every call it appended has returned. \<open>never m good\<close>: it only appends to the trace
  and never returns a good result.
\<close>

definition sound :: "('s \<times> ('c \<times> bool) list, 'a) io \<Rightarrow> ('a \<Rightarrow> bool) \<Rightarrow> bool" where
  "sound m good =
     (\<forall>st. \<exists>new. snd (snd (m st)) = snd st @ new \<and>
        (case fst (m st) of Inl e \<Rightarrow> True | Inr x \<Rightarrow> good x \<longrightarrow> list_all snd new))"

definition never :: "('s \<times> ('c \<times> bool) list, 'a) io \<Rightarrow> ('a \<Rightarrow> bool) \<Rightarrow> bool" where
  "never m good =
     (\<forall>st. \<exists>new. snd (snd (m st)) = snd st @ new \<and>
        (case fst (m st) of Inl e \<Rightarrow> True | Inr x \<Rightarrow> \<not> good x))"


section \<open>Properties of the video quality lookup\<close>

lemma getQualitySettings_recognized:
  "getQualitySettings ''high'' = Own settings_high \<and>
   getQualitySettings ''medium'' = Own settings_medium \<and>
   getQualitySettings ''low'' = Own settings_low"
  by (simp add: getQualitySettings_def settings_get_def settings_def)

lemma getQualitySettings_default:
  "q \<notin> {''high'', ''medium'', ''low''} \<Longrightarrow> q \<notin> set object_prototype_keys \<Longrightarrow>
   getQualitySettings q = Own settings_high"
  by (simp add: getQualitySettings_def settings_get_def settings_def)

text \<open>
  Claim C9. The quality \<^verbatim>\<open>constructor\<close> is outside \<^verbatim>\<open>{high, medium, low}\<close>, yet the lookup does
  not fall back to the \<^verbatim>\<open>high\<close> settings: it finds the member that the object literal
  inherits from \<^verbatim>\<open>Object.prototype\<close>, and the bitrates read from it are \<^verbatim>\<open>undefined\<close>.
\<close>

theorem getQualitySettings_constructor:
  "getQualitySettings ''constructor'' = Inherited ''constructor'' \<and>
   videoBitrate_of (getQualitySettings ''constructor'') = None \<and>
   audioBitrate_of (getQualitySettings ''constructor'') = None"
  by (simp add: getQualitySettings_def settings_get_def settings_def object_prototype_keys_def)


section \<open>Properties of the duration estimate\<close>

lemma duration_of_count_mono: "w1 \<le> w2 \<Longrightarrow> duration_of_count w1 \<le> duration_of_count w2"
  unfolding duration_of_count_def wordsPerMinute_def
  by (intro ceiling_mono mult_right_mono divide_right_mono) simp_all

lemma duration_of_count_step: "duration_of_count w < duration_of_count (w + 3)"
proof -
  have "(of_nat (w + 3) / wordsPerMinute) * 60 = (of_nat w / wordsPerMinute) * 60 + (36 / 31 :: rat)"
    by (simp add: wordsPerMinute_def field_simps)
  moreover have "\<lceil>x\<rceil> < \<lceil>x + (36 / 31 :: rat)\<rceil>" for x :: rat
  proof -
    have "of_int \<lceil>x\<rceil> < x + 1" by linarith
    also have "\<dots> < x + 36 / 31" by simp
    also have "\<dots> \<le> of_int \<lceil>x + 36 / 31\<rceil>" by linarith
    finally show ?thesis by simp
  qed
  ultimately show ?thesis by (simp add: duration_of_count_def)
qed

text \<open>
  Claim C4, as stated, fails: the text \<^verbatim>\<open>hello world\<close> has strictly more words than the text
  \<^verbatim>\<open>hello\<close>, and both are estimated at one second.
\<close>

theorem estimateAudioDuration_not_strict:
  "word_count ''hello'' < word_count ''hello world'' \<and>
   estimateAudioDuration ''hello'' = 1 \<and> estimateAudioDuration ''hello world'' = 1"
  by code_simp

text \<open>
  Claim C4, amended. The estimate of the empty string is 0. For a non-empty text it is
  \<open>\<lceil>wordCount * 60 / 155\<rceil>\<close>, where \<open>wordCount\<close> is the number of pieces of the preprocessed
  text (the word count the function computes). It never decreases when that number grows, and
  it is strictly greater whenever that number grows by three or more.
\<close>

theorem estimateAudioDuration_monotone:
  "estimateAudioDuration [] = 0 \<and>
   (\<forall>t. t \<noteq> [] \<longrightarrow>
      estimateAudioDuration t = \<lceil>(of_nat (split_ws_length (preprocessText t)) * 60 / 155 :: rat)\<rceil>) \<and>
   (\<forall>t1 t2. t1 \<noteq> [] \<and> t2 \<noteq> [] \<and>
      split_ws_length (preprocessText t1) \<le> split_ws_length (preprocessText t2) \<longrightarrow>
      estimateAudioDuration t1 \<le> estimateAudioDuration t2) \<and>
   (\<forall>t1 t2. t1 \<noteq> [] \<and> t2 \<noteq> [] \<and>
      split_ws_length (preprocessText t1) + 3 \<le> split_ws_length (preprocessText t2) \<longrightarrow>
      estimateAudioDuration t1 < estimateAudioDuration t2)"
proof (intro conjI allI impI)
  show "estimateAudioDuration [] = 0" by (simp add: estimateAudioDuration_def)
next
  fix t :: string
  assume "t \<noteq> []"
  then show "estimateAudioDuration t =
      \<lceil>(of_nat (split_ws_length (preprocessText t)) * 60 / 155 :: rat)\<rceil>"
    by (simp add: estimateAudioDuration_def duration_of_count_def wordsPerMinute_def)
next
  fix t1 t2 :: string
  assume "t1 \<noteq> [] \<and> t2 \<noteq> [] \<and>
    split_ws_length (preprocessText t1) \<le> split_ws_length (preprocessText t2)"
  then show "estimateAudioDuration t1 \<le> estimateAudioDuration t2"
    by (simp add: estimateAudioDuration_def duration_of_count_mono)
next
  fix t1 t2 :: string
  assume a: "t1 \<noteq> [] \<and> t2 \<noteq> [] \<and>
    split_ws_length (preprocessText t1) + 3 \<le> split_ws_length (preprocessText t2)"
  have "duration_of_count (split_ws_length (preprocessText t1))
        < duration_of_count (split_ws_length (preprocessText t1) + 3)"
    by (rule duration_of_count_step)
  also have "\<dots> \<le> duration_of_count (split_ws_length (preprocessText t2))"
    using a by (intro duration_of_count_mono) simp
  finally show "estimateAudioDuration t1 < estimateAudioDuration t2"
    using a by (simp add: estimateAudioDuration_def)
qed

lemma hello_counts:
  "split_ws_length (preprocessText ''hello'') = 1 \<and>
   split_ws_length (preprocessText ''hello world'') = 2 \<and>
   split_ws_length (preprocessText ''hello world foo bar'') = 4"
  by code_simp

theorem estimateAudioDuration_monotone_witness:
  "estimateAudioDuration ''hello world'' = \<lceil>(of_nat 2 * 60 / 155 :: rat)\<rceil> \<and>
   estimateAudioDuration ''hello'' \<le> estimateAudioDuration ''hello world'' \<and>
   estimateAudioDuration ''hello'' < estimateAudioDuration ''hello world foo bar''"
proof -
  note t = estimateAudioDuration_monotone
  have h1: "''hello world'' \<noteq> []" by simp
  have h2: "''hello'' \<noteq> [] \<and> ''hello world'' \<noteq> [] \<and>
      split_ws_length (preprocessText ''hello'') \<le> split_ws_length (preprocessText ''hello world'')"
    using hello_counts by simp
  have h3: "''hello'' \<noteq> [] \<and> ''hello world foo bar'' \<noteq> [] \<and>
      split_ws_length (preprocessText ''hello'') + 3
        \<le> split_ws_length (preprocessText ''hello world foo bar'')"
    using hello_counts by simp
  have "estimateAudioDuration ''hello world'' =
      \<lceil>(of_nat (split_ws_length (preprocessText ''hello world'')) * 60 / 155 :: rat)\<rceil>"
    by (rule mp [OF spec [OF conjunct1 [OF conjunct2 [OF t]]] h1])
  then have c1: "estimateAudioDuration ''hello world'' = \<lceil>(of_nat 2 * 60 / 155 :: rat)\<rceil>"
    using hello_counts by simp
  have c2: "estimateAudioDuration ''hello'' \<le> estimateAudioDuration ''hello world''"
    by (rule mp [OF spec [OF spec [OF conjunct1 [OF conjunct2 [OF conjunct2 [OF t]]]]] h2])
  have c3: "estimateAudioDuration ''hello'' < estimateAudioDuration ''hello world foo bar''"
    by (rule mp [OF spec [OF spec [OF conjunct2 [OF conjunct2 [OF conjunct2 [OF t]]]]] h3])
  from c1 c2 c3 show ?thesis by (intro conjI)
qed

section \<open>Properties of the page snapshots\<close>

lemma ai_snapshot_length: "length (interactiveElements (ai_snapshot doc)) \<le> 30"
  by (simp add: ai_snapshot_def Let_def)

lemma browser_snapshot_length: "length (interactiveElements (browser_snapshot doc)) \<le> 20"
  by (simp add: browser_snapshot_def Let_def)

lemma ai_capture_cases:
  "AIDecisionMaker_capturePageState ops s = Inr st \<Longrightarrow> \<exists>doc. st = ai_snapshot doc"
  by (auto simp: AIDecisionMaker_capturePageState_def split: sum.splits)

lemma browser_capture_cases:
  "BrowserManager_capturePageState ops page = Inr st \<Longrightarrow> \<exists>doc. st = browser_snapshot doc"
  by (auto simp: BrowserManager_capturePageState_def split: sum.splits option.splits)

lemma crowded_document_has_40:
  "length (querySelectorAll crowded_document ''button'') = 40"
  by (simp add: crowded_document_def)

text \<open>
  Claim C8. Every snapshot that either capturePageState returns holds at most 30
  interactive elements, whatever the page contains: the planner's own capture keeps the first
  30 of the collected elements, the browser manager's capture the first 20.
\<close>

theorem capturePageState_at_most_30:
  "(\<forall>st. AIDecisionMaker_capturePageState ops s = Inr st \<longrightarrow>
      length (interactiveElements st) \<le> 30) \<and>
   (\<forall>st. BrowserManager_capturePageState ops page = Inr st \<longrightarrow>
      length (interactiveElements st) \<le> 30) \<and>
   interactiveElements (ai_snapshot doc) =
     take 30 (collect doc ai_selectors ai_elementInfo
                (\<lambda>i. visible i \<and> (info_text i \<noteq> [] \<or> truthy_str (info_type i)))) \<and>
   interactiveElements (browser_snapshot doc) =
     take 20 (collect doc browser_selectors elementInfo
                (\<lambda>i. info_text i \<noteq> [] \<or> truthy_str (info_type i)))"
proof (intro conjI allI impI)
  fix st assume a: "AIDecisionMaker_capturePageState ops s = Inr st"
  from ai_capture_cases [OF a] obtain d where "st = ai_snapshot d" by (rule exE)
  then show "length (interactiveElements st) \<le> 30" by (simp add: ai_snapshot_length)
next
  fix st assume b: "BrowserManager_capturePageState ops page = Inr st"
  from browser_capture_cases [OF b] obtain d where "st = browser_snapshot d" by (rule exE)
  then have "length (interactiveElements st) \<le> 20" by (simp add: browser_snapshot_length)
  then show "length (interactiveElements st) \<le> 30" by simp
next
  show "interactiveElements (ai_snapshot doc) =
     take 30 (collect doc ai_selectors ai_elementInfo
                (\<lambda>i. visible i \<and> (info_text i \<noteq> [] \<or> truthy_str (info_type i))))"
    by (simp add: ai_snapshot_def Let_def)
next
  show "interactiveElements (browser_snapshot doc) =
     take 20 (collect doc browser_selectors elementInfo
                (\<lambda>i. info_text i \<noteq> [] \<or> truthy_str (info_type i)))"
    by (simp add: browser_snapshot_def Let_def)
qed

text \<open>The bound at work: a page with forty visible buttons.\<close>

theorem capturePageState_at_most_30_witness:
  "AIDecisionMaker_capturePageState crowded_page () = Inr (ai_snapshot crowded_document) \<and>
   BrowserManager_capturePageState crowded_page (Some ()) = Inr (browser_snapshot crowded_document) \<and>
   length (querySelectorAll crowded_document ''button'') = 40 \<and>
   length (interactiveElements (ai_snapshot crowded_document)) \<le> 30 \<and>
   length (interactiveElements (browser_snapshot crowded_document)) \<le> 30"
proof -
  have a: "AIDecisionMaker_capturePageState crowded_page () = Inr (ai_snapshot crowded_document)"
    by (simp add: AIDecisionMaker_capturePageState_def crowded_page_def)
  have b: "BrowserManager_capturePageState crowded_page (Some ()) =
             Inr (browser_snapshot crowded_document)"
    by (simp add: BrowserManager_capturePageState_def crowded_page_def)
  note t = capturePageState_at_most_30 [of crowded_page "()" "Some ()" crowded_document]
  from t have "\<forall>st. AIDecisionMaker_capturePageState crowded_page () = Inr st \<longrightarrow>
      length (interactiveElements st) \<le> 30"
    by (rule conjunct1)
  then have c: "length (interactiveElements (ai_snapshot crowded_document)) \<le> 30"
    using a by (elim allE impE) assumption
  from t have "\<forall>st. BrowserManager_capturePageState crowded_page (Some ()) = Inr st \<longrightarrow>
      length (interactiveElements st) \<le> 30"
    by (rule conjunct1 [OF conjunct2])
  then have d: "length (interactiveElements (browser_snapshot crowded_document)) \<le> 30"
    using b by (elim allE impE) assumption
  from a b c d crowded_document_has_40 show ?thesis
    by (intro conjI)
qed

section \<open>Properties of the element resolver\<close>

lemma positional_pick_eq:
  assumes "elements \<noteq> []"
  shows "positional_pick selector elements =
           Some (elements ! (min (max (extractNthIndex selector) 1) (length elements) - 1))"
proof -
  obtain m where m: "length elements = Suc m" using assms by (cases elements) auto
  show ?thesis
  proof (cases "extractNthIndex selector")
    case 0
    then show ?thesis using m by (simp add: positional_pick_def Let_def)
  next
    case (Suc j)
    have "min (int (Suc j) - 1) (int (Suc m) - 1) = int (min j m)" by simp
    moreover have "int (min j m) < 1 + int m" by (simp add: min_def)
    ultimately show ?thesis using m Suc by (simp add: positional_pick_def Let_def)
  qed
qed

lemma find_nth_includes: "find_nth s = Some k \<Longrightarrow> js_includes s nth_of_type_open"
  by (induction s) (auto simp: match_nth_at_def split: option.splits if_splits)

lemma extractNthIndex_default:
  "\<not> js_includes selector nth_of_type_open \<Longrightarrow> extractNthIndex selector = 1"
  using find_nth_includes [of selector]
  by (cases "find_nth selector") (auto simp: extractNthIndex_def)

text \<open>The positional pick is what findElementWithFallback returns when nothing was found before.\<close>

lemma findElementWithFallback_strategy4:
  assumes "query ops s selector = Inr None"
    and "description = [] \<or> text_strategy ops s (extractTextKeywords description) = None"
    and "try_selectors ops s (generateFallbackSelectors selector) = Inr None"
  shows "findElementWithFallback ops (Some s) selector description =
           positional_strategy ops s selector"
  using assms unfolding findElementWithFallback_def
  by auto

lemma positional_strategy_eq:
  assumes same: "takeWhile (\<lambda>c. c \<noteq> CHR '':'') selector = index_free_base selector"
    and found: "query_all ops s (index_free_base selector) = Inr elements"
    and ne: "elements \<noteq> []"
  shows "positional_strategy ops s selector =
       Inr (Some (elements ! (min (max (extractNthIndex selector) 1) (length elements) - 1)))"
  using same found positional_pick_eq [OF ne, of selector]
  by (simp add: positional_strategy_def)

text \<open>
  Claim C5, as stated, fails for the index 0. The index-free base of \<^verbatim>\<open>li:nth-of-type(0)\<close>
  is \<^verbatim>\<open>li\<close>, which matches the three list items of the page; the positional pick returns the
  first of them, while \<open>min(0, 3) - 1 = -1\<close> is no position of the list.
\<close>

theorem findElementWithFallback_index_zero:
  "extractNthIndex ''li:nth-of-type(0)'' = 0 \<and>
   index_free_base ''li:nth-of-type(0)'' = ''li'' \<and>
   query_all list_page () (index_free_base ''li:nth-of-type(0)'') = Inr [10, 20, 30] \<and>
   positional_strategy list_page () ''li:nth-of-type(0)'' = Inr (Some 10) \<and>
   claimed_position ''li:nth-of-type(0)'' [10, 20, 30 :: nat] = - 1 \<and>
   \<not> picks_claimed_position ''li:nth-of-type(0)'' [10, 20, 30]
        (positional_strategy list_page () ''li:nth-of-type(0)'')"
  by code_simp

text \<open>
  Claim C5, amended. Take a selector whose index-free base is the text before its first colon
  (the base has no colon of its own), and let that base match a non-empty list. The positional
  pick, the last strategy of findElementWithFallback, returns the element of the list at the
  0-based position \<open>min(max(k, 1), n) - 1\<close>, which is inside the list: for \<open>k \<ge> 1\<close> this is
  the position \<open>min(k, n) - 1\<close>, for \<open>k = 0\<close> it is the first element. A selector without an
  nth-of-type index has \<open>k = 1\<close>.
\<close>

theorem findElementWithFallback_positional_pick:
  "takeWhile (\<lambda>c. c \<noteq> CHR '':'') selector = index_free_base selector \<and>
   query_all ops s (index_free_base selector) = Inr elements \<and>
   elements \<noteq> [] \<longrightarrow>
     positional_strategy ops s selector =
       Inr (Some (elements ! (min (max (extractNthIndex selector) 1) (length elements) - 1))) \<and>
     min (max (extractNthIndex selector) 1) (length elements) - 1 < length elements \<and>
     (1 \<le> extractNthIndex selector \<longrightarrow>
        picks_claimed_position selector elements (positional_strategy ops s selector)) \<and>
     (extractNthIndex selector = 0 \<longrightarrow>
        positional_strategy ops s selector = Inr (Some (elements ! 0))) \<and>
     (\<not> js_includes selector nth_of_type_open \<longrightarrow> extractNthIndex selector = 1)"
proof (intro impI, elim conjE)
  assume same: "takeWhile (\<lambda>c. c \<noteq> CHR '':'') selector = index_free_base selector"
    and found: "query_all ops s (index_free_base selector) = Inr elements"
    and ne: "elements \<noteq> []"
  have r: "positional_strategy ops s selector =
       Inr (Some (elements ! (min (max (extractNthIndex selector) 1) (length elements) - 1)))"
    using same found ne by (rule positional_strategy_eq)
  have b: "min (max (extractNthIndex selector) 1) (length elements) - 1 < length elements"
    using ne by (cases elements) (auto simp: min_def)
  have c: "picks_claimed_position selector elements (positional_strategy ops s selector)"
    if k: "1 \<le> extractNthIndex selector"
  proof -
    obtain m where m: "length elements = Suc m" using ne by (cases elements) auto
    obtain j where j: "extractNthIndex selector = Suc j" using k by (cases "extractNthIndex selector") auto
    have p: "claimed_position selector elements = int (min j m)"
      by (simp add: claimed_position_def m j)
    have q: "min (max (extractNthIndex selector) 1) (length elements) - 1 = min j m"
      by (simp add: m j)
    show ?thesis
      unfolding picks_claimed_position_def Let_def p r q using m by simp
  qed
  have z: "positional_strategy ops s selector = Inr (Some (elements ! 0))"
    if k: "extractNthIndex selector = 0"
    using r ne k by (cases elements) simp_all
  show "positional_strategy ops s selector =
       Inr (Some (elements ! (min (max (extractNthIndex selector) 1) (length elements) - 1))) \<and>
     min (max (extractNthIndex selector) 1) (length elements) - 1 < length elements \<and>
     (1 \<le> extractNthIndex selector \<longrightarrow>
        picks_claimed_position selector elements (positional_strategy ops s selector)) \<and>
     (extractNthIndex selector = 0 \<longrightarrow>
        positional_strategy ops s selector = Inr (Some (elements ! 0))) \<and>
     (\<not> js_includes selector nth_of_type_open \<longrightarrow> extractNthIndex selector = 1)"
    using r b c z extractNthIndex_default by (intro conjI impI) assumption+
qed

lemma list_page_selectors:
  "extractNthIndex ''li:nth-of-type(5)'' = 5 \<and> extractNthIndex ''li:nth-of-type(2)'' = 2 \<and>
   extractNthIndex ''li:nth-of-type(0)'' = 0 \<and> \<not> js_includes ''li'' nth_of_type_open"
  by code_simp

lemma list_page_second:
  "takeWhile (\<lambda>c. c \<noteq> CHR '':'') ''li:nth-of-type(2)'' = index_free_base ''li:nth-of-type(2)'' \<and>
   query_all list_page () (index_free_base ''li:nth-of-type(2)'') = Inr [10, 20, 30] \<and>
   [10, 20, 30 :: nat] \<noteq> []"
  by code_simp

lemma list_page_fifth:
  "takeWhile (\<lambda>c. c \<noteq> CHR '':'') ''li:nth-of-type(5)'' = index_free_base ''li:nth-of-type(5)'' \<and>
   query_all list_page () (index_free_base ''li:nth-of-type(5)'') = Inr [10, 20, 30] \<and>
   [10, 20, 30 :: nat] \<noteq> []"
  by code_simp

lemma list_page_zeroth:
  "takeWhile (\<lambda>c. c \<noteq> CHR '':'') ''li:nth-of-type(0)'' = index_free_base ''li:nth-of-type(0)'' \<and>
   query_all list_page () (index_free_base ''li:nth-of-type(0)'') = Inr [10, 20, 30] \<and>
   [10, 20, 30 :: nat] \<noteq> []"
  by code_simp

lemma list_page_plain:
  "takeWhile (\<lambda>c. c \<noteq> CHR '':'') ''li'' = index_free_base ''li'' \<and>
   query_all list_page () (index_free_base ''li'') = Inr [10, 20, 30] \<and>
   [10, 20, 30 :: nat] \<noteq> []"
  by code_simp

theorem findElementWithFallback_positional_pick_witness:
  "positional_strategy list_page () ''li:nth-of-type(2)'' = Inr (Some 20) \<and>
   positional_strategy list_page () ''li:nth-of-type(5)'' = Inr (Some 30) \<and>
   picks_claimed_position ''li:nth-of-type(5)'' [10, 20, 30] (positional_strategy list_page () ''li:nth-of-type(5)'') \<and>
   positional_strategy list_page () ''li:nth-of-type(0)'' = Inr (Some 10) \<and>
   positional_strategy list_page () ''li'' = Inr (Some 10) \<and>
   extractNthIndex ''li'' = 1"
proof -
  note t2 = findElementWithFallback_positional_pick
    [where selector = "''li:nth-of-type(2)''" and ops = list_page and s = "()" and elements = "[10, 20, 30]"]
  note t5 = findElementWithFallback_positional_pick
    [where selector = "''li:nth-of-type(5)''" and ops = list_page and s = "()" and elements = "[10, 20, 30]"]
  note t0 = findElementWithFallback_positional_pick
    [where selector = "''li:nth-of-type(0)''" and ops = list_page and s = "()" and elements = "[10, 20, 30]"]
  note t1 = findElementWithFallback_positional_pick
    [where selector = "''li''" and ops = list_page and s = "()" and elements = "[10, 20, 30]"]
  note h2 = list_page_second
  note h5 = list_page_fifth
  note h0 = list_page_zeroth
  note h1 = list_page_plain
  have k5: "1 \<le> extractNthIndex ''li:nth-of-type(5)''" using list_page_selectors by simp
  have k0: "extractNthIndex ''li:nth-of-type(0)'' = 0" using list_page_selectors by simp
  have k1: "\<not> js_includes ''li'' nth_of_type_open" using list_page_selectors by simp
  have c2: "positional_strategy list_page () ''li:nth-of-type(2)'' = Inr (Some 20)"
    using conjunct1 [OF mp [OF t2 h2]] list_page_selectors by simp
  have c5: "positional_strategy list_page () ''li:nth-of-type(5)'' = Inr (Some 30)"
    using conjunct1 [OF mp [OF t5 h5]] list_page_selectors by simp
  have p5: "picks_claimed_position ''li:nth-of-type(5)'' [10, 20, 30]
      (positional_strategy list_page () ''li:nth-of-type(5)'')"
    by (rule mp [OF conjunct1 [OF conjunct2 [OF conjunct2 [OF mp [OF t5 h5]]]] k5])
  have c0: "positional_strategy list_page () ''li:nth-of-type(0)'' = Inr (Some 10)"
    using mp [OF conjunct1 [OF conjunct2 [OF conjunct2 [OF conjunct2 [OF mp [OF t0 h0]]]]] k0] by simp
  have d1: "extractNthIndex ''li'' = 1"
    by (rule mp [OF conjunct2 [OF conjunct2 [OF conjunct2 [OF conjunct2 [OF mp [OF t1 h1]]]]] k1])
  have c1: "positional_strategy list_page () ''li'' = Inr (Some 10)"
    using conjunct1 [OF mp [OF t1 h1]] d1 by simp
  from c2 c5 p5 c0 c1 d1 show ?thesis by (intro conjI)
qed

text \<open>
  A selector whose base carries a pseudo-class is outside the amended claim: for
  \<^verbatim>\<open>li:hover div:nth-of-type(5)\<close> the text before the first colon is \<^verbatim>\<open>li\<close>, not the
  index-free base \<^verbatim>\<open>li:hover div\<close>, and the pick is made among the list items.
\<close>

lemma positional_strategy_pseudo_class:
  "index_free_base ''li:hover div:nth-of-type(5)'' = ''li:hover div'' \<and>
   takeWhile (\<lambda>c. c \<noteq> CHR '':'') ''li:hover div:nth-of-type(5)'' = ''li'' \<and>
   query_all list_page () ''li:hover div'' = Inr [] \<and>
   findElementWithFallback list_page (Some ()) ''li:hover div:nth-of-type(5)'' [] = Inr (Some 30)"
  by code_simp

section \<open>Properties of the interaction planner\<close>

lemma truthy_string_or_absent: "string_or_absent v \<Longrightarrow> truthy v = present_nonempty v"
  by (cases v) simp_all

lemma validateInteraction_unfold:
  "validateInteraction (JObj kvs) =
     (truthy (get_prop (JObj kvs) ''type'') \<and> truthy (get_prop (JObj kvs) ''selector'') \<and>
      truthy (get_prop (JObj kvs) ''description'') \<and>
      get_prop (JObj kvs) ''type'' \<in> set (map JStr supportedInteractions) \<and>
      (get_prop (JObj kvs) ''type'' = JStr ''type'' \<longrightarrow> truthy (get_prop (JObj kvs) ''text'')))"
  unfolding validateInteraction_def Let_def
  by (auto simp del: get_prop.simps)

lemma supported_set:
  "set (map JStr supportedInteractions) =
     {JStr ''click'', JStr ''type'', JStr ''hover'', JStr ''scroll'', JStr ''wait''}"
  by (simp add: supportedInteractions_def)

lemma validateInteraction_iff_spec:
  "is_step step \<Longrightarrow> validateInteraction step = accepted_by_spec step"
proof (cases step)
  case (JObj kvs)
  assume "is_step step"
  with JObj have s: "string_or_absent (get_prop (JObj kvs) ''type'')"
      "string_or_absent (get_prop (JObj kvs) ''selector'')"
      "string_or_absent (get_prop (JObj kvs) ''description'')"
      "string_or_absent (get_prop (JObj kvs) ''text'')"
    by (simp_all del: get_prop.simps)
  show ?thesis
    unfolding JObj validateInteraction_unfold accepted_by_spec_def supported_set
      truthy_string_or_absent [OF s(1)] truthy_string_or_absent [OF s(2)]
      truthy_string_or_absent [OF s(3)] truthy_string_or_absent [OF s(4)]
    by (simp del: get_prop.simps)
qed simp_all

lemma slice0_nonneg: "0 \<le> n \<Longrightarrow> slice0 xs n = take (nat n) xs"
  by (simp add: slice0_def)

lemma planInteractions_cases:
  "planInteractions pl ops s = Inr plan \<Longrightarrow>
   \<exists>pageState interactions.
     AIDecisionMaker_capturePageState ops s = Inr pageState \<and>
     generateInteractionPlan pl pageState = Inr (JArr interactions) \<and>
     plan = slice0 (filter validateInteraction interactions) (maxInteractions pl)"
  unfolding planInteractions_def
  by (auto split: sum.splits jsval.splits)

lemma planInteractions_success:
  "AIDecisionMaker_capturePageState ops s = Inr pageState \<Longrightarrow>
   generateInteractionPlan pl pageState = Inr (JArr interactions) \<Longrightarrow>
   planInteractions pl ops s =
     Inr (slice0 (filter validateInteraction interactions) (maxInteractions pl))"
  unfolding planInteractions_def by simp

text \<open>
  Claim C6. On a step of the planner's data model, validateInteraction accepts exactly when
  kind, selector and description are present and non-empty, the kind is one of click, type,
  hover, scroll and wait, and a step of kind type carries non-empty text. With a configured
  maximum that is not negative, every plan that planInteractions returns holds only accepted
  steps and at most the configured number of them; and whenever the page capture and the
  reasoning service deliver an array, planInteractions returns the accepted steps of that
  array, in order, cut to the maximum: a rejected step is dropped and does not fail the plan.
\<close>

theorem planInteractions_validated_and_bounded:
  "(is_step step \<longrightarrow> validateInteraction step = accepted_by_spec step) \<and>
   (0 \<le> maxInteractions pl \<and> planInteractions pl ops s = Inr plan \<longrightarrow>
      (\<forall>x \<in> set plan. validateInteraction x) \<and> int (length plan) \<le> maxInteractions pl) \<and>
   (0 \<le> maxInteractions pl \<and> AIDecisionMaker_capturePageState ops s = Inr pageState \<and>
      generateInteractionPlan pl pageState = Inr (JArr interactions) \<longrightarrow>
      planInteractions pl ops s =
        Inr (take (nat (maxInteractions pl)) (filter validateInteraction interactions)))"
proof (intro conjI impI)
  assume "is_step step"
  then show "validateInteraction step = accepted_by_spec step" by (rule validateInteraction_iff_spec)
next
  assume a: "0 \<le> maxInteractions pl \<and> planInteractions pl ops s = Inr plan"
  then obtain xs where p: "plan = take (nat (maxInteractions pl)) (filter validateInteraction xs)"
    using planInteractions_cases [of pl ops s plan] by (auto simp: slice0_nonneg)
  show "\<forall>x \<in> set plan. validateInteraction x"
  proof
    fix x assume "x \<in> set plan"
    then have "x \<in> set (filter validateInteraction xs)" unfolding p by (rule in_set_takeD)
    then show "validateInteraction x" by simp
  qed
  have "length plan \<le> nat (maxInteractions pl)" unfolding p by simp
  then show "int (length plan) \<le> maxInteractions pl"
    using a by linarith
next
  assume "0 \<le> maxInteractions pl \<and> AIDecisionMaker_capturePageState ops s = Inr pageState \<and>
      generateInteractionPlan pl pageState = Inr (JArr interactions)"
  then show "planInteractions pl ops s =
        Inr (take (nat (maxInteractions pl)) (filter validateInteraction interactions))"
    using planInteractions_success [of ops s pageState pl interactions] by (simp add: slice0_nonneg)
qed

lemma sample_steps:
  "filter validateInteraction [click_step, bad_step, type_step, hover_step]
     = [click_step, type_step, hover_step]"
  by code_simp

lemma bad_step_is_step: "is_step bad_step" by code_simp
lemma bad_step_rejected: "\<not> validateInteraction bad_step" by code_simp

theorem planInteractions_validated_and_bounded_witness:
  "is_step bad_step \<and> \<not> accepted_by_spec bad_step \<and>
   0 \<le> maxInteractions sample_planner \<and>
   AIDecisionMaker_capturePageState crowded_page () = Inr (ai_snapshot crowded_document) \<and>
   planInteractions sample_planner crowded_page () = Inr [click_step, type_step] \<and>
   int (length [click_step, type_step]) \<le> maxInteractions sample_planner"
proof -
  note t = planInteractions_validated_and_bounded
    [of bad_step sample_planner crowded_page "()" "[click_step, type_step]"
        "ai_snapshot crowded_document" "[click_step, bad_step, type_step, hover_step]"]
  have c: "AIDecisionMaker_capturePageState crowded_page () = Inr (ai_snapshot crowded_document)"
    by (simp add: AIDecisionMaker_capturePageState_def crowded_page_def)
  have m: "maxInteractions sample_planner = 2" by (simp add: sample_planner_def)
  have g: "generateInteractionPlan sample_planner (ai_snapshot crowded_document)
             = Inr (JArr [click_step, bad_step, type_step, hover_step])"
    by (simp add: sample_planner_def)
  from t have t1: "is_step bad_step \<longrightarrow> validateInteraction bad_step = accepted_by_spec bad_step"
    by (rule conjunct1)
  from t1 bad_step_is_step have "validateInteraction bad_step = accepted_by_spec bad_step"
    by (rule mp)
  with bad_step_rejected have r: "\<not> accepted_by_spec bad_step" by simp
  have pre: "0 \<le> maxInteractions sample_planner \<and>
      AIDecisionMaker_capturePageState crowded_page () = Inr (ai_snapshot crowded_document) \<and>
      generateInteractionPlan sample_planner (ai_snapshot crowded_document)
        = Inr (JArr [click_step, bad_step, type_step, hover_step])"
    by (intro conjI c g) (simp add: m)
  from t have t3: "0 \<le> maxInteractions sample_planner \<and>
      AIDecisionMaker_capturePageState crowded_page () = Inr (ai_snapshot crowded_document) \<and>
      generateInteractionPlan sample_planner (ai_snapshot crowded_document)
        = Inr (JArr [click_step, bad_step, type_step, hover_step]) \<longrightarrow>
      planInteractions sample_planner crowded_page () =
        Inr (take (nat (maxInteractions sample_planner))
               (filter validateInteraction [click_step, bad_step, type_step, hover_step]))"
    by (rule conjunct2 [OF conjunct2])
  from t3 pre have "planInteractions sample_planner crowded_page () =
        Inr (take (nat (maxInteractions sample_planner))
               (filter validateInteraction [click_step, bad_step, type_step, hover_step]))"
    by (rule mp)
  then have p: "planInteractions sample_planner crowded_page () = Inr [click_step, type_step]"
    unfolding m sample_steps by simp
  have l: "int (length [click_step, type_step]) \<le> maxInteractions sample_planner"
    unfolding m by simp
  have z: "0 \<le> maxInteractions sample_planner" unfolding m by simp
  from bad_step_is_step r z c p l show ?thesis by (intro conjI) assumption+
qed

section \<open>Rules for traces\<close>

lemma never_sound: "never m good \<Longrightarrow> sound m good"
  unfolding never_def sound_def
  by (auto split: sum.splits) (metis (no_types, lifting) sum.simps(5,6))

lemma sound_return: "sound (io_return x) good"
  by (simp add: sound_def io_return_def)

lemma sound_throw: "sound (io_throw e) good"
  by (simp add: sound_def io_throw_def)

lemma never_throw: "never (io_throw e) good"
  by (simp add: never_def io_throw_def)

lemma never_return: "\<not> good x \<Longrightarrow> never (io_return x) good"
  by (simp add: never_def io_return_def)

lemma sound_observe: "sound (observe c f) good"
  by (auto simp: sound_def observe_def returned_def split: sum.splits prod.splits)

lemma sound_act: "sound (act c f) good"
  by (auto simp: sound_def act_def returned_def split: sum.splits prod.splits)

lemma sound_bind:
  assumes m: "sound m good1"
    and f: "\<And>x. good1 x \<Longrightarrow> sound (f x) good2"
    and g: "\<And>x. \<not> good1 x \<Longrightarrow> never (f x) good2"
  shows "sound (io_bind m f) good2"
  unfolding sound_def
proof
  fix st
  from m obtain new1 where n1: "snd (snd (m st)) = snd st @ new1"
    and c1: "case fst (m st) of Inl e \<Rightarrow> True | Inr x \<Rightarrow> good1 x \<longrightarrow> list_all snd new1"
    unfolding sound_def by blast
  show "\<exists>new. snd (snd (io_bind m f st)) = snd st @ new \<and>
     (case fst (io_bind m f st) of Inl e \<Rightarrow> True | Inr x \<Rightarrow> good2 x \<longrightarrow> list_all snd new)"
  proof -
    obtain r st1 where Pair: "m st = (r, st1)" by (metis surj_pair)
    show ?thesis
    proof (cases r)
      case (Inl e)
      with Pair n1 show ?thesis by (simp add: io_bind_def)
    next
      case (Inr x)
      have b: "io_bind m f st = f x st1" using Pair Inr by (simp add: io_bind_def)
      show ?thesis
      proof (cases "good1 x")
        case True
        from f [OF True] obtain new2 where n2: "snd (snd (f x st1)) = snd st1 @ new2"
          and c2: "case fst (f x st1) of Inl e \<Rightarrow> True | Inr y \<Rightarrow> good2 y \<longrightarrow> list_all snd new2"
          unfolding sound_def by blast
        from c1 Pair Inr True have "list_all snd new1" by simp
        with n1 n2 c2 Pair show ?thesis
          unfolding b by (intro exI [of _ "new1 @ new2"]) (auto split: sum.splits)
      next
        case False
        from g [OF False] obtain new2 where n2: "snd (snd (f x st1)) = snd st1 @ new2"
          and c2: "case fst (f x st1) of Inl e \<Rightarrow> True | Inr y \<Rightarrow> \<not> good2 y"
          unfolding never_def by blast
        with n1 Pair show ?thesis
          unfolding b by (intro exI [of _ "new1 @ new2"]) (auto split: sum.splits)
      qed
    qed
  qed
qed

lemma never_bind:
  assumes m: "sound m good1"
    and f: "\<And>x. never (f x) good2"
  shows "never (io_bind m f) good2"
  unfolding never_def
proof
  fix st
  from m obtain new1 where n1: "snd (snd (m st)) = snd st @ new1"
    unfolding sound_def by blast
  show "\<exists>new. snd (snd (io_bind m f st)) = snd st @ new \<and>
     (case fst (io_bind m f st) of Inl e \<Rightarrow> True | Inr x \<Rightarrow> \<not> good2 x)"
  proof -
    obtain r st1 where Pair: "m st = (r, st1)" by (metis surj_pair)
    show ?thesis
    proof (cases r)
      case (Inl e)
      with Pair n1 show ?thesis by (simp add: io_bind_def)
    next
      case (Inr x)
      have b: "io_bind m f st = f x st1" using Pair Inr by (simp add: io_bind_def)
      from f [of x] obtain new2 where n2: "snd (snd (f x st1)) = snd st1 @ new2"
        and c2: "case fst (f x st1) of Inl e \<Rightarrow> True | Inr y \<Rightarrow> \<not> good2 y"
        unfolding never_def by blast
      with n1 Pair show ?thesis
        unfolding b by (intro exI [of _ "new1 @ new2"]) (auto split: sum.splits)
    qed
  qed
qed

lemma sound_catch:
  assumes m: "sound m good"
    and h: "\<And>e. never (h e) good"
  shows "sound (io_catch m h) good"
  unfolding sound_def
proof
  fix st
  from m obtain new1 where n1: "snd (snd (m st)) = snd st @ new1"
    and c1: "case fst (m st) of Inl e \<Rightarrow> True | Inr x \<Rightarrow> good x \<longrightarrow> list_all snd new1"
    unfolding sound_def by blast
  show "\<exists>new. snd (snd (io_catch m h st)) = snd st @ new \<and>
     (case fst (io_catch m h st) of Inl e \<Rightarrow> True | Inr x \<Rightarrow> good x \<longrightarrow> list_all snd new)"
  proof -
    obtain r st1 where Pair: "m st = (r, st1)" by (metis surj_pair)
    show ?thesis
    proof (cases r)
      case (Inr x)
      with Pair n1 c1 show ?thesis by (simp add: io_catch_def)
    next
      case (Inl e)
      have b: "io_catch m h st = h e st1" using Pair Inl by (simp add: io_catch_def)
      from h [of e] obtain new2 where n2: "snd (snd (h e st1)) = snd st1 @ new2"
        and c2: "case fst (h e st1) of Inl e \<Rightarrow> True | Inr y \<Rightarrow> \<not> good y"
        unfolding never_def by blast
      with n1 Pair show ?thesis
        unfolding b by (intro exI [of _ "new1 @ new2"]) (auto split: sum.splits)
    qed
  qed
qed


section \<open>Properties of the authentication handler\<close>

lemma sound_weaken: "sound m good \<Longrightarrow> (\<And>x. good' x \<Longrightarrow> good x) \<Longrightarrow> sound m good'"
  unfolding sound_def
proof
  fix st
  assume a: "\<forall>st. \<exists>new. snd (snd (m st)) = snd st @ new \<and>
        (case fst (m st) of Inl e \<Rightarrow> True | Inr x \<Rightarrow> good x \<longrightarrow> list_all snd new)"
    and w: "\<And>x. good' x \<Longrightarrow> good x"
  from a obtain new where n: "snd (snd (m st)) = snd st @ new"
    and c: "case fst (m st) of Inl e \<Rightarrow> True | Inr x \<Rightarrow> good x \<longrightarrow> list_all snd new"
    by blast
  from c w have "case fst (m st) of Inl e \<Rightarrow> True | Inr x \<Rightarrow> good' x \<longrightarrow> list_all snd new"
    by (auto split: sum.splits)
  with n show "\<exists>new. snd (snd (m st)) = snd st @ new \<and>
        (case fst (m st) of Inl e \<Rightarrow> True | Inr x \<Rightarrow> good' x \<longrightarrow> list_all snd new)"
    by blast
qed

lemma sound_bind_all:
  "sound m (\<lambda>x. True) \<Longrightarrow> (\<And>x. sound (f x) good) \<Longrightarrow> sound (io_bind m f) good"
  by (rule sound_bind [where ?good1.0 = "\<lambda>x. True"]) simp_all

lemma sound_page_query: "sound (page_query ops selector) good"
  unfolding page_query_def by (rule sound_observe)

lemma sound_first_match: "sound (first_match ops selectors) (\<lambda>x. True)"
proof (induction selectors)
  case Nil
  show ?case by (simp add: sound_return)
next
  case (Cons selector selectors)
  show ?case
    unfolding first_match.simps
  proof (rule sound_bind_all)
    show "sound (page_query ops selector) (\<lambda>x. True)" by (rule sound_page_query)
  next
    fix field
    show "sound (case field of Some el \<Rightarrow> io_return (Some el)
                 | None \<Rightarrow> first_match ops selectors) (\<lambda>x. True)"
      using Cons.IH by (cases field) (simp_all add: sound_return)
  qed
qed

lemma sound_detectLoginForm: "sound (detectLoginForm ops) found"
  unfolding detectLoginForm_def
proof (rule sound_catch)
  fix e
  show "never (io_return \<lparr>found = False, emailField = None, passwordField = None,
                          submitButton = None\<rparr>) found"
    by (rule never_return) simp
next
  have "sound
     (io_bind (first_match ops emailSelectors) (\<lambda>emailField.
        io_bind (first_match ops passwordSelectors) (\<lambda>passwordField.
        io_bind (first_match ops submitSelectors) (\<lambda>submitButton.
        io_bind (if submitButton = None \<and> emailField \<noteq> None \<and> passwordField \<noteq> None
                 then page_query ops form_button_selector else io_return submitButton) (\<lambda>submitButton.
        io_return \<lparr>found = (emailField \<noteq> None \<and> passwordField \<noteq> None \<and> submitButton \<noteq> None),
                   emailField = emailField, passwordField = passwordField,
                   submitButton = submitButton\<rparr>))))) (\<lambda>x. True)"
    by (intro sound_bind_all sound_first_match sound_return)
       (simp add: sound_page_query sound_return)
  then show "sound
     (io_bind (first_match ops emailSelectors) (\<lambda>emailField.
        io_bind (first_match ops passwordSelectors) (\<lambda>passwordField.
        io_bind (first_match ops submitSelectors) (\<lambda>submitButton.
        io_bind (if submitButton = None \<and> emailField \<noteq> None \<and> passwordField \<noteq> None
                 then page_query ops form_button_selector else io_return submitButton) (\<lambda>submitButton.
        io_return \<lparr>found = (emailField \<noteq> None \<and> passwordField \<noteq> None \<and> submitButton \<noteq> None),
                   emailField = emailField, passwordField = passwordField,
                   submitButton = submitButton\<rparr>))))) found"
    by (rule sound_weaken) simp
qed

lemma sound_on_handle: "(\<And>el. sound (f el) good) \<Longrightarrow> sound (on_handle h f) good"
  by (cases h) (simp_all add: on_handle_def sound_throw)

lemma sound_fillLoginForm: "sound (fillLoginForm ops form u p) (\<lambda>x. True)"
  unfolding fillLoginForm_def
  by (intro sound_catch never_throw sound_bind_all sound_on_handle sound_act)

lemma sound_find_error_message: "sound (find_error_message ops selectors) (\<lambda>x. True)"
proof (induction selectors)
  case Nil
  show ?case by (simp add: sound_return)
next
  case (Cons selector selectors)
  show ?case
    unfolding find_error_message.simps
  proof (rule sound_bind_all)
    show "sound (page_query ops selector) (\<lambda>x. True)" by (rule sound_page_query)
  next
    fix errorElement
    show "sound (case errorElement of
            Some el \<Rightarrow> io_bind (observe (TextOf el) (\<lambda>s. text_of ops s el)) (\<lambda>t. io_return (Some t))
          | None \<Rightarrow> find_error_message ops selectors) (\<lambda>x. True)"
      using Cons.IH
      by (cases errorElement) (auto intro!: sound_bind_all sound_observe sound_return)
  qed
qed

lemma sound_waitForAuthenticationResult:
  "sound (waitForAuthenticationResult ops originalUrl) success"
  unfolding waitForAuthenticationResult_def
proof (rule sound_catch)
  fix e
  show "never (io_return \<lparr>success = False, newUrl = None, auth_error = Some e\<rparr>) success"
    by (rule never_return) simp
next
  have "sound
     (io_bind (act (NavigationRace timeout 5000) (\<lambda>s. navigation_race ops s timeout 5000)) (\<lambda>_.
        io_bind (observe PageUrl (\<lambda>s. Inr (page_url ops s))) (\<lambda>newUrl.
        if newUrl \<noteq> originalUrl
        then io_return \<lparr>success = True, newUrl = Some newUrl, auth_error = None\<rparr>
        else
          io_bind (find_error_message ops errorSelectors) (\<lambda>errorMessage.
          if truthy_str errorMessage
          then io_return \<lparr>success = False, newUrl = None,
                          auth_error = Some (js_trim (or_empty errorMessage))\<rparr>
          else io_return \<lparr>success = False, newUrl = None, auth_error = Some unclear_message\<rparr>))))
     (\<lambda>x. True)"
    by (intro sound_bind_all sound_act sound_observe)
       (auto intro!: sound_bind_all sound_find_error_message sound_return)
  then show "sound
     (io_bind (act (NavigationRace timeout 5000) (\<lambda>s. navigation_race ops s timeout 5000)) (\<lambda>_.
        io_bind (observe PageUrl (\<lambda>s. Inr (page_url ops s))) (\<lambda>newUrl.
        if newUrl \<noteq> originalUrl
        then io_return \<lparr>success = True, newUrl = Some newUrl, auth_error = None\<rparr>
        else
          io_bind (find_error_message ops errorSelectors) (\<lambda>errorMessage.
          if truthy_str errorMessage
          then io_return \<lparr>success = False, newUrl = None,
                          auth_error = Some (js_trim (or_empty errorMessage))\<rparr>
          else io_return \<lparr>success = False, newUrl = None, auth_error = Some unclear_message\<rparr>))))
     success"
    by (rule sound_weaken) simp
qed

lemma sound_authenticate:
  assumes "truthy_str (user creds)" and "truthy_str (password creds)"
  shows "sound (authenticate ops creds) (\<lambda>b. b)"
proof -
  have body: "sound
     (io_bind (detectLoginForm ops) (\<lambda>loginForm.
           if \<not> found loginForm then io_return False
           else
             io_bind (observe PageUrl (\<lambda>s. Inr (page_url ops s))) (\<lambda>originalUrl.
             io_bind (fillLoginForm ops loginForm (or_empty (user creds)) (or_empty (password creds))) (\<lambda>_.
             io_bind (waitForAuthenticationResult ops originalUrl) (\<lambda>result.
             if success result then io_return True else io_return False)))))
     (\<lambda>b. b)"
  proof (rule sound_bind [where ?good1.0 = found])
    show "sound (detectLoginForm ops) found" by (rule sound_detectLoginForm)
  next
    fix loginForm :: login_form
    assume f: "found loginForm"
    have "sound
       (io_bind (observe PageUrl (\<lambda>s. Inr (page_url ops s))) (\<lambda>originalUrl.
        io_bind (fillLoginForm ops loginForm (or_empty (user creds)) (or_empty (password creds))) (\<lambda>_.
        io_bind (waitForAuthenticationResult ops originalUrl) (\<lambda>result.
        if success result then io_return True else io_return False))))
       (\<lambda>b. b)"
    proof (rule sound_bind_all)
      show "sound (observe PageUrl (\<lambda>s. Inr (page_url ops s))) (\<lambda>x. True)"
        by (rule sound_observe)
    next
      fix originalUrl :: string
      show "sound
         (io_bind (fillLoginForm ops loginForm (or_empty (user creds)) (or_empty (password creds))) (\<lambda>_.
          io_bind (waitForAuthenticationResult ops originalUrl) (\<lambda>result.
          if success result then io_return True else io_return False)))
         (\<lambda>b. b)"
      proof (rule sound_bind_all)
        show "sound (fillLoginForm ops loginForm (or_empty (user creds)) (or_empty (password creds)))
                (\<lambda>x. True)"
          by (rule sound_fillLoginForm)
      next
        fix u :: unit
        show "sound (io_bind (waitForAuthenticationResult ops originalUrl) (\<lambda>result.
                if success result then io_return True else io_return False)) (\<lambda>b. b)"
        proof (rule sound_bind [where ?good1.0 = success])
          show "sound (waitForAuthenticationResult ops originalUrl) success"
            by (rule sound_waitForAuthenticationResult)
        next
          fix result :: auth_result
          assume "success result"
          then show "sound (if success result then io_return True else io_return False) (\<lambda>b. b)"
            by (simp add: sound_return)
        next
          fix result :: auth_result
          assume "\<not> success result"
          then show "never (if success result then io_return True else io_return False) (\<lambda>b. b)"
            by (simp add: never_return)
        qed
      qed
    qed
    with f show "sound (if \<not> found loginForm then io_return False
           else
             io_bind (observe PageUrl (\<lambda>s. Inr (page_url ops s))) (\<lambda>originalUrl.
             io_bind (fillLoginForm ops loginForm (or_empty (user creds)) (or_empty (password creds))) (\<lambda>_.
             io_bind (waitForAuthenticationResult ops originalUrl) (\<lambda>result.
             if success result then io_return True else io_return False)))) (\<lambda>b. b)"
      by simp
  next
    fix loginForm :: login_form
    assume "\<not> found loginForm"
    then show "never (if \<not> found loginForm then io_return False
           else
             io_bind (observe PageUrl (\<lambda>s. Inr (page_url ops s))) (\<lambda>originalUrl.
             io_bind (fillLoginForm ops loginForm (or_empty (user creds)) (or_empty (password creds))) (\<lambda>_.
             io_bind (waitForAuthenticationResult ops originalUrl) (\<lambda>result.
             if success result then io_return True else io_return False)))) (\<lambda>b. b)"
      by (simp add: never_return)
  qed
  have "sound (io_catch
     (io_bind (detectLoginForm ops) (\<lambda>loginForm.
           if \<not> found loginForm then io_return False
           else
             io_bind (observe PageUrl (\<lambda>s. Inr (page_url ops s))) (\<lambda>originalUrl.
             io_bind (fillLoginForm ops loginForm (or_empty (user creds)) (or_empty (password creds))) (\<lambda>_.
             io_bind (waitForAuthenticationResult ops originalUrl) (\<lambda>result.
             if success result then io_return True else io_return False)))))
     (\<lambda>error. io_return False)) (\<lambda>b. b)"
    by (rule sound_catch [OF body]) (simp add: never_return)
  with assms show ?thesis by (simp add: authenticate_def)
qed

lemma catch_returns:
  "\<exists>b st'. io_catch m (\<lambda>error. io_return b0) st = (Inr b, st')"
  by (cases "m st" rule: prod.exhaust) (auto simp: io_catch_def io_return_def split: sum.splits)

text \<open>
  Claim C2. authenticate raises exactly when the user or the password is missing or empty.
  The error then names the credentials and is raised before any call on the page: state and
  trace are unchanged. With both credentials present it returns a boolean, whatever the page
  does, and it returns \<open>True\<close> only when every call on the page made during the attempt
  returned: an exception during form detection, form filling or the wait for the outcome
  ends in \<open>False\<close>.
\<close>

theorem authenticate_raises_iff_credentials_missing:
  "((\<exists>e. fst (authenticate ops creds (s, tr)) = Inl e) \<longleftrightarrow>
      (\<not> truthy_str (user creds) \<or> \<not> truthy_str (password creds))) \<and>
   (\<not> truthy_str (user creds) \<or> \<not> truthy_str (password creds) \<longrightarrow>
      authenticate ops creds (s, tr) =
        (Inl ''Missing required credentials: user and password'', (s, tr))) \<and>
   (truthy_str (user creds) \<and> truthy_str (password creds) \<longrightarrow>
      (\<exists>b s' new. authenticate ops creds (s, tr) = (Inr b, (s', tr @ new)) \<and>
                   (b \<longrightarrow> list_all snd new)))"
proof -
  have missing: "authenticate ops creds (s, tr) =
        (Inl ''Missing required credentials: user and password'', (s, tr))"
    if "\<not> truthy_str (user creds) \<or> \<not> truthy_str (password creds)"
    using that by (auto simp: authenticate_def io_throw_def)
  have present: "\<exists>b s' new. authenticate ops creds (s, tr) = (Inr b, (s', tr @ new)) \<and>
                   (b \<longrightarrow> list_all snd new)"
    if p: "truthy_str (user creds) \<and> truthy_str (password creds)"
  proof -
    from p have "sound (authenticate ops creds) (\<lambda>b. b)" by (simp add: sound_authenticate)
    then obtain new where n: "snd (snd (authenticate ops creds (s, tr))) = tr @ new"
      and c: "case fst (authenticate ops creds (s, tr)) of Inl e \<Rightarrow> True
              | Inr b \<Rightarrow> b \<longrightarrow> list_all snd new"
      unfolding sound_def by fastforce
    from p obtain b st' where r: "authenticate ops creds (s, tr) = (Inr b, st')"
      unfolding authenticate_def using catch_returns by fastforce
    obtain s' tr' where st: "st' = (s', tr')" by (cases st') auto
    from n r st have "tr' = tr @ new" by simp
    with r st c show ?thesis by auto
  qed
  have iff: "(\<exists>e. fst (authenticate ops creds (s, tr)) = Inl e) \<longleftrightarrow>
      (\<not> truthy_str (user creds) \<or> \<not> truthy_str (password creds))"
  proof
    assume "\<exists>e. fst (authenticate ops creds (s, tr)) = Inl e"
    then show "\<not> truthy_str (user creds) \<or> \<not> truthy_str (password creds)"
      using present by fastforce
  next
    assume "\<not> truthy_str (user creds) \<or> \<not> truthy_str (password creds)"
    then show "\<exists>e. fst (authenticate ops creds (s, tr)) = Inl e"
      using missing by simp
  qed
  from iff missing present show ?thesis by blast
qed

lemma login_page_missing_user:
  "\<not> truthy_str (user \<lparr>user = Some [], password = Some ''p''\<rparr>)"
  by (simp add: truthy_str_def)

lemma login_page_success:
  "fst (authenticate login_page \<lparr>user = Some ''a@x.test'', password = Some ''secret''\<rparr> (0, []))
     = Inr True"
  by (simp add: authenticate_def truthy_str_def or_empty_def detectLoginForm_def emailSelectors_def
      passwordSelectors_def submitSelectors_def fillLoginForm_def on_handle_def
      waitForAuthenticationResult_def io_bind_def io_catch_def io_return_def io_throw_def
      page_query_def observe_def act_def returned_def login_page_def attr_selector_def)

text \<open>
  The two sides of the claim at work: an empty user name on the login page, and a complete
  pair of credentials, with which the login succeeds and every call has returned.
\<close>

theorem authenticate_raises_iff_credentials_missing_witness:
  "authenticate login_page \<lparr>user = Some [], password = Some ''p''\<rparr> (0, []) =
     (Inl ''Missing required credentials: user and password'', (0, [])) \<and>
   fst (authenticate login_page \<lparr>user = Some ''a@x.test'', password = Some ''secret''\<rparr> (0, []))
     = Inr True \<and>
   list_all snd
     (snd (snd (authenticate login_page \<lparr>user = Some ''a@x.test'', password = Some ''secret''\<rparr>
                  (0, []))))"
proof -
  note t1 = authenticate_raises_iff_credentials_missing
    [of login_page "\<lparr>user = Some [], password = Some ''p''\<rparr>" 0 "[]"]
  from t1 have "\<not> truthy_str (user \<lparr>user = Some [], password = Some ''p''\<rparr>) \<or>
      \<not> truthy_str (password \<lparr>user = Some [], password = Some ''p''\<rparr>) \<longrightarrow>
      authenticate login_page \<lparr>user = Some [], password = Some ''p''\<rparr> (0, []) =
        (Inl ''Missing required credentials: user and password'', (0, []))"
    by (rule conjunct1 [OF conjunct2])
  with login_page_missing_user
  have a: "authenticate login_page \<lparr>user = Some [], password = Some ''p''\<rparr> (0, []) =
     (Inl ''Missing required credentials: user and password'', (0, []))"
    by blast
  note t2 = authenticate_raises_iff_credentials_missing
    [of login_page "\<lparr>user = Some ''a@x.test'', password = Some ''secret''\<rparr>" 0 "[]"]
  have p: "truthy_str (user \<lparr>user = Some ''a@x.test'', password = Some ''secret''\<rparr>) \<and>
           truthy_str (password \<lparr>user = Some ''a@x.test'', password = Some ''secret''\<rparr>)"
    by (simp add: truthy_str_def)
  from t2 have "truthy_str (user \<lparr>user = Some ''a@x.test'', password = Some ''secret''\<rparr>) \<and>
           truthy_str (password \<lparr>user = Some ''a@x.test'', password = Some ''secret''\<rparr>) \<longrightarrow>
      (\<exists>b s' new. authenticate login_page \<lparr>user = Some ''a@x.test'', password = Some ''secret''\<rparr>
                      (0, []) = (Inr b, (s', [] @ new)) \<and> (b \<longrightarrow> list_all snd new))"
    by (rule conjunct2 [OF conjunct2])
  with p obtain b s' new where
    r: "authenticate login_page \<lparr>user = Some ''a@x.test'', password = Some ''secret''\<rparr> (0, [])
          = (Inr b, (s', [] @ new))"
    and g: "b \<longrightarrow> list_all snd new"
    by blast
  from r login_page_success have "b" by simp
  with g have "list_all snd new" by simp
  with r have c: "list_all snd
     (snd (snd (authenticate login_page \<lparr>user = Some ''a@x.test'', password = Some ''secret''\<rparr>
                  (0, []))))"
    by simp
  from a login_page_success c show ?thesis by (intro conjI)
qed

lemma first_hit_Cons:
  "first_hit ops s (selector # selectors) =
     (if query ops s selector \<noteq> Inr None then Some selector else first_hit ops s selectors)"
  by (simp add: first_hit_def)

lemma find_error_message_run:
  "\<exists>tr'. find_error_message ops selectors (s, tr) =
     ((case first_hit ops s selectors of
         None \<Rightarrow> Inr None
       | Some selector \<Rightarrow>
           (case query ops s selector of
              Inl e \<Rightarrow> Inl e
            | Inr None \<Rightarrow> Inr None
            | Inr (Some el) \<Rightarrow>
                (case text_of ops s el of Inl e \<Rightarrow> Inl e | Inr t \<Rightarrow> Inr (Some t)))),
      (s, tr'))"
proof (induction selectors arbitrary: tr)
  case Nil
  show ?case by (simp add: first_hit_def io_return_def)
next
  case (Cons selector selectors)
  show ?case
  proof (cases "query ops s selector")
    case (Inl e)
    then show ?thesis
      by (simp add: first_hit_Cons io_bind_def page_query_def observe_def)
  next
    case (Inr found_el)
    show ?thesis
    proof (cases found_el)
      case None
      from Cons.IH [of "tr @ [(Query selector, True)]"] Inr None show ?thesis
        by (simp add: first_hit_Cons io_bind_def page_query_def observe_def returned_def)
    next
      case (Some el)
      with Inr show ?thesis
        by (cases "text_of ops s el")
           (simp_all add: first_hit_Cons io_bind_def page_query_def observe_def io_return_def)
    qed
  qed
qed

lemma scan_reason:
  "find_error_message ops errorSelectors (s, tr) = (r, st') \<Longrightarrow>
   (case r of
      Inl e \<Rightarrow> e
    | Inr errorMessage \<Rightarrow>
        if truthy_str errorMessage then js_trim (or_empty errorMessage) else unclear_message)
   = failure_reason ops s"
  using find_error_message_run [of ops errorSelectors s tr]
  by (auto simp: failure_reason_def truthy_str_def or_empty_def split: option.splits sum.splits)

lemma wait_race_failed:
  assumes "navigation_race ops s timeout 5000 = (Inl e, s1)"
  shows "waitForAuthenticationResult ops originalUrl (s, tr) =
           (Inr \<lparr>success = False, newUrl = None, auth_error = Some e\<rparr>,
            (s1, tr @ [(NavigationRace timeout 5000, False)]))"
  using assms
  by (simp add: waitForAuthenticationResult_def io_catch_def io_bind_def act_def returned_def
      io_return_def)

lemma wait_url_changed:
  assumes "navigation_race ops s timeout 5000 = (Inr u, s1)" and "page_url ops s1 \<noteq> originalUrl"
  shows "waitForAuthenticationResult ops originalUrl (s, tr) =
           (Inr \<lparr>success = True, newUrl = Some (page_url ops s1), auth_error = None\<rparr>,
            (s1, tr @ [(NavigationRace timeout 5000, True), (PageUrl, True)]))"
  using assms
  by (simp add: waitForAuthenticationResult_def io_catch_def io_bind_def act_def observe_def
      returned_def io_return_def)

lemma wait_url_unchanged:
  assumes "navigation_race ops s timeout 5000 = (Inr u, s1)" and "page_url ops s1 = originalUrl"
  shows "\<exists>st'. waitForAuthenticationResult ops originalUrl (s, tr) =
           (Inr \<lparr>success = False, newUrl = None, auth_error = Some (failure_reason ops s1)\<rparr>, st')"
proof -
  obtain r st' where f: "find_error_message ops errorSelectors
      (s1, tr @ [(NavigationRace timeout 5000, True), (PageUrl, True)]) = (r, st')"
    by (metis surj_pair)
  note scan_reason [OF f]
  with f assms show ?thesis
    by (cases r)
       (auto simp: waitForAuthenticationResult_def io_catch_def io_bind_def act_def observe_def
          returned_def io_return_def split: if_splits)
qed

text \<open>
  Claim C1, amended. waitForAuthenticationResult always returns a result. It reports success
  exactly when the wait completed and the address read after it differs from the original
  one, and then gives the new address. When the wait completed and the address is unchanged
  it reports failure, never success: the reason is the trimmed text content of the element
  matched by the first error selector that matches anything when that text is not empty, the
  generic message when no error selector matches or that first element has no text, and the
  exception's message when a query throws. When the wait itself throws it reports failure
  with the exception's message.
\<close>

theorem waitForAuthenticationResult_outcome:
  "\<exists>result st'. waitForAuthenticationResult ops originalUrl (s, tr) = (Inr result, st') \<and>
     (success result \<longleftrightarrow>
        (\<exists>s1. navigation_race ops s timeout 5000 = (Inr (), s1) \<and> page_url ops s1 \<noteq> originalUrl)) \<and>
     (\<forall>s1. navigation_race ops s timeout 5000 = (Inr (), s1) \<and> page_url ops s1 \<noteq> originalUrl \<longrightarrow>
        result = \<lparr>success = True, newUrl = Some (page_url ops s1), auth_error = None\<rparr>) \<and>
     (\<forall>s1. navigation_race ops s timeout 5000 = (Inr (), s1) \<and> page_url ops s1 = originalUrl \<longrightarrow>
        result = \<lparr>success = False, newUrl = None, auth_error = Some (failure_reason ops s1)\<rparr>) \<and>
     (\<forall>e s1. navigation_race ops s timeout 5000 = (Inl e, s1) \<longrightarrow>
        result = \<lparr>success = False, newUrl = None, auth_error = Some e\<rparr>)"
proof -
  obtain r s1 where race: "navigation_race ops s timeout 5000 = (r, s1)" by (metis surj_pair)
  show ?thesis
  proof (cases r)
    case (Inl e)
    with race have "waitForAuthenticationResult ops originalUrl (s, tr) =
           (Inr \<lparr>success = False, newUrl = None, auth_error = Some e\<rparr>,
            (s1, tr @ [(NavigationRace timeout 5000, False)]))"
      by (simp add: wait_race_failed)
    with race Inl show ?thesis by simp
  next
    case (Inr u)
    show ?thesis
    proof (cases "page_url ops s1 = originalUrl")
      case True
      from wait_url_unchanged [of ops s u s1 originalUrl tr] race Inr True
      obtain st' where "waitForAuthenticationResult ops originalUrl (s, tr) =
           (Inr \<lparr>success = False, newUrl = None, auth_error = Some (failure_reason ops s1)\<rparr>, st')"
        by auto
      with race Inr True show ?thesis by simp
    next
      case False
      with race Inr have "waitForAuthenticationResult ops originalUrl (s, tr) =
           (Inr \<lparr>success = True, newUrl = Some (page_url ops s1), auth_error = None\<rparr>,
            (s1, tr @ [(NavigationRace timeout 5000, True), (PageUrl, True)]))"
        by (simp add: wait_url_changed)
      with race Inr False show ?thesis by simp
    qed
  qed
qed

lemma rejecting_reason:
  "failure_reason (rejecting_page ''  Invalid password '' []) () = ''Invalid password''"
  by code_simp

lemma shadowed_result:
  "fst (waitForAuthenticationResult (rejecting_page [] ''Invalid password'') ''https://x.test/login'' ((), []))
     = Inr \<lparr>success = False, newUrl = None, auth_error = Some unclear_message\<rparr>"
  by (simp add: waitForAuthenticationResult_def errorSelectors_def io_bind_def io_catch_def
      io_return_def page_query_def observe_def act_def returned_def rejecting_page_def
      blank_page_def truthy_str_def)

lemma shadowed_claim:
  "first_indicator_text (rejecting_page [] ''Invalid password'') () = Some ''Invalid password'' \<and>
   claimed_failure_reason (rejecting_page [] ''Invalid password'') () = ''Invalid password''"
  by code_simp

theorem waitForAuthenticationResult_outcome_witness:
  "navigation_race (rejecting_page ''  Invalid password '' []) () timeout 5000 = (Inr (), ()) \<and>
   page_url (rejecting_page ''  Invalid password '' []) () = ''https://x.test/login'' \<and>
   fst (waitForAuthenticationResult (rejecting_page ''  Invalid password '' [])
          ''https://x.test/login'' ((), []))
     = Inr \<lparr>success = False, newUrl = None, auth_error = Some ''Invalid password''\<rparr>"
proof -
  have race: "navigation_race (rejecting_page ''  Invalid password '' []) () timeout 5000
                = (Inr (), ())"
    by (simp add: rejecting_page_def blank_page_def)
  have u: "page_url (rejecting_page ''  Invalid password '' []) () = ''https://x.test/login''"
    by (simp add: rejecting_page_def)
  from waitForAuthenticationResult_outcome
    [of "rejecting_page ''  Invalid password '' []" "''https://x.test/login''" "()" "[]"]
  obtain result st' where
    r: "waitForAuthenticationResult (rejecting_page ''  Invalid password '' [])
          ''https://x.test/login'' ((), []) = (Inr result, st')"
    and c: "\<forall>s1. navigation_race (rejecting_page ''  Invalid password '' []) () timeout 5000
                   = (Inr (), s1) \<and>
                 page_url (rejecting_page ''  Invalid password '' []) s1 = ''https://x.test/login'' \<longrightarrow>
               result = \<lparr>success = False, newUrl = None,
                          auth_error = Some (failure_reason (rejecting_page ''  Invalid password '' []) s1)\<rparr>"
    by blast
  from c race u have "result = \<lparr>success = False, newUrl = None,
      auth_error = Some (failure_reason (rejecting_page ''  Invalid password '' []) ())\<rparr>"
    by blast
  then have "result = \<lparr>success = False, newUrl = None, auth_error = Some ''Invalid password''\<rparr>"
    by (simp add: rejecting_reason)
  with r have "fst (waitForAuthenticationResult (rejecting_page ''  Invalid password '' [])
          ''https://x.test/login'' ((), []))
     = Inr \<lparr>success = False, newUrl = None, auth_error = Some ''Invalid password''\<rparr>"
    by simp
  with race u show ?thesis by (intro conjI)
qed

text \<open>
  Claim C1, as stated, fails in its account of the reason. On a login page whose address does
  not change, whose element of class \<^verbatim>\<open>error\<close> is empty and whose element of role \<^verbatim>\<open>alert\<close>
  reads \<^verbatim>\<open>Invalid password\<close>, an error-indicator text is there to be found, and the result
  carries the generic message instead of it.
\<close>

theorem waitForAuthenticationResult_shadowed_indicator:
  "first_indicator_text (rejecting_page [] ''Invalid password'') () = Some ''Invalid password'' \<and>
   claimed_failure_reason (rejecting_page [] ''Invalid password'') () = ''Invalid password'' \<and>
   fst (waitForAuthenticationResult (rejecting_page [] ''Invalid password'')
          ''https://x.test/login'' ((), []))
     = Inr \<lparr>success = False, newUrl = None, auth_error = Some unclear_message\<rparr> \<and>
   unclear_message \<noteq> claimed_failure_reason (rejecting_page [] ''Invalid password'') ()"
proof -
  have "unclear_message \<noteq> ''Invalid password''" by (simp add: unclear_message_def)
  with shadowed_claim shadowed_result show ?thesis by simp
qed

section \<open>Properties of the speech generator\<close>

lemma api_attempt_trace:
  "\<exists>b w'. snd (api_attempt sys req (w, tr)) = (w', tr @ [(Fetch req, b)])"
  by (cases "fetch sys w req")
     (auto simp: api_attempt_def io_bind_def act_def io_throw_def io_return_def Let_def
        split: sum.splits)

lemma retry_step:
  assumes "api_attempt sys req st = (Inl e, (w1, tr1))" and "attempt < retries"
  shows "makeApiRequest_from sys req retries attempt st =
           (if attempt = retries - 1 then (Inl e, (w1, tr1))
            else makeApiRequest_from sys req retries (Suc attempt)
                   (set_timeout sys w1 (2 ^ attempt * 1000),
                    tr1 @ [(Sleep (2 ^ attempt * 1000), True)]))"
  using assms
  by (subst makeApiRequest_from.simps)
     (simp add: io_catch_def io_bind_def io_throw_def sys_sleep_def act_def returned_def)

lemma makeApiRequest_exhausts:
  assumes fails: "\<forall>st. \<exists>e st'. api_attempt sys req st = (Inl e, st')"
  shows "\<exists>e1 w1 b1 e2 w2 b2 e3 w3 b3.
     api_attempt sys req (w, tr) = (Inl e1, (w1, tr @ [(Fetch req, b1)])) \<and>
     api_attempt sys req (set_timeout sys w1 1000, tr @ [(Fetch req, b1), (Sleep 1000, True)]) =
       (Inl e2, (w2, tr @ [(Fetch req, b1), (Sleep 1000, True), (Fetch req, b2)])) \<and>
     api_attempt sys req
         (set_timeout sys w2 2000,
          tr @ [(Fetch req, b1), (Sleep 1000, True), (Fetch req, b2), (Sleep 2000, True)]) =
       (Inl e3, (w3, tr @ [(Fetch req, b1), (Sleep 1000, True), (Fetch req, b2), (Sleep 2000, True),
                          (Fetch req, b3)])) \<and>
     makeApiRequest_from sys req 3 0 (w, tr) =
       (Inl e3, (w3, tr @ [(Fetch req, b1), (Sleep 1000, True), (Fetch req, b2), (Sleep 2000, True),
                          (Fetch req, b3)]))"
proof -
  from fails obtain e1 st1 where a1: "api_attempt sys req (w, tr) = (Inl e1, st1)" by blast
  from api_attempt_trace [of sys req w tr] a1 obtain b1 w1 where
    s1: "st1 = (w1, tr @ [(Fetch req, b1)])" by auto
  let ?tr1 = "tr @ [(Fetch req, b1), (Sleep 1000, True)]"
  from fails obtain e2 st2 where
    a2: "api_attempt sys req (set_timeout sys w1 1000, ?tr1) = (Inl e2, st2)" by blast
  from api_attempt_trace [of sys req "set_timeout sys w1 1000" ?tr1] a2
  obtain b2 w2 where s2: "st2 = (w2, ?tr1 @ [(Fetch req, b2)])" by auto
  let ?tr2 = "tr @ [(Fetch req, b1), (Sleep 1000, True), (Fetch req, b2), (Sleep 2000, True)]"
  from fails obtain e3 st3 where
    a3: "api_attempt sys req (set_timeout sys w2 2000, ?tr2) = (Inl e3, st3)" by blast
  from api_attempt_trace [of sys req "set_timeout sys w2 2000" ?tr2] a3
  obtain b3 w3 where s3: "st3 = (w3, ?tr2 @ [(Fetch req, b3)])" by auto
  have r1: "makeApiRequest_from sys req 3 0 (w, tr) =
      makeApiRequest_from sys req 3 (Suc 0) (set_timeout sys w1 1000, ?tr1)"
    using retry_step [of sys req "(w, tr)" e1 w1 "tr @ [(Fetch req, b1)]" 0 3] a1 s1 by simp
  have r2: "makeApiRequest_from sys req 3 (Suc 0) (set_timeout sys w1 1000, ?tr1) =
      makeApiRequest_from sys req 3 (Suc (Suc 0)) (set_timeout sys w2 2000, ?tr2)"
    using retry_step [of sys req "(set_timeout sys w1 1000, ?tr1)" e2 w2 "?tr1 @ [(Fetch req, b2)]" "Suc 0" 3]
      a2 s2 by simp
  have r3: "makeApiRequest_from sys req 3 (Suc (Suc 0)) (set_timeout sys w2 2000, ?tr2) = (Inl e3, st3)"
    using retry_step [of sys req "(set_timeout sys w2 2000, ?tr2)" e3 w3 "?tr2 @ [(Fetch req, b3)]" "Suc (Suc 0)" 3]
      a3 s3 by simp
  from a1 s1 have c1: "api_attempt sys req (w, tr) = (Inl e1, (w1, tr @ [(Fetch req, b1)]))" by simp
  from a2 s2 have c2: "api_attempt sys req (set_timeout sys w1 1000, ?tr1) =
       (Inl e2, (w2, tr @ [(Fetch req, b1), (Sleep 1000, True), (Fetch req, b2)]))" by simp
  from a3 s3 have c3: "api_attempt sys req (set_timeout sys w2 2000, ?tr2) =
       (Inl e3, (w3, tr @ [(Fetch req, b1), (Sleep 1000, True), (Fetch req, b2), (Sleep 2000, True),
                          (Fetch req, b3)]))" by simp
  from r1 r2 r3 s3 have c4: "makeApiRequest_from sys req 3 0 (w, tr) =
       (Inl e3, (w3, tr @ [(Fetch req, b1), (Sleep 1000, True), (Fetch req, b2), (Sleep 2000, True),
                          (Fetch req, b3)]))" by simp
  from c1 c2 c3 c4 show ?thesis by blast
qed

lemma voice_step:
  "\<exists>voiceId w1 n.
     (if truthy_str (voice options) then io_return (or_empty (voice options))
      else getRandomVoice sys (gender options)) (w, tr) =
       (Inr voiceId, (w1, tr @ (if truthy_str (voice options) then [] else [(Random n, True)])))"
proof (cases "truthy_str (voice options)")
  case True
  then show ?thesis by (simp add: io_return_def)
next
  case False
  let ?voices = "if gender options = Some ''male'' then male_voices
     else if gender options = Some ''female'' then female_voices else VOICES"
  obtain i w1 where r: "math_random sys w (length ?voices) = (i, w1)" by (metis surj_pair)
  have "getRandomVoice sys (gender options) (w, tr) =
      (Inr (snd (?voices ! (i mod length ?voices))), (w1, tr @ [(Random (length ?voices), True)]))"
    using r by (simp add: getRandomVoice_def Let_def io_bind_def act_def io_return_def returned_def)
  with False show ?thesis by auto
qed

lemma mock_state:
  assumes "\<forall>w. \<exists>w'. fs_mkdir sys w (path_dirname sys outputPath) = (Inr (), w')"
    and "\<forall>w. \<exists>w'. fs_writeFile sys w outputPath mockAudioData = (Inr (), w')"
  shows "\<exists>w'. mockGenerateAudio sys text outputPath (w, tr) =
     (Inr outputPath, (w', tr @ [(Mkdir (path_dirname sys outputPath), True),
                                 (WriteFile outputPath mockAudioData, True)]))"
proof -
  from assms(1) obtain w1 where a: "fs_mkdir sys w (path_dirname sys outputPath) = (Inr (), w1)"
    by blast
  from assms(2) obtain w2 where b: "fs_writeFile sys w1 outputPath mockAudioData = (Inr (), w2)"
    by blast
  from a b show ?thesis
    by (simp add: mockGenerateAudio_def io_bind_def sys_mkdir_def sys_writeFile_def act_def
        io_return_def returned_def)
qed

text \<open>The requests of the path with a key, after the voice is chosen, when every attempt fails.\<close>

lemma request_step:
  assumes fails: "\<forall>rq st. \<exists>e st'. api_attempt sys rq st = (Inl e, st')"
    and mk: "\<forall>w. \<exists>w'. fs_mkdir sys w (path_dirname sys outputPath) = (Inr (), w')"
  shows "\<exists>e w' new.
     io_bind (sys_mkdir sys (path_dirname sys outputPath)) (\<lambda>_.
       io_bind (makeApiRequest sys processed apiKey voiceId vs 3) k) (w, tr) =
       (Inl e, (w', tr @ new)) \<and>
     map fst new =
       [Mkdir (path_dirname sys outputPath),
        Fetch (api_request processed apiKey voiceId vs), Sleep 1000,
        Fetch (api_request processed apiKey voiceId vs), Sleep 2000,
        Fetch (api_request processed apiKey voiceId vs)]"
proof -
  let ?rq = "api_request processed apiKey voiceId vs"
  let ?dir = "path_dirname sys outputPath"
  from mk obtain wm where m: "fs_mkdir sys w ?dir = (Inr (), wm)" by blast
  have s1: "sys_mkdir sys ?dir (w, tr) = (Inr (), (wm, tr @ [(Mkdir ?dir, True)]))"
    using m by (simp add: sys_mkdir_def act_def returned_def)
  from fails have f: "\<forall>st. \<exists>e st'. api_attempt sys ?rq st = (Inl e, st')" by blast
  from makeApiRequest_exhausts [OF f, of wm "tr @ [(Mkdir ?dir, True)]"]
  obtain e3 w3 b1 b2 b3 where
    x: "makeApiRequest_from sys ?rq 3 0 (wm, tr @ [(Mkdir ?dir, True)]) =
       (Inl e3, (w3, (tr @ [(Mkdir ?dir, True)]) @
          [(Fetch ?rq, b1), (Sleep 1000, True), (Fetch ?rq, b2), (Sleep 2000, True), (Fetch ?rq, b3)]))"
    by blast
  let ?new = "[(Mkdir ?dir, True), (Fetch ?rq, b1), (Sleep 1000, True), (Fetch ?rq, b2),
               (Sleep 2000, True), (Fetch ?rq, b3)]"
  have "io_bind (sys_mkdir sys ?dir) (\<lambda>_.
       io_bind (makeApiRequest sys processed apiKey voiceId vs 3) k) (w, tr) =
       (Inl e3, (w3, tr @ ?new))"
    using s1 x by (simp add: io_bind_def makeApiRequest_def)
  moreover have "map fst ?new = [Mkdir ?dir, Fetch ?rq, Sleep 1000, Fetch ?rq, Sleep 2000, Fetch ?rq]"
    by simp
  ultimately show ?thesis
    by (intro exI [of _ e3] exI [of _ w3] exI [of _ ?new] conjI)
qed

lemma api_path_state:
  assumes fails: "\<forall>rq st. \<exists>e st'. api_attempt sys rq st = (Inl e, st')"
    and mk: "\<forall>w. \<exists>w'. fs_mkdir sys w (path_dirname sys outputPath) = (Inr (), w')"
  shows "\<exists>e w' new.
     api_path sys enhance text outputPath options (w, tr) = (Inl e, (w', tr @ new)) \<and>
     (preprocessText (enhance text) \<noteq> [] \<longrightarrow>
        (\<exists>voiceId n.
           map fst new =
             (if truthy_str (voice options) then [] else [Random n]) @
             [Mkdir (path_dirname sys outputPath),
              Fetch (api_request (preprocessText (enhance text)) (or_empty (api_key sys)) voiceId
                       (voiceSettings options)), Sleep 1000,
              Fetch (api_request (preprocessText (enhance text)) (or_empty (api_key sys)) voiceId
                       (voiceSettings options)), Sleep 2000,
              Fetch (api_request (preprocessText (enhance text)) (or_empty (api_key sys)) voiceId
                       (voiceSettings options))]))"
proof -
  let ?pre = "\<lambda>n. if truthy_str (voice options) then [] else [(Random n, True)]"
  from voice_step [of options sys w tr] obtain voiceId w1 n where
    v: "(if truthy_str (voice options) then io_return (or_empty (voice options))
         else getRandomVoice sys (gender options)) (w, tr) = (Inr voiceId, (w1, tr @ ?pre n))"
    by blast
  show ?thesis
  proof (cases "preprocessText (enhance text) = []")
    case True
    with v have "api_path sys enhance text outputPath options (w, tr) =
        (Inl ''Text becomes empty after preprocessing'', (w1, tr @ ?pre n))"
      by (simp add: api_path_def io_bind_def io_throw_def)
    with True show ?thesis by blast
  next
    case False
    let ?rq = "api_request (preprocessText (enhance text)) (or_empty (api_key sys)) voiceId
                 (voiceSettings options)"
    let ?k = "\<lambda>audioBuffer.
            io_bind (case audioBuffer of
                       None \<Rightarrow> io_throw ''The first argument must be of type string or an instance of Buffer''
                     | Some buf \<Rightarrow> sys_writeFile sys outputPath buf) (\<lambda>_.
            io_bind (act (Stat outputPath) (\<lambda>w. fs_stat_size sys w outputPath)) (\<lambda>size.
            if size = 0 then io_throw ''Generated voiceover file is empty''
            else io_return outputPath))"
    from request_step [OF fails mk, of "preprocessText (enhance text)" "or_empty (api_key sys)"
        voiceId "voiceSettings options" ?k w1 "tr @ ?pre n"]
    obtain e w' new where
      r: "io_bind (sys_mkdir sys (path_dirname sys outputPath)) (\<lambda>_.
            io_bind (makeApiRequest sys (preprocessText (enhance text)) (or_empty (api_key sys)) voiceId
                       (voiceSettings options) 3) ?k) (w1, tr @ ?pre n) =
          (Inl e, (w', (tr @ ?pre n) @ new))"
      and m: "map fst new = [Mkdir (path_dirname sys outputPath), Fetch ?rq, Sleep 1000,
                Fetch ?rq, Sleep 2000, Fetch ?rq]"
      by (elim exE conjE) (rule that)
    have "api_path sys enhance text outputPath options (w, tr) = (Inl e, (w', tr @ (?pre n @ new)))"
      using v False r by (simp add: api_path_def io_bind_def Let_def)
    moreover have "map fst (?pre n @ new) =
        (if truthy_str (voice options) then [] else [Random n]) @
        [Mkdir (path_dirname sys outputPath), Fetch ?rq, Sleep 1000, Fetch ?rq, Sleep 2000, Fetch ?rq]"
      using m by simp
    ultimately show ?thesis by blast
  qed
qed

lemma generateSpeech_steps:
  "generateSpeech sys enhance text outputPath options =
     io_catch
       (if text = [] \<or> length (js_trim text) = 0
        then io_throw ''Text is required and must be a non-empty string''
        else if truthy_str (gender options) \<and> gender options \<notin> {Some ''male'', Some ''female''}
        then io_throw (''Gender must be '' @ [CHR 0x22] @ ''male'' @ [CHR 0x22] @ '', ''
                        @ [CHR 0x22] @ ''female'' @ [CHR 0x22] @ '', or null'')
        else if \<not> truthy_str (api_key sys)
        then mockGenerateAudio sys text outputPath
        else io_catch (api_path sys enhance text outputPath options)
               (\<lambda>apiError. mockGenerateAudio sys text outputPath))
       (\<lambda>error. io_throw (''Failed to generate speech: '' @ error))"
  unfolding generateSpeech_def api_path_def ..

lemma settings_text_preprocessed:
  "preprocessText ''Open the settings page'' = ''Open the settings page'' \<and>
   js_trim ''Open the settings page'' \<noteq> [] \<and> js_trim ''   '' = []"
  by code_simp

lemma offline_attempt_fails:
  "\<forall>rq st. \<exists>e st'. api_attempt offline_world rq st = (Inl e, st')"
  by (simp add: api_attempt_def io_bind_def act_def offline_world_def split: prod.splits)

text \<open>
  Claim C3, as stated, fails. With the key set and every request failing, generateSpeech for
  the narration \<^verbatim>\<open>Open the settings page\<close> (which enhanceTextForSpeech leaves as it is) makes
  its three requests, one and two seconds apart, and then returns the output path, having
  written the placeholder audio there: it does not raise.
\<close>

theorem generateSpeech_network_down:
  "generateSpeech offline_world (\<lambda>t. t) ''Open the settings page'' ''out/narration_0.mp3''
     rachel_options ((), []) =
   (Inr ''out/narration_0.mp3'',
    ((), [(Mkdir ''out'', True), (Fetch settings_request, False), (Sleep 1000, True),
          (Fetch settings_request, False), (Sleep 2000, True), (Fetch settings_request, False),
          (Mkdir ''out'', True), (WriteFile ''out/narration_0.mp3'' mockAudioData, True)]))"
  unfolding generateSpeech_def makeApiRequest_def settings_request_def [symmetric]
  by (simp add: settings_text_preprocessed rachel_options_def truthy_str_def or_empty_def
      offline_world_def io_catch_def io_bind_def io_return_def io_throw_def
      sys_mkdir_def sys_writeFile_def sys_sleep_def act_def returned_def api_attempt_def
      mockGenerateAudio_def makeApiRequest_from.simps settings_request_def Let_def)

text \<open>
  Claim C3, amended. A request whose every attempt fails is attempted three times, with
  pauses of 1000 and 2000 milliseconds between the attempts, and makeApiRequest then raises
  the error of the third attempt. generateSpeech does not pass that error on: with the key
  set, a text that is not blank and a valid gender option, and when the directory and the
  placeholder file can be written, it ends by creating the directory of the output path and
  writing the placeholder audio to the output path, and it returns that path. When the
  preprocessed text is not empty, what it did before is the choice of the voice, the creation
  of the directory and the three requests with their two pauses.
\<close>

theorem generateSpeech_falls_back_after_three_attempts:
  "((\<forall>st. \<exists>e st'. api_attempt sys req st = (Inl e, st')) \<longrightarrow>
      (\<exists>e1 w1 b1 e2 w2 b2 e3 w3 b3.
         api_attempt sys req (w, tr) = (Inl e1, (w1, tr @ [(Fetch req, b1)])) \<and>
         api_attempt sys req (set_timeout sys w1 1000, tr @ [(Fetch req, b1), (Sleep 1000, True)]) =
           (Inl e2, (w2, tr @ [(Fetch req, b1), (Sleep 1000, True), (Fetch req, b2)])) \<and>
         api_attempt sys req
             (set_timeout sys w2 2000,
              tr @ [(Fetch req, b1), (Sleep 1000, True), (Fetch req, b2), (Sleep 2000, True)]) =
           (Inl e3, (w3, tr @ [(Fetch req, b1), (Sleep 1000, True), (Fetch req, b2),
                              (Sleep 2000, True), (Fetch req, b3)])) \<and>
         makeApiRequest_from sys req 3 0 (w, tr) =
           (Inl e3, (w3, tr @ [(Fetch req, b1), (Sleep 1000, True), (Fetch req, b2),
                              (Sleep 2000, True), (Fetch req, b3)])))) \<and>
   ((\<forall>rq st. \<exists>e st'. api_attempt sys rq st = (Inl e, st')) \<and>
    truthy_str (api_key sys) \<and> js_trim text \<noteq> [] \<and>
    (truthy_str (gender options) \<longrightarrow> gender options \<in> {Some ''male'', Some ''female''}) \<and>
    (\<forall>w. \<exists>w'. fs_mkdir sys w (path_dirname sys outputPath) = (Inr (), w')) \<and>
    (\<forall>w. \<exists>w'. fs_writeFile sys w outputPath mockAudioData = (Inr (), w')) \<longrightarrow>
      (\<exists>w' new.
         generateSpeech sys enhance text outputPath options (w, tr) =
           (Inr outputPath,
            (w', tr @ new @ [(Mkdir (path_dirname sys outputPath), True),
                             (WriteFile outputPath mockAudioData, True)])) \<and>
         (preprocessText (enhance text) \<noteq> [] \<longrightarrow>
            (\<exists>voiceId n.
               map fst new =
                 (if truthy_str (voice options) then [] else [Random n]) @
                 [Mkdir (path_dirname sys outputPath),
                  Fetch (api_request (preprocessText (enhance text)) (or_empty (api_key sys)) voiceId
                           (voiceSettings options)), Sleep 1000,
                  Fetch (api_request (preprocessText (enhance text)) (or_empty (api_key sys)) voiceId
                           (voiceSettings options)), Sleep 2000,
                  Fetch (api_request (preprocessText (enhance text)) (or_empty (api_key sys)) voiceId
                           (voiceSettings options))]))))"
proof (rule conjI)
  show "(\<forall>st. \<exists>e st'. api_attempt sys req st = (Inl e, st')) \<longrightarrow>
      (\<exists>e1 w1 b1 e2 w2 b2 e3 w3 b3.
         api_attempt sys req (w, tr) = (Inl e1, (w1, tr @ [(Fetch req, b1)])) \<and>
         api_attempt sys req (set_timeout sys w1 1000, tr @ [(Fetch req, b1), (Sleep 1000, True)]) =
           (Inl e2, (w2, tr @ [(Fetch req, b1), (Sleep 1000, True), (Fetch req, b2)])) \<and>
         api_attempt sys req
             (set_timeout sys w2 2000,
              tr @ [(Fetch req, b1), (Sleep 1000, True), (Fetch req, b2), (Sleep 2000, True)]) =
           (Inl e3, (w3, tr @ [(Fetch req, b1), (Sleep 1000, True), (Fetch req, b2),
                              (Sleep 2000, True), (Fetch req, b3)])) \<and>
         makeApiRequest_from sys req 3 0 (w, tr) =
           (Inl e3, (w3, tr @ [(Fetch req, b1), (Sleep 1000, True), (Fetch req, b2),
                              (Sleep 2000, True), (Fetch req, b3)])))"
    by (rule impI) (rule makeApiRequest_exhausts)
next
  show "(\<forall>rq st. \<exists>e st'. api_attempt sys rq st = (Inl e, st')) \<and>
    truthy_str (api_key sys) \<and> js_trim text \<noteq> [] \<and>
    (truthy_str (gender options) \<longrightarrow> gender options \<in> {Some ''male'', Some ''female''}) \<and>
    (\<forall>w. \<exists>w'. fs_mkdir sys w (path_dirname sys outputPath) = (Inr (), w')) \<and>
    (\<forall>w. \<exists>w'. fs_writeFile sys w outputPath mockAudioData = (Inr (), w')) \<longrightarrow>
      (\<exists>w' new.
         generateSpeech sys enhance text outputPath options (w, tr) =
           (Inr outputPath,
            (w', tr @ new @ [(Mkdir (path_dirname sys outputPath), True),
                             (WriteFile outputPath mockAudioData, True)])) \<and>
         (preprocessText (enhance text) \<noteq> [] \<longrightarrow>
            (\<exists>voiceId n.
               map fst new =
                 (if truthy_str (voice options) then [] else [Random n]) @
                 [Mkdir (path_dirname sys outputPath),
                  Fetch (api_request (preprocessText (enhance text)) (or_empty (api_key sys)) voiceId
                           (voiceSettings options)), Sleep 1000,
                  Fetch (api_request (preprocessText (enhance text)) (or_empty (api_key sys)) voiceId
                           (voiceSettings options)), Sleep 2000,
                  Fetch (api_request (preprocessText (enhance text)) (or_empty (api_key sys)) voiceId
                           (voiceSettings options))])))"
  proof (intro impI, elim conjE)
    assume fails: "\<forall>rq st. \<exists>e st'. api_attempt sys rq st = (Inl e, st')"
      and key: "truthy_str (api_key sys)"
      and text_ok: "js_trim text \<noteq> []"
      and gender_ok: "truthy_str (gender options) \<longrightarrow> gender options \<in> {Some ''male'', Some ''female''}"
      and mk: "\<forall>w. \<exists>w'. fs_mkdir sys w (path_dirname sys outputPath) = (Inr (), w')"
      and wr: "\<forall>w. \<exists>w'. fs_writeFile sys w outputPath mockAudioData = (Inr (), w')"
    from api_path_state [OF fails mk, of enhance "text" options w tr] obtain e w1 new where
      x: "api_path sys enhance text outputPath options (w, tr) = (Inl e, (w1, tr @ new))"
      and n: "preprocessText (enhance text) \<noteq> [] \<longrightarrow>
            (\<exists>voiceId n.
               map fst new =
                 (if truthy_str (voice options) then [] else [Random n]) @
                 [Mkdir (path_dirname sys outputPath),
                  Fetch (api_request (preprocessText (enhance text)) (or_empty (api_key sys)) voiceId
                           (voiceSettings options)), Sleep 1000,
                  Fetch (api_request (preprocessText (enhance text)) (or_empty (api_key sys)) voiceId
                           (voiceSettings options)), Sleep 2000,
                  Fetch (api_request (preprocessText (enhance text)) (or_empty (api_key sys)) voiceId
                           (voiceSettings options))])"
      by blast
    from mock_state [OF mk wr, of "text" w1 "tr @ new"] obtain w2 where
      m: "mockGenerateAudio sys text outputPath (w1, tr @ new) =
         (Inr outputPath, (w2, (tr @ new) @ [(Mkdir (path_dirname sys outputPath), True),
                                             (WriteFile outputPath mockAudioData, True)]))"
      by blast
    from text_ok have t: "text \<noteq> []" by (auto simp: js_trim_def)
    from gender_ok have g: "\<not> (truthy_str (gender options) \<and>
        gender options \<notin> {Some ''male'', Some ''female''})" by blast
    from text_ok t have v: "\<not> (text = [] \<or> length (js_trim text) = 0)" by simp
    have "generateSpeech sys enhance text outputPath options (w, tr) =
           (Inr outputPath,
            (w2, tr @ new @ [(Mkdir (path_dirname sys outputPath), True),
                             (WriteFile outputPath mockAudioData, True)]))"
      unfolding generateSpeech_steps if_not_P [OF g] if_not_P [OF v]
      using key x m by (simp add: io_catch_def)
    with n show "\<exists>w' new.
         generateSpeech sys enhance text outputPath options (w, tr) =
           (Inr outputPath,
            (w', tr @ new @ [(Mkdir (path_dirname sys outputPath), True),
                             (WriteFile outputPath mockAudioData, True)])) \<and>
         (preprocessText (enhance text) \<noteq> [] \<longrightarrow>
            (\<exists>voiceId n.
               map fst new =
                 (if truthy_str (voice options) then [] else [Random n]) @
                 [Mkdir (path_dirname sys outputPath),
                  Fetch (api_request (preprocessText (enhance text)) (or_empty (api_key sys)) voiceId
                           (voiceSettings options)), Sleep 1000,
                  Fetch (api_request (preprocessText (enhance text)) (or_empty (api_key sys)) voiceId
                           (voiceSettings options)), Sleep 2000,
                  Fetch (api_request (preprocessText (enhance text)) (or_empty (api_key sys)) voiceId
                           (voiceSettings options))]))"
      by blast
  qed
qed

theorem generateSpeech_falls_back_after_three_attempts_witness:
  "(\<exists>e1 w1 b1 e2 w2 b2 e3 w3 b3.
      api_attempt offline_world settings_request ((), []) =
        (Inl e1, (w1, [] @ [(Fetch settings_request, b1)])) \<and>
      api_attempt offline_world settings_request
          (set_timeout offline_world w1 1000, [] @ [(Fetch settings_request, b1), (Sleep 1000, True)]) =
        (Inl e2, (w2, [] @ [(Fetch settings_request, b1), (Sleep 1000, True),
                            (Fetch settings_request, b2)])) \<and>
      api_attempt offline_world settings_request
          (set_timeout offline_world w2 2000,
           [] @ [(Fetch settings_request, b1), (Sleep 1000, True), (Fetch settings_request, b2),
                 (Sleep 2000, True)]) =
        (Inl e3, (w3, [] @ [(Fetch settings_request, b1), (Sleep 1000, True),
                            (Fetch settings_request, b2), (Sleep 2000, True),
                            (Fetch settings_request, b3)])) \<and>
      makeApiRequest_from offline_world settings_request 3 0 ((), []) =
        (Inl e3, (w3, [] @ [(Fetch settings_request, b1), (Sleep 1000, True),
                            (Fetch settings_request, b2), (Sleep 2000, True),
                            (Fetch settings_request, b3)]))) \<and>
   (\<exists>w' new.
      generateSpeech offline_world (\<lambda>t. t) ''Open the settings page'' ''out/narration_0.mp3''
          rachel_options ((), []) =
        (Inr ''out/narration_0.mp3'',
         (w', [] @ new @ [(Mkdir (path_dirname offline_world ''out/narration_0.mp3''), True),
                          (WriteFile ''out/narration_0.mp3'' mockAudioData, True)])) \<and>
      (\<exists>voiceId n.
         map fst new =
           (if truthy_str (voice rachel_options) then [] else [Random n]) @
           [Mkdir (path_dirname offline_world ''out/narration_0.mp3''),
            Fetch (api_request (preprocessText ''Open the settings page'')
                     (or_empty (api_key offline_world)) voiceId (voiceSettings rachel_options)),
            Sleep 1000,
            Fetch (api_request (preprocessText ''Open the settings page'')
                     (or_empty (api_key offline_world)) voiceId (voiceSettings rachel_options)),
            Sleep 2000,
            Fetch (api_request (preprocessText ''Open the settings page'')
                     (or_empty (api_key offline_world)) voiceId (voiceSettings rachel_options))]))"
proof (rule conjI)
  note t = generateSpeech_falls_back_after_three_attempts
    [where sys = offline_world and req = settings_request and w = "()" and tr = "[]"]
  have h1: "\<forall>st. \<exists>e st'. api_attempt offline_world settings_request st = (Inl e, st')"
    using offline_attempt_fails by blast
  show "\<exists>e1 w1 b1 e2 w2 b2 e3 w3 b3.
      api_attempt offline_world settings_request ((), []) =
        (Inl e1, (w1, [] @ [(Fetch settings_request, b1)])) \<and>
      api_attempt offline_world settings_request
          (set_timeout offline_world w1 1000, [] @ [(Fetch settings_request, b1), (Sleep 1000, True)]) =
        (Inl e2, (w2, [] @ [(Fetch settings_request, b1), (Sleep 1000, True),
                            (Fetch settings_request, b2)])) \<and>
      api_attempt offline_world settings_request
          (set_timeout offline_world w2 2000,
           [] @ [(Fetch settings_request, b1), (Sleep 1000, True), (Fetch settings_request, b2),
                 (Sleep 2000, True)]) =
        (Inl e3, (w3, [] @ [(Fetch settings_request, b1), (Sleep 1000, True),
                            (Fetch settings_request, b2), (Sleep 2000, True),
                            (Fetch settings_request, b3)])) \<and>
      makeApiRequest_from offline_world settings_request 3 0 ((), []) =
        (Inl e3, (w3, [] @ [(Fetch settings_request, b1), (Sleep 1000, True),
                            (Fetch settings_request, b2), (Sleep 2000, True),
                            (Fetch settings_request, b3)]))"
    by (rule mp [OF conjunct1 [OF t] h1])
next
  note t = generateSpeech_falls_back_after_three_attempts
    [where sys = offline_world and w = "()" and tr = "[]" and ?text = "''Open the settings page''"
       and options = rachel_options and outputPath = "''out/narration_0.mp3''"
       and enhance = "\<lambda>t. t"]
  have h2: "(\<forall>rq st. \<exists>e st'. api_attempt offline_world rq st = (Inl e, st')) \<and>
    truthy_str (api_key offline_world) \<and> js_trim ''Open the settings page'' \<noteq> [] \<and>
    (truthy_str (gender rachel_options) \<longrightarrow>
       gender rachel_options \<in> {Some ''male'', Some ''female''}) \<and>
    (\<forall>w. \<exists>w'. fs_mkdir offline_world w (path_dirname offline_world ''out/narration_0.mp3'')
       = (Inr (), w')) \<and>
    (\<forall>w. \<exists>w'. fs_writeFile offline_world w ''out/narration_0.mp3'' mockAudioData = (Inr (), w'))"
    using offline_attempt_fails settings_text_preprocessed
    by (simp add: offline_world_def rachel_options_def truthy_str_def)
  have p: "preprocessText ''Open the settings page'' \<noteq> []"
    using settings_text_preprocessed by simp
  from mp [OF conjunct2 [OF t] h2] obtain w' new where
    a: "generateSpeech offline_world (\<lambda>t. t) ''Open the settings page'' ''out/narration_0.mp3''
          rachel_options ((), []) =
        (Inr ''out/narration_0.mp3'',
         (w', [] @ new @ [(Mkdir (path_dirname offline_world ''out/narration_0.mp3''), True),
                          (WriteFile ''out/narration_0.mp3'' mockAudioData, True)]))"
    and i: "preprocessText ''Open the settings page'' \<noteq> [] \<longrightarrow>
      (\<exists>voiceId n.
         map fst new =
           (if truthy_str (voice rachel_options) then [] else [Random n]) @
           [Mkdir (path_dirname offline_world ''out/narration_0.mp3''),
            Fetch (api_request (preprocessText ''Open the settings page'')
                     (or_empty (api_key offline_world)) voiceId (voiceSettings rachel_options)),
            Sleep 1000,
            Fetch (api_request (preprocessText ''Open the settings page'')
                     (or_empty (api_key offline_world)) voiceId (voiceSettings rachel_options)),
            Sleep 2000,
            Fetch (api_request (preprocessText ''Open the settings page'')
                     (or_empty (api_key offline_world)) voiceId (voiceSettings rachel_options))])"
    by (elim exE conjE) (rule that)
  from a mp [OF i p]
  show "\<exists>w' new.
      generateSpeech offline_world (\<lambda>t. t) ''Open the settings page'' ''out/narration_0.mp3''
          rachel_options ((), []) =
        (Inr ''out/narration_0.mp3'',
         (w', [] @ new @ [(Mkdir (path_dirname offline_world ''out/narration_0.mp3''), True),
                          (WriteFile ''out/narration_0.mp3'' mockAudioData, True)])) \<and>
      (\<exists>voiceId n.
         map fst new =
           (if truthy_str (voice rachel_options) then [] else [Random n]) @
           [Mkdir (path_dirname offline_world ''out/narration_0.mp3''),
            Fetch (api_request (preprocessText ''Open the settings page'')
                     (or_empty (api_key offline_world)) voiceId (voiceSettings rachel_options)),
            Sleep 1000,
            Fetch (api_request (preprocessText ''Open the settings page'')
                     (or_empty (api_key offline_world)) voiceId (voiceSettings rachel_options)),
            Sleep 2000,
            Fetch (api_request (preprocessText ''Open the settings page'')
                     (or_empty (api_key offline_world)) voiceId (voiceSettings rachel_options))])"
    by (intro exI [of _ w'] exI [of _ new] conjI)
qed

text \<open>
  Claim C10, as stated, fails: without the key, generateSpeech raises for the narration
  \<^verbatim>\<open>Open the settings page\<close>, which is not empty, when the options ask for the gender
  \<^verbatim>\<open>robot\<close>. Nothing is written.
\<close>

theorem generateSpeech_unknown_gender_raises:
  "api_key keyless_world = None \<and> ''Open the settings page'' \<noteq> [] \<and>
   js_trim ''Open the settings page'' \<noteq> [] \<and> gender robot_options = Some ''robot'' \<and>
   generateSpeech keyless_world (\<lambda>t. t) ''Open the settings page'' ''out/narration_0.mp3''
       robot_options ((), []) =
     (Inl (''Failed to generate speech: Gender must be '' @ [CHR 0x22] @ ''male'' @ [CHR 0x22]
             @ '', '' @ [CHR 0x22] @ ''female'' @ [CHR 0x22] @ '', or null''), ((), []))"
  unfolding generateSpeech_def
  by (simp add: settings_text_preprocessed keyless_world_def offline_world_def robot_options_def
      rachel_options_def truthy_str_def io_catch_def io_throw_def)

text \<open>
  Claim C10, amended. Without the key generateSpeech makes no request. For a text that is not
  empty after trimming and a gender option that is absent, empty, \<^verbatim>\<open>male\<close> or \<^verbatim>\<open>female\<close>,
  it creates the directory of the output path, writes the 1004 bytes of placeholder audio to
  the output path and returns that path, provided the directory can be created and the file
  written; when the creation or the write throws, it raises with that error. For a text that
  is empty after trimming, and for any other gender, it raises before it touches the file
  system.
\<close>

theorem generateSpeech_mock_without_key:
  "\<not> truthy_str (api_key sys) \<longrightarrow>
     (js_trim text = [] \<longrightarrow>
        generateSpeech sys enhance text outputPath options (w, tr) =
          (Inl ''Failed to generate speech: Text is required and must be a non-empty string'',
           (w, tr))) \<and>
     (js_trim text \<noteq> [] \<and> truthy_str (gender options) \<and>
      gender options \<notin> {Some ''male'', Some ''female''} \<longrightarrow>
        generateSpeech sys enhance text outputPath options (w, tr) =
          (Inl (''Failed to generate speech: Gender must be '' @ [CHR 0x22] @ ''male''
                  @ [CHR 0x22] @ '', '' @ [CHR 0x22] @ ''female'' @ [CHR 0x22] @ '', or null''),
           (w, tr))) \<and>
     (js_trim text \<noteq> [] \<and>
      (truthy_str (gender options) \<longrightarrow> gender options \<in> {Some ''male'', Some ''female''}) \<longrightarrow>
        (\<forall>e w1. fs_mkdir sys w (path_dirname sys outputPath) = (Inl e, w1) \<longrightarrow>
           generateSpeech sys enhance text outputPath options (w, tr) =
             (Inl (''Failed to generate speech: '' @ e),
              (w1, tr @ [(Mkdir (path_dirname sys outputPath), False)]))) \<and>
        (\<forall>e w1 w2. fs_mkdir sys w (path_dirname sys outputPath) = (Inr (), w1) \<and>
           fs_writeFile sys w1 outputPath mockAudioData = (Inl e, w2) \<longrightarrow>
           generateSpeech sys enhance text outputPath options (w, tr) =
             (Inl (''Failed to generate speech: '' @ e),
              (w2, tr @ [(Mkdir (path_dirname sys outputPath), True),
                         (WriteFile outputPath mockAudioData, False)]))) \<and>
        (\<forall>w1 w2. fs_mkdir sys w (path_dirname sys outputPath) = (Inr (), w1) \<and>
           fs_writeFile sys w1 outputPath mockAudioData = (Inr (), w2) \<longrightarrow>
           generateSpeech sys enhance text outputPath options (w, tr) =
             (Inr outputPath,
              (w2, tr @ [(Mkdir (path_dirname sys outputPath), True),
                         (WriteFile outputPath mockAudioData, True)])) \<and>
           length mockAudioData = 1004 \<and> take 4 mockAudioData = [255, 251, 144, 0]))"
proof (intro impI conjI allI)
  assume key: "\<not> truthy_str (api_key sys)" and blank: "js_trim text = []"
  then show "generateSpeech sys enhance text outputPath options (w, tr) =
      (Inl ''Failed to generate speech: Text is required and must be a non-empty string'', (w, tr))"
    unfolding generateSpeech_def by (simp add: io_catch_def io_throw_def)
next
  assume key: "\<not> truthy_str (api_key sys)"
    and a: "js_trim text \<noteq> [] \<and> truthy_str (gender options) \<and>
      gender options \<notin> {Some ''male'', Some ''female''}"
  from a have t: "text \<noteq> []" by (auto simp: js_trim_def)
  from a t have v: "\<not> (text = [] \<or> length (js_trim text) = 0)" by simp
  from a have g: "truthy_str (gender options) \<and> gender options \<notin> {Some ''male'', Some ''female''}"
    by simp
  show "generateSpeech sys enhance text outputPath options (w, tr) =
      (Inl (''Failed to generate speech: Gender must be '' @ [CHR 0x22] @ ''male''
              @ [CHR 0x22] @ '', '' @ [CHR 0x22] @ ''female'' @ [CHR 0x22] @ '', or null''),
       (w, tr))"
    unfolding generateSpeech_def if_not_P [OF v] if_P [OF g]
    by (simp add: io_catch_def io_throw_def)
next
  fix e w1
  assume key: "\<not> truthy_str (api_key sys)"
    and a: "js_trim text \<noteq> [] \<and>
      (truthy_str (gender options) \<longrightarrow> gender options \<in> {Some ''male'', Some ''female''})"
    and mk: "fs_mkdir sys w (path_dirname sys outputPath) = (Inl e, w1)"
  from a have t: "text \<noteq> []" by (auto simp: js_trim_def)
  from a t have v: "\<not> (text = [] \<or> length (js_trim text) = 0)" by simp
  from a have g: "\<not> (truthy_str (gender options) \<and>
      gender options \<notin> {Some ''male'', Some ''female''})" by blast
  show "generateSpeech sys enhance text outputPath options (w, tr) =
      (Inl (''Failed to generate speech: '' @ e),
       (w1, tr @ [(Mkdir (path_dirname sys outputPath), False)]))"
    unfolding generateSpeech_def if_not_P [OF g] if_not_P [OF v]
    using key mk
    by (simp add: io_catch_def mockGenerateAudio_def io_bind_def sys_mkdir_def act_def
        returned_def io_throw_def)
next
  fix e w1 w2
  assume key: "\<not> truthy_str (api_key sys)"
    and a: "js_trim text \<noteq> [] \<and>
      (truthy_str (gender options) \<longrightarrow> gender options \<in> {Some ''male'', Some ''female''})"
    and io: "fs_mkdir sys w (path_dirname sys outputPath) = (Inr (), w1) \<and>
      fs_writeFile sys w1 outputPath mockAudioData = (Inl e, w2)"
  from a have t: "text \<noteq> []" by (auto simp: js_trim_def)
  from a t have v: "\<not> (text = [] \<or> length (js_trim text) = 0)" by simp
  from a have g: "\<not> (truthy_str (gender options) \<and>
      gender options \<notin> {Some ''male'', Some ''female''})" by blast
  show "generateSpeech sys enhance text outputPath options (w, tr) =
      (Inl (''Failed to generate speech: '' @ e),
       (w2, tr @ [(Mkdir (path_dirname sys outputPath), True),
                  (WriteFile outputPath mockAudioData, False)]))"
    unfolding generateSpeech_def if_not_P [OF g] if_not_P [OF v]
    using key io
    by (simp add: io_catch_def mockGenerateAudio_def io_bind_def sys_mkdir_def sys_writeFile_def
        act_def returned_def io_throw_def)
next
  fix w1 w2
  assume key: "\<not> truthy_str (api_key sys)"
    and a: "js_trim text \<noteq> [] \<and>
      (truthy_str (gender options) \<longrightarrow> gender options \<in> {Some ''male'', Some ''female''})"
    and io: "fs_mkdir sys w (path_dirname sys outputPath) = (Inr (), w1) \<and>
      fs_writeFile sys w1 outputPath mockAudioData = (Inr (), w2)"
  from a have t: "text \<noteq> []" by (auto simp: js_trim_def)
  from a t have v: "\<not> (text = [] \<or> length (js_trim text) = 0)" by simp
  from a have g: "\<not> (truthy_str (gender options) \<and>
      gender options \<notin> {Some ''male'', Some ''female''})" by blast
  show "generateSpeech sys enhance text outputPath options (w, tr) =
       (Inr outputPath,
        (w2, tr @ [(Mkdir (path_dirname sys outputPath), True),
                   (WriteFile outputPath mockAudioData, True)]))"
    unfolding generateSpeech_def if_not_P [OF g] if_not_P [OF v]
    using key io
    by (simp add: io_catch_def mockGenerateAudio_def io_bind_def sys_mkdir_def sys_writeFile_def
        act_def returned_def io_return_def)
next
  show "length mockAudioData = 1004" by (simp add: mockAudioData_def)
next
  show "take 4 mockAudioData = [255, 251, 144, 0]" by (simp add: mockAudioData_def)
qed

lemma keyless_worlds:
  "\<not> truthy_str (api_key keyless_world) \<and> \<not> truthy_str (api_key keyless_readonly_world) \<and>
   \<not> truthy_str (api_key keyless_full_world)"
  by (simp add: keyless_world_def keyless_readonly_world_def keyless_full_world_def
      offline_world_def truthy_str_def)

lemma rachel_gender_accepted:
  "js_trim ''Open the settings page'' \<noteq> [] \<and>
   (truthy_str (gender rachel_options) \<longrightarrow> gender rachel_options \<in> {Some ''male'', Some ''female''})"
  using settings_text_preprocessed by (simp add: rachel_options_def truthy_str_def)

lemma robot_gender_rejected:
  "js_trim ''Open the settings page'' \<noteq> [] \<and> truthy_str (gender robot_options) \<and>
   gender robot_options \<notin> {Some ''male'', Some ''female''}"
  using settings_text_preprocessed by (simp add: robot_options_def truthy_str_def)

theorem generateSpeech_mock_without_key_witness:
  "generateSpeech keyless_world (\<lambda>t. t) ''Open the settings page'' ''out/narration_0.mp3''
     rachel_options ((), []) =
       (Inr ''out/narration_0.mp3'',
        ((), [] @ [(Mkdir (path_dirname keyless_world ''out/narration_0.mp3''), True),
                   (WriteFile ''out/narration_0.mp3'' mockAudioData, True)])) \<and>
   generateSpeech keyless_world (\<lambda>t. t) ''   '' ''out/narration_0.mp3'' rachel_options ((), []) =
       (Inl ''Failed to generate speech: Text is required and must be a non-empty string'', ((), [])) \<and>
   generateSpeech keyless_world (\<lambda>t. t) ''Open the settings page'' ''out/narration_0.mp3''
     robot_options ((), []) =
       (Inl (''Failed to generate speech: Gender must be '' @ [CHR 0x22] @ ''male''
               @ [CHR 0x22] @ '', '' @ [CHR 0x22] @ ''female'' @ [CHR 0x22] @ '', or null''),
        ((), [])) \<and>
   generateSpeech keyless_readonly_world (\<lambda>t. t) ''Open the settings page'' ''out/narration_0.mp3''
     rachel_options ((), []) =
       (Inl (''Failed to generate speech: '' @ ''EACCES: permission denied''),
        ((), [] @ [(Mkdir (path_dirname keyless_readonly_world ''out/narration_0.mp3''), False)])) \<and>
   generateSpeech keyless_full_world (\<lambda>t. t) ''Open the settings page'' ''out/narration_0.mp3''
     rachel_options ((), []) =
       (Inl (''Failed to generate speech: '' @ ''ENOSPC: no space left on device''),
        ((), [] @ [(Mkdir (path_dirname keyless_full_world ''out/narration_0.mp3''), True),
                   (WriteFile ''out/narration_0.mp3'' mockAudioData, False)]))"
proof (intro conjI)
  note t = generateSpeech_mock_without_key
    [where sys = keyless_world and ?text = "''Open the settings page''" and options = rachel_options
       and w = "()" and tr = "[]" and outputPath = "''out/narration_0.mp3''" and enhance = "\<lambda>t. t"]
  have k: "\<not> truthy_str (api_key keyless_world)" using keyless_worlds by simp
  have io: "fs_mkdir keyless_world () (path_dirname keyless_world ''out/narration_0.mp3'') = (Inr (), ()) \<and>
     fs_writeFile keyless_world () ''out/narration_0.mp3'' mockAudioData = (Inr (), ())"
    by (simp add: keyless_world_def offline_world_def)
  note inner = mp [OF conjunct2 [OF conjunct2 [OF mp [OF t k]]] rachel_gender_accepted]
  show "generateSpeech keyless_world (\<lambda>t. t) ''Open the settings page'' ''out/narration_0.mp3''
     rachel_options ((), []) =
       (Inr ''out/narration_0.mp3'',
        ((), [] @ [(Mkdir (path_dirname keyless_world ''out/narration_0.mp3''), True),
                   (WriteFile ''out/narration_0.mp3'' mockAudioData, True)]))"
    by (rule conjunct1 [OF mp [OF spec [OF spec [OF conjunct2 [OF conjunct2 [OF inner]]]] io]])
next
  note t = generateSpeech_mock_without_key
    [where sys = keyless_world and ?text = "''   ''" and options = rachel_options
       and w = "()" and tr = "[]" and outputPath = "''out/narration_0.mp3''" and enhance = "\<lambda>t. t"]
  have k: "\<not> truthy_str (api_key keyless_world)" using keyless_worlds by simp
  have b: "js_trim ''   '' = []" using settings_text_preprocessed by simp
  show "generateSpeech keyless_world (\<lambda>t. t) ''   '' ''out/narration_0.mp3'' rachel_options ((), []) =
       (Inl ''Failed to generate speech: Text is required and must be a non-empty string'', ((), []))"
    by (rule mp [OF conjunct1 [OF mp [OF t k]] b])
next
  note t = generateSpeech_mock_without_key
    [where sys = keyless_world and ?text = "''Open the settings page''" and options = robot_options
       and w = "()" and tr = "[]" and outputPath = "''out/narration_0.mp3''" and enhance = "\<lambda>t. t"]
  have k: "\<not> truthy_str (api_key keyless_world)" using keyless_worlds by simp
  show "generateSpeech keyless_world (\<lambda>t. t) ''Open the settings page'' ''out/narration_0.mp3''
     robot_options ((), []) =
       (Inl (''Failed to generate speech: Gender must be '' @ [CHR 0x22] @ ''male''
               @ [CHR 0x22] @ '', '' @ [CHR 0x22] @ ''female'' @ [CHR 0x22] @ '', or null''),
        ((), []))"
    by (rule mp [OF conjunct1 [OF conjunct2 [OF mp [OF t k]]] robot_gender_rejected])
next
  note t = generateSpeech_mock_without_key
    [where sys = keyless_readonly_world and ?text = "''Open the settings page''"
       and options = rachel_options and w = "()" and tr = "[]"
       and outputPath = "''out/narration_0.mp3''" and enhance = "\<lambda>t. t"]
  have k: "\<not> truthy_str (api_key keyless_readonly_world)" using keyless_worlds by simp
  have io: "fs_mkdir keyless_readonly_world ()
      (path_dirname keyless_readonly_world ''out/narration_0.mp3'') =
        (Inl ''EACCES: permission denied'', ())"
    by (simp add: keyless_readonly_world_def)
  note inner = mp [OF conjunct2 [OF conjunct2 [OF mp [OF t k]]] rachel_gender_accepted]
  show "generateSpeech keyless_readonly_world (\<lambda>t. t) ''Open the settings page''
     ''out/narration_0.mp3'' rachel_options ((), []) =
       (Inl (''Failed to generate speech: '' @ ''EACCES: permission denied''),
        ((), [] @ [(Mkdir (path_dirname keyless_readonly_world ''out/narration_0.mp3''), False)]))"
    by (rule mp [OF spec [OF spec [OF conjunct1 [OF inner]]] io])
next
  note t = generateSpeech_mock_without_key
    [where sys = keyless_full_world and ?text = "''Open the settings page''"
       and options = rachel_options and w = "()" and tr = "[]"
       and outputPath = "''out/narration_0.mp3''" and enhance = "\<lambda>t. t"]
  have k: "\<not> truthy_str (api_key keyless_full_world)" using keyless_worlds by simp
  have io: "fs_mkdir keyless_full_world () (path_dirname keyless_full_world ''out/narration_0.mp3'') =
        (Inr (), ()) \<and>
     fs_writeFile keyless_full_world () ''out/narration_0.mp3'' mockAudioData =
        (Inl ''ENOSPC: no space left on device'', ())"
    by (simp add: keyless_full_world_def keyless_world_def offline_world_def)
  note inner = mp [OF conjunct2 [OF conjunct2 [OF mp [OF t k]]] rachel_gender_accepted]
  show "generateSpeech keyless_full_world (\<lambda>t. t) ''Open the settings page''
     ''out/narration_0.mp3'' rachel_options ((), []) =
       (Inl (''Failed to generate speech: '' @ ''ENOSPC: no space left on device''),
        ((), [] @ [(Mkdir (path_dirname keyless_full_world ''out/narration_0.mp3''), True),
                   (WriteFile ''out/narration_0.mp3'' mockAudioData, False)]))"
    by (rule mp [OF spec [OF spec [OF spec [OF conjunct1 [OF conjunct2 [OF inner]]]]] io])
qed


section \<open>Properties of finalizeVideo\<close>

text \<open>
  Every step of finalizeVideo other than the two encoder runs is a file operation: it appends
  to the trace and runs no ffmpeg command, whether it returns or throws.
\<close>

lemma ffmpeg_runs_append: "ffmpeg_runs (a @ b) = ffmpeg_runs a @ ffmpeg_runs b"
  by (induction a rule: ffmpeg_runs.induct) simp_all

lemma io_bind_assoc: "io_bind (io_bind m f) g = io_bind m (\<lambda>x. io_bind (f x) g)"
  by (rule ext) (simp add: io_bind_def split: prod.splits sum.splits)

lemma quiet_return: "quiet (io_return x)"
  by (simp add: quiet_def io_return_def)

lemma quiet_throw: "quiet (io_throw e)"
  by (simp add: quiet_def io_throw_def)

lemma quiet_act: "ffmpeg_runs [(c, True)] = [] \<Longrightarrow> quiet (act c f)"
  unfolding quiet_def
proof
  fix st :: "'a \<times> (sys_call \<times> bool) list"
  assume c: "ffmpeg_runs [(c, True)] = []"
  obtain w tr where st: "st = (w, tr)" by (cases st) auto
  obtain r w' where f: "f w = (r, w')" by (cases "f w") auto
  have "ffmpeg_runs [(c, returned r)] = []" using c by (cases c) simp_all
  with st f show "\<exists>new. snd (snd (act c f st)) = snd st @ new \<and> ffmpeg_runs new = []"
    by (simp add: act_def)
qed

lemma quiet_bind:
  assumes m: "quiet m" and f: "\<And>x. quiet (f x)"
  shows "quiet (io_bind m f)"
  unfolding quiet_def
proof
  fix st
  from m obtain n1 where n1: "snd (snd (m st)) = snd st @ n1" "ffmpeg_runs n1 = []"
    unfolding quiet_def by blast
  obtain r st1 where p: "m st = (r, st1)" by (metis surj_pair)
  show "\<exists>new. snd (snd (io_bind m f st)) = snd st @ new \<and> ffmpeg_runs new = []"
  proof (cases r)
    case (Inl e)
    with p n1 show ?thesis by (simp add: io_bind_def)
  next
    case (Inr x)
    from f [of x] obtain n2 where n2: "snd (snd (f x st1)) = snd st1 @ n2" "ffmpeg_runs n2 = []"
      unfolding quiet_def by blast
    from p Inr have "io_bind m f st = f x st1" by (simp add: io_bind_def)
    with p n1 n2 show ?thesis
      by (intro exI [of _ "n1 @ n2"]) (simp add: ffmpeg_runs_append)
  qed
qed

lemma quiet_catch:
  assumes m: "quiet m" and h: "\<And>e. quiet (h e)"
  shows "quiet (io_catch m h)"
  unfolding quiet_def
proof
  fix st
  from m obtain n1 where n1: "snd (snd (m st)) = snd st @ n1" "ffmpeg_runs n1 = []"
    unfolding quiet_def by blast
  obtain r st1 where p: "m st = (r, st1)" by (metis surj_pair)
  show "\<exists>new. snd (snd (io_catch m h st)) = snd st @ new \<and> ffmpeg_runs new = []"
  proof (cases r)
    case (Inr x)
    with p n1 show ?thesis by (simp add: io_catch_def)
  next
    case (Inl e)
    from h [of e] obtain n2 where n2: "snd (snd (h e st1)) = snd st1 @ n2" "ffmpeg_runs n2 = []"
      unfolding quiet_def by blast
    from p Inl have "io_catch m h st = h e st1" by (simp add: io_catch_def)
    with p n1 n2 show ?thesis
      by (intro exI [of _ "n1 @ n2"]) (simp add: ffmpeg_runs_append)
  qed
qed

lemma quiet_ignore: "quiet m \<Longrightarrow> quiet (ignore_failure m)"
  unfolding ignore_failure_def by (rule quiet_catch) (simp_all add: quiet_return)

lemma quiet_each: "(\<And>x. quiet (f x)) \<Longrightarrow> quiet (io_each f xs)"
  by (induction xs) (simp_all add: quiet_return quiet_bind)

lemma quiet_mkdir: "quiet (sys_mkdir sys dir)"
  unfolding sys_mkdir_def by (rule quiet_act) simp

lemma quiet_writeFile: "quiet (sys_writeFile sys name data)"
  unfolding sys_writeFile_def by (rule quiet_act) simp

lemma quiet_unlink: "quiet (sys_unlink sys name)"
  unfolding sys_unlink_def by (rule quiet_act) simp

lemma quiet_state:
  assumes "quiet m"
  shows "\<exists>r w' new. m (w, tr) = (r, (w', tr @ new)) \<and> ffmpeg_runs new = []"
proof -
  from assms obtain new where n: "snd (snd (m (w, tr))) = tr @ new" "ffmpeg_runs new = []"
    unfolding quiet_def by fastforce
  obtain r w' tr' where p: "m (w, tr) = (r, (w', tr'))" by (metis surj_pair)
  with n show ?thesis by simp
qed

lemma quiet_from_state:
  assumes "\<And>w tr. \<exists>r w' new. m (w, tr) = (r, (w', tr @ new)) \<and> ffmpeg_runs new = []"
  shows "quiet m"
  unfolding quiet_def
proof
  fix st :: "'a \<times> (sys_call \<times> bool) list"
  obtain w tr where st: "st = (w, tr)" by (cases st) auto
  from assms [of w tr] obtain r w' new where "m (w, tr) = (r, (w', tr @ new))" "ffmpeg_runs new = []"
    by blast
  with st show "\<exists>new. snd (snd (m st)) = snd st @ new \<and> ffmpeg_runs new = []" by simp
qed

lemma writeFile_state:
  "\<exists>r w'. sys_writeFile sys name data (w, tr) = (r, (w', tr @ [(WriteFile name data, returned r)]))"
  by (cases "fs_writeFile sys w name data") (simp add: sys_writeFile_def act_def)

lemma ffmpeg_state:
  "\<exists>r w'. sys_ffmpeg sys cmd (w, tr) = (r, (w', tr @ [(Ffmpeg cmd, returned r)]))"
  by (cases "ffmpeg_run sys w cmd") (simp add: sys_ffmpeg_def act_def)

lemma write_all_state:
  "\<exists>r w' new. write_all sys files (w, tr) = (r, (w', tr @ new)) \<and> ffmpeg_runs new = []"
proof (induction files arbitrary: w tr)
  case Nil
  show ?case by (simp add: io_return_def)
next
  case (Cons fd files)
  obtain name data where fd: "fd = (name, data)" by (cases fd) auto
  from writeFile_state [of sys name data w tr] obtain r1 w1 where
    s1: "sys_writeFile sys name data (w, tr) = (r1, (w1, tr @ [(WriteFile name data, returned r1)]))"
    by blast
  from Cons.IH [of w1 "tr @ [(WriteFile name data, returned r1)]"] obtain r2 w2 n2 where
    s2: "write_all sys files (w1, tr @ [(WriteFile name data, returned r1)]) =
           (r2, (w2, (tr @ [(WriteFile name data, returned r1)]) @ n2))" and q: "ffmpeg_runs n2 = []"
    by blast
  have "\<exists>r. write_all sys (fd # files) (w, tr) =
          (r, (w2, tr @ ((WriteFile name data, returned r1) # n2)))"
    using fd s1 s2 by (cases r1) simp_all
  moreover have "ffmpeg_runs ((WriteFile name data, returned r1) # n2) = []" using q by simp
  ultimately show ?case by blast
qed

lemma write_segments_state:
  "\<exists>files w' new. write_segments sys xs (w, tr) = (Inr files, (w', tr @ new)) \<and> ffmpeg_runs new = []"
proof (induction xs arbitrary: w tr)
  case Nil
  show ?case by (simp add: io_return_def)
next
  case (Cons fd xs)
  obtain name data where fd: "fd = (name, data)" by (cases fd) auto
  from writeFile_state [of sys name data w tr] obtain r1 w1 where
    s1: "sys_writeFile sys name data (w, tr) = (r1, (w1, tr @ [(WriteFile name data, returned r1)]))"
    by blast
  from Cons.IH [of w1 "tr @ [(WriteFile name data, returned r1)]"] obtain fs w2 n2 where
    s2: "write_segments sys xs (w1, tr @ [(WriteFile name data, returned r1)]) =
           (Inr fs, (w2, (tr @ [(WriteFile name data, returned r1)]) @ n2))" and q: "ffmpeg_runs n2 = []"
    by blast
  have "\<exists>files. write_segments sys (fd # xs) (w, tr) =
          (Inr files, (w2, tr @ ((WriteFile name data, returned r1) # n2)))"
    using fd s1 s2 by (cases r1) (simp_all add: io_bind_def io_return_def)
  moreover have "ffmpeg_runs ((WriteFile name data, returned r1) # n2) = []" using q by simp
  ultimately show ?case by blast
qed

lemma write_all_quiet: "quiet (write_all sys files)"
  by (rule quiet_from_state) (rule write_all_state)

lemma saveFramesToDisk_quiet: "quiet (saveFramesToDisk sys vp dir)"
  unfolding saveFramesToDisk_def
proof (rule quiet_bind)
  show "quiet (write_all sys (map (\<lambda>(index, f). (framePath sys dir index, frame_buffer f))
                               (enumerate 0 (frames vp))))"
    by (rule write_all_quiet)
next
  fix failure :: "string option"
  show "quiet ((case failure of None \<Rightarrow> io_return () | Some e \<Rightarrow> io_throw e) :: ('a world, unit) io)"
    by (cases failure) (simp_all add: quiet_return quiet_throw)
qed

lemma preparation_quiet: "quiet (preparation sys vp outputPath)"
  unfolding preparation_def
  by (intro quiet_bind quiet_mkdir saveFramesToDisk_quiet)

lemma cleanupTempFiles_quiet: "quiet (cleanupTempFiles sys vp dir)"
  unfolding cleanupTempFiles_def
  by (intro quiet_catch quiet_bind quiet_each quiet_ignore quiet_unlink quiet_return quiet_act) simp_all

lemma fileExists_quiet: "quiet (fileExists sys name)"
  unfolding fileExists_def
  by (intro quiet_catch quiet_bind quiet_return quiet_act) simp_all

lemma createAudioTrack_state:
  "\<exists>files r w' new.
     createAudioTrack sys vp (w, tr) =
       (r, (w', tr @ new @ [(Ffmpeg (audio_track_command files (audioPath_of sys vp)), returned r)])) \<and>
     ffmpeg_runs new = [] \<and> (returned r \<longrightarrow> r = Inr (audioPath_of sys vp))"
proof -
  let ?xs = "map (\<lambda>(index, seg). (segmentPath sys vp index, segment_buffer seg))
               (enumerate 0 (audioSegments vp))"
  from write_segments_state [of sys ?xs w tr] obtain files w1 n1 where
    s1: "write_segments sys ?xs (w, tr) = (Inr files, (w1, tr @ n1))" and q: "ffmpeg_runs n1 = []"
    by blast
  let ?cmd = "audio_track_command files (audioPath_of sys vp)"
  from ffmpeg_state [of sys ?cmd w1 "tr @ n1"] obtain r2 w2 where
    s2: "sys_ffmpeg sys ?cmd (w1, tr @ n1) = (r2, (w2, (tr @ n1) @ [(Ffmpeg ?cmd, returned r2)]))"
    by blast
  show ?thesis
  proof (cases r2)
    case (Inl e)
    with s1 s2 have "createAudioTrack sys vp (w, tr) =
        (Inl e, (w2, tr @ n1 @ [(Ffmpeg ?cmd, returned (Inl e :: string + string))]))"
      by (simp add: createAudioTrack_def audioPath_of_def io_bind_def returned_def Let_def)
    with q show ?thesis by (intro exI [of _ files] exI [of _ "Inl e"] exI [of _ w2] exI [of _ n1])
        (simp add: returned_def)
  next
    case (Inr u)
    with s1 s2 have "createAudioTrack sys vp (w, tr) =
        (Inr (audioPath_of sys vp),
         (w2, tr @ n1 @ [(Ffmpeg ?cmd, returned (Inr (audioPath_of sys vp) :: string + string))]))"
      by (simp add: createAudioTrack_def audioPath_of_def io_bind_def io_return_def returned_def Let_def)
    with q show ?thesis
      by (intro exI [of _ files] exI [of _ "Inr (audioPath_of sys vp)"] exI [of _ w2] exI [of _ n1])
        simp
  qed
qed


lemma after_encoding_quiet: "quiet (after_encoding sys vp outputPath)"
  unfolding after_encoding_def
  by (intro quiet_bind cleanupTempFiles_quiet)
    (simp_all add: quiet_return quiet_bind fileExists_quiet)

lemma finalizeVideo_steps:
  "finalizeVideo sys vp outputPath =
     io_catch (io_bind (preparation sys vp outputPath) (\<lambda>_.
               io_bind (encoding sys vp outputPath) (\<lambda>_. after_encoding sys vp outputPath)))
       (\<lambda>error. io_throw (''Video processing failed: '' @ error))"
  unfolding finalizeVideo_def preparation_def encoding_def after_encoding_def tempDir_of_def Let_def
    io_bind_assoc ..

lemma rethrow_state: "snd (io_catch m (\<lambda>e. io_throw (f e)) st) = snd (m st)"
  by (cases "m st") (simp add: io_catch_def io_throw_def split: sum.splits)

lemma bind_thrown: "m st = (Inl e, st1) \<Longrightarrow> io_bind m f st = (Inl e, st1)"
  by (simp add: io_bind_def)

lemma bind_returned: "m st = (Inr x, st1) \<Longrightarrow> io_bind m f st = f x st1"
  by (simp add: io_bind_def)

lemma then_quiet:
  assumes k: "quiet k" and m: "m st = (r, (w1, tr1))"
  shows "\<exists>w' n. snd (io_bind m (\<lambda>_. k) st) = (w', tr1 @ n) \<and> ffmpeg_runs n = []"
proof (cases r)
  case (Inl e)
  with m have "io_bind m (\<lambda>_. k) st = (Inl e, (w1, tr1))" by (simp add: io_bind_def)
  then show ?thesis by simp
next
  case (Inr x)
  with m have e: "io_bind m (\<lambda>_. k) st = k (w1, tr1)" by (simp add: io_bind_def)
  from quiet_state [OF k, of w1 tr1] obtain r2 w2 n where "k (w1, tr1) = (r2, (w2, tr1 @ n))"
    "ffmpeg_runs n = []" by blast
  with e show ?thesis by simp
qed

lemma encoding_silent:
  assumes "audioSegments vp = []"
  shows "\<exists>r w'. encoding sys vp outputPath (w, tr) =
     (r, (w', tr @ [(Ffmpeg (video_only_command sys vp (tempDir_of sys vp) outputPath), returned r)]))"
  using assms ffmpeg_state [of sys "video_only_command sys vp (tempDir_of sys vp) outputPath" w tr]
  by (simp add: encoding_def createVideoOnly_def)

lemma encoding_narrated:
  assumes "audioSegments vp \<noteq> []"
  shows "\<exists>files r w' new.
     encoding sys vp outputPath (w, tr) = (r, (w', tr @ new)) \<and>
     (ffmpeg_runs new = [audio_track_command files (audioPath_of sys vp),
                         video_with_audio_command sys vp (tempDir_of sys vp) (audioPath_of sys vp) outputPath] \<and>
      (Ffmpeg (audio_track_command files (audioPath_of sys vp)), True) \<in> set new \<or>
      ffmpeg_runs new = [audio_track_command files (audioPath_of sys vp)] \<and>
      (Ffmpeg (audio_track_command files (audioPath_of sys vp)), False) \<in> set new)"
proof -
  let ?A = "audioPath_of sys vp"
  let ?enc = "video_with_audio_command sys vp (tempDir_of sys vp) ?A outputPath"
  from createAudioTrack_state [of sys vp w tr] obtain files r1 w1 n1 where
    s1: "createAudioTrack sys vp (w, tr) =
       (r1, (w1, tr @ n1 @ [(Ffmpeg (audio_track_command files ?A), returned r1)]))"
    and q: "ffmpeg_runs n1 = []" and ok: "returned r1 \<longrightarrow> r1 = Inr ?A"
    by blast
  let ?track = "audio_track_command files ?A"
  from assms have e: "encoding sys vp outputPath =
      io_bind (createAudioTrack sys vp) (\<lambda>audioPath.
             createVideoWithAudio sys vp (tempDir_of sys vp) audioPath outputPath)"
    by (simp add: encoding_def)
  show ?thesis
  proof (cases r1)
    case (Inl err)
    with s1 have "encoding sys vp outputPath (w, tr) =
        (Inl err, (w1, tr @ (n1 @ [(Ffmpeg ?track, False)])))"
      unfolding e by (simp add: io_bind_def returned_def)
    moreover have "ffmpeg_runs (n1 @ [(Ffmpeg ?track, False)]) = [?track]"
      using q by (simp add: ffmpeg_runs_append)
    moreover have "(Ffmpeg ?track, False) \<in> set (n1 @ [(Ffmpeg ?track, False)])" by simp
    ultimately show ?thesis by blast
  next
    case (Inr p)
    with ok have p: "r1 = Inr ?A" by (simp add: returned_def)
    from ffmpeg_state [of sys ?enc w1 "tr @ n1 @ [(Ffmpeg ?track, True)]"] obtain r2 w2 where
      s2: "sys_ffmpeg sys ?enc (w1, tr @ n1 @ [(Ffmpeg ?track, True)]) =
        (r2, (w2, (tr @ n1 @ [(Ffmpeg ?track, True)]) @ [(Ffmpeg ?enc, returned r2)]))"
      by blast
    from s1 p s2 have "encoding sys vp outputPath (w, tr) =
        (r2, (w2, tr @ (n1 @ [(Ffmpeg ?track, True), (Ffmpeg ?enc, returned r2)])))"
      unfolding e by (simp add: io_bind_def returned_def createVideoWithAudio_def)
    moreover have "ffmpeg_runs (n1 @ [(Ffmpeg ?track, True), (Ffmpeg ?enc, returned r2)]) = [?track, ?enc]"
      using q by (simp add: ffmpeg_runs_append)
    moreover have "(Ffmpeg ?track, True) \<in> set (n1 @ [(Ffmpeg ?track, True), (Ffmpeg ?enc, returned r2)])"
      by simp
    ultimately show ?thesis by blast
  qed
qed

lemma command_shapes:
  "inputs (video_only_command sys vp dir outputPath) = [path_join sys dir ''frame_%06d.png''] \<and>
   audioCodec (video_only_command sys vp dir outputPath) = None \<and>
   inputs (video_with_audio_command sys vp dir audioPath outputPath) =
     [path_join sys dir ''frame_%06d.png'', audioPath] \<and>
   output_path (audio_track_command segment_files audioPath) = audioPath"
  by (simp add: video_only_command_def video_with_audio_command_def audio_track_command_def Let_def)

lemma silent_preparation:
  "fst (preparation offline_world silent_recording ''out/demo.mp4'' ((), [])) = Inr ()"
  by (simp add: preparation_def sys_mkdir_def act_def io_bind_def saveFramesToDisk_def
      sys_writeFile_def offline_world_def silent_recording_def returned_def io_return_def
      tempDir_of_def enumerate_eq_zip)

lemma narrated_preparation:
  "fst (preparation offline_world narrated_recording ''out/demo.mp4'' ((), [])) = Inr ()"
  by (simp add: preparation_def sys_mkdir_def act_def io_bind_def saveFramesToDisk_def
      sys_writeFile_def offline_world_def silent_recording_def narrated_recording_def returned_def
      io_return_def tempDir_of_def enumerate_eq_zip)

lemma readonly_preparation:
  "fst (preparation readonly_world silent_recording ''out/demo.mp4'' ((), [])) \<noteq> Inr ()"
  by (simp add: preparation_def sys_mkdir_def act_def io_bind_def readonly_world_def
      offline_world_def returned_def)

text \<open>
  Claim C7. In the trace of finalizeVideo, once the two directories are made and the frames
  written: with an empty audioSegments list ffmpeg is run exactly once, on the video-only command,
  whose single input is the numbered frames and which has no audio codec; with one or more
  segments the first run builds the combined track at the temporary audio path, and when that
  run returns exactly one more run follows, the encode whose inputs are the frames and that
  track. When the track build throws, or a step before the encoding throws, no encode is run.
\<close>

theorem finalizeVideo_encoder_invocations:
  "inputs (video_only_command sys vp (tempDir_of sys vp) outputPath) =
     [path_join sys (tempDir_of sys vp) ''frame_%06d.png''] \<and>
   audioCodec (video_only_command sys vp (tempDir_of sys vp) outputPath) = None \<and>
   inputs (video_with_audio_command sys vp (tempDir_of sys vp) (audioPath_of sys vp) outputPath) =
     [path_join sys (tempDir_of sys vp) ''frame_%06d.png'', audioPath_of sys vp] \<and>
   output_path (audio_track_command segment_files (audioPath_of sys vp)) = audioPath_of sys vp \<and>
   (\<exists>w' new. snd (finalizeVideo sys vp outputPath (w, tr)) = (w', tr @ new) \<and>
      (fst (preparation sys vp outputPath (w, tr)) \<noteq> Inr () \<longrightarrow> ffmpeg_runs new = []) \<and>
      (fst (preparation sys vp outputPath (w, tr)) = Inr () \<and> audioSegments vp = [] \<longrightarrow>
         ffmpeg_runs new = [video_only_command sys vp (tempDir_of sys vp) outputPath]) \<and>
      (fst (preparation sys vp outputPath (w, tr)) = Inr () \<and> audioSegments vp \<noteq> [] \<longrightarrow>
         (\<exists>files.
            ffmpeg_runs new =
              [audio_track_command files (audioPath_of sys vp),
               video_with_audio_command sys vp (tempDir_of sys vp) (audioPath_of sys vp) outputPath] \<and>
            (Ffmpeg (audio_track_command files (audioPath_of sys vp)), True) \<in> set new \<or>
            ffmpeg_runs new = [audio_track_command files (audioPath_of sys vp)] \<and>
            (Ffmpeg (audio_track_command files (audioPath_of sys vp)), False) \<in> set new)))"
proof -
  let ?video_only = "video_only_command sys vp (tempDir_of sys vp) outputPath"
  let ?encode = "video_with_audio_command sys vp (tempDir_of sys vp) (audioPath_of sys vp) outputPath"
  let ?rest = "\<lambda>u :: unit. io_bind (encoding sys vp outputPath) (\<lambda>_. after_encoding sys vp outputPath)"
  from quiet_state [OF preparation_quiet, of sys vp outputPath w tr] obtain r0 w0 n0 where
    p: "preparation sys vp outputPath (w, tr) = (r0, (w0, tr @ n0))" and q0: "ffmpeg_runs n0 = []"
    by blast
  have fin: "snd (finalizeVideo sys vp outputPath (w, tr)) =
      snd (io_bind (preparation sys vp outputPath) ?rest (w, tr))"
    by (simp add: finalizeVideo_steps rethrow_state)
  have trace: "\<exists>w' new. snd (finalizeVideo sys vp outputPath (w, tr)) = (w', tr @ new) \<and>
      (fst (preparation sys vp outputPath (w, tr)) \<noteq> Inr () \<longrightarrow> ffmpeg_runs new = []) \<and>
      (fst (preparation sys vp outputPath (w, tr)) = Inr () \<and> audioSegments vp = [] \<longrightarrow>
         ffmpeg_runs new = [?video_only]) \<and>
      (fst (preparation sys vp outputPath (w, tr)) = Inr () \<and> audioSegments vp \<noteq> [] \<longrightarrow>
         (\<exists>files.
            ffmpeg_runs new = [audio_track_command files (audioPath_of sys vp), ?encode] \<and>
            (Ffmpeg (audio_track_command files (audioPath_of sys vp)), True) \<in> set new \<or>
            ffmpeg_runs new = [audio_track_command files (audioPath_of sys vp)] \<and>
            (Ffmpeg (audio_track_command files (audioPath_of sys vp)), False) \<in> set new))"
  proof (cases r0)
    case (Inl e)
    from p Inl have "io_bind (preparation sys vp outputPath) ?rest (w, tr) = (Inl e, (w0, tr @ n0))"
      by (simp add: bind_thrown)
    with fin have "snd (finalizeVideo sys vp outputPath (w, tr)) = (w0, tr @ n0)" by simp
    moreover from p Inl have "fst (preparation sys vp outputPath (w, tr)) \<noteq> Inr ()" by simp
    ultimately show ?thesis using q0 by blast
  next
    case (Inr u)
    from p Inr have ok: "fst (preparation sys vp outputPath (w, tr)) = Inr ()" by simp
    from p Inr have "io_bind (preparation sys vp outputPath) ?rest (w, tr) = ?rest u (w0, tr @ n0)"
      by (simp add: bind_returned)
    with fin have fin2: "snd (finalizeVideo sys vp outputPath (w, tr)) =
        snd (io_bind (encoding sys vp outputPath) (\<lambda>_. after_encoding sys vp outputPath) (w0, tr @ n0))"
      by simp
    show ?thesis
    proof (cases "audioSegments vp = []")
      case True
      from encoding_silent [OF True, of sys outputPath w0 "tr @ n0"] obtain r1 w1 where
        e: "encoding sys vp outputPath (w0, tr @ n0) =
              (r1, (w1, (tr @ n0) @ [(Ffmpeg ?video_only, returned r1)]))"
        by blast
      from then_quiet [where k = "after_encoding sys vp outputPath" and m = "encoding sys vp outputPath"
          and st = "(w0, tr @ n0)", OF after_encoding_quiet e] obtain w' n where
        s: "snd (io_bind (encoding sys vp outputPath) (\<lambda>_. after_encoding sys vp outputPath) (w0, tr @ n0)) =
              (w', ((tr @ n0) @ [(Ffmpeg ?video_only, returned r1)]) @ n)" and qn: "ffmpeg_runs n = []"
        by blast
      let ?new = "n0 @ [(Ffmpeg ?video_only, returned r1)] @ n"
      from fin2 s have "snd (finalizeVideo sys vp outputPath (w, tr)) = (w', tr @ ?new)" by simp
      moreover have "ffmpeg_runs ?new = [?video_only]"
        using q0 qn by (simp add: ffmpeg_runs_append)
      ultimately show ?thesis using ok True by blast
    next
      case False
      from encoding_narrated [OF False, of sys outputPath w0 "tr @ n0"] obtain files r1 w1 n1 where
        e: "encoding sys vp outputPath (w0, tr @ n0) = (r1, (w1, (tr @ n0) @ n1))"
        and d: "ffmpeg_runs n1 = [audio_track_command files (audioPath_of sys vp), ?encode] \<and>
            (Ffmpeg (audio_track_command files (audioPath_of sys vp)), True) \<in> set n1 \<or>
            ffmpeg_runs n1 = [audio_track_command files (audioPath_of sys vp)] \<and>
            (Ffmpeg (audio_track_command files (audioPath_of sys vp)), False) \<in> set n1"
        by blast
      from then_quiet [where k = "after_encoding sys vp outputPath" and m = "encoding sys vp outputPath"
          and st = "(w0, tr @ n0)", OF after_encoding_quiet e] obtain w' n where
        s: "snd (io_bind (encoding sys vp outputPath) (\<lambda>_. after_encoding sys vp outputPath) (w0, tr @ n0)) =
              (w', ((tr @ n0) @ n1) @ n)" and qn: "ffmpeg_runs n = []"
        by blast
      let ?new = "n0 @ n1 @ n"
      from fin2 s have t: "snd (finalizeVideo sys vp outputPath (w, tr)) = (w', tr @ ?new)" by simp
      have r: "ffmpeg_runs ?new = ffmpeg_runs n1" using q0 qn by (simp add: ffmpeg_runs_append)
      have m: "set n1 \<subseteq> set ?new" by auto
      from d r m have "ffmpeg_runs ?new = [audio_track_command files (audioPath_of sys vp), ?encode] \<and>
            (Ffmpeg (audio_track_command files (audioPath_of sys vp)), True) \<in> set ?new \<or>
            ffmpeg_runs ?new = [audio_track_command files (audioPath_of sys vp)] \<and>
            (Ffmpeg (audio_track_command files (audioPath_of sys vp)), False) \<in> set ?new"
        by (metis subsetD)
      with t ok False show ?thesis by blast
    qed
  qed
  from command_shapes [of sys vp "tempDir_of sys vp" outputPath "audioPath_of sys vp" segment_files] trace
  show ?thesis by (intro conjI) (simp_all only:)
qed

theorem finalizeVideo_encoder_invocations_witness:
  "(\<exists>w' new. snd (finalizeVideo offline_world silent_recording ''out/demo.mp4'' ((), [])) = (w', [] @ new) \<and>
      ffmpeg_runs new =
        [video_only_command offline_world silent_recording
           (tempDir_of offline_world silent_recording) ''out/demo.mp4'']) \<and>
   (\<exists>w' new files.
      snd (finalizeVideo offline_world narrated_recording ''out/demo.mp4'' ((), [])) = (w', [] @ new) \<and>
      (ffmpeg_runs new =
         [audio_track_command files (audioPath_of offline_world narrated_recording),
          video_with_audio_command offline_world narrated_recording
            (tempDir_of offline_world narrated_recording)
            (audioPath_of offline_world narrated_recording) ''out/demo.mp4''] \<and>
       (Ffmpeg (audio_track_command files (audioPath_of offline_world narrated_recording)), True)
         \<in> set new \<or>
       ffmpeg_runs new = [audio_track_command files (audioPath_of offline_world narrated_recording)] \<and>
       (Ffmpeg (audio_track_command files (audioPath_of offline_world narrated_recording)), False)
         \<in> set new)) \<and>
   (\<exists>w' new. snd (finalizeVideo readonly_world silent_recording ''out/demo.mp4'' ((), [])) = (w', [] @ new) \<and>
      ffmpeg_runs new = [])"
proof (intro conjI)
  note t = finalizeVideo_encoder_invocations
    [where sys = offline_world and vp = silent_recording and outputPath = "''out/demo.mp4''"
       and w = "()" and tr = "[]" and segment_files = "[]"]
  have h: "fst (preparation offline_world silent_recording ''out/demo.mp4'' ((), [])) = Inr () \<and>
     audioSegments silent_recording = []"
    using silent_preparation by (simp add: silent_recording_def)
  from conjunct2 [OF conjunct2 [OF conjunct2 [OF conjunct2 [OF t]]]] obtain w' new where
    a: "snd (finalizeVideo offline_world silent_recording ''out/demo.mp4'' ((), [])) = (w', [] @ new)"
    and i: "fst (preparation offline_world silent_recording ''out/demo.mp4'' ((), [])) = Inr () \<and>
       audioSegments silent_recording = [] \<longrightarrow>
         ffmpeg_runs new = [video_only_command offline_world silent_recording
           (tempDir_of offline_world silent_recording) ''out/demo.mp4'']"
    by blast
  from mp [OF i h] a
  show "\<exists>w' new. snd (finalizeVideo offline_world silent_recording ''out/demo.mp4'' ((), [])) = (w', [] @ new) \<and>
      ffmpeg_runs new =
        [video_only_command offline_world silent_recording
           (tempDir_of offline_world silent_recording) ''out/demo.mp4'']"
    by blast
next
  note t = finalizeVideo_encoder_invocations
    [where sys = offline_world and vp = narrated_recording and outputPath = "''out/demo.mp4''"
       and w = "()" and tr = "[]" and segment_files = "[]"]
  let ?A = "audioPath_of offline_world narrated_recording"
  let ?encode = "video_with_audio_command offline_world narrated_recording
            (tempDir_of offline_world narrated_recording) ?A ''out/demo.mp4''"
  have h: "fst (preparation offline_world narrated_recording ''out/demo.mp4'' ((), [])) = Inr () \<and>
     audioSegments narrated_recording \<noteq> []"
    using narrated_preparation by (simp add: narrated_recording_def)
  from conjunct2 [OF conjunct2 [OF conjunct2 [OF conjunct2 [OF t]]]] obtain w' new where
    a: "snd (finalizeVideo offline_world narrated_recording ''out/demo.mp4'' ((), [])) = (w', [] @ new)"
    and i: "fst (preparation offline_world narrated_recording ''out/demo.mp4'' ((), [])) = Inr () \<and>
       audioSegments narrated_recording \<noteq> [] \<longrightarrow>
         (\<exists>files.
            ffmpeg_runs new = [audio_track_command files ?A, ?encode] \<and>
            (Ffmpeg (audio_track_command files ?A), True) \<in> set new \<or>
            ffmpeg_runs new = [audio_track_command files ?A] \<and>
            (Ffmpeg (audio_track_command files ?A), False) \<in> set new)"
    by blast
  from mp [OF i h] a
  show "\<exists>w' new files.
      snd (finalizeVideo offline_world narrated_recording ''out/demo.mp4'' ((), [])) = (w', [] @ new) \<and>
      (ffmpeg_runs new = [audio_track_command files ?A, ?encode] \<and>
       (Ffmpeg (audio_track_command files ?A), True) \<in> set new \<or>
       ffmpeg_runs new = [audio_track_command files ?A] \<and>
       (Ffmpeg (audio_track_command files ?A), False) \<in> set new)"
    by blast
next
  note t = finalizeVideo_encoder_invocations
    [where sys = readonly_world and vp = silent_recording and outputPath = "''out/demo.mp4''"
       and w = "()" and tr = "[]" and segment_files = "[]"]
  from conjunct2 [OF conjunct2 [OF conjunct2 [OF conjunct2 [OF t]]]] obtain w' new where
    a: "snd (finalizeVideo readonly_world silent_recording ''out/demo.mp4'' ((), [])) = (w', [] @ new)"
    and i: "fst (preparation readonly_world silent_recording ''out/demo.mp4'' ((), [])) \<noteq> Inr () \<longrightarrow>
         ffmpeg_runs new = []"
    by blast
  from mp [OF i readonly_preparation] a
  show "\<exists>w' new. snd (finalizeVideo readonly_world silent_recording ''out/demo.mp4'' ((), [])) = (w', [] @ new) \<and>
      ffmpeg_runs new = []"
    by blast
qed

text \<open>The runs of the two example recordings on a machine where every call succeeds.\<close>

lemma first_index: "char_of (48 :: nat) = CHR ''0''"
  by code_simp

lemma silent_runs:
  "ffmpeg_runs (snd (snd (finalizeVideo offline_world silent_recording ''out/demo.mp4'' ((), [])))) =
     [video_only_command offline_world silent_recording ''out/temp_frames'' ''out/demo.mp4'']"
  by (simp add: finalizeVideo_def sys_mkdir_def act_def io_bind_def saveFramesToDisk_def
      sys_writeFile_def offline_world_def silent_recording_def returned_def
      io_return_def enumerate_eq_zip io_catch_def
      sys_ffmpeg_def createVideoOnly_def cleanupTempFiles_def fileExists_def ignore_failure_def
      sys_unlink_def Let_def)

lemma narrated_runs:
  "ffmpeg_runs (snd (snd (finalizeVideo offline_world narrated_recording ''out/demo.mp4'' ((), [])))) =
     [audio_track_command [''out/temp_audio_0.wav''] ''out/temp_audio.wav'',
      video_with_audio_command offline_world narrated_recording ''out/temp_frames''
        ''out/temp_audio.wav'' ''out/demo.mp4'']"
  by (simp add: finalizeVideo_def preparation_def sys_mkdir_def act_def io_bind_def saveFramesToDisk_def
      sys_writeFile_def offline_world_def silent_recording_def narrated_recording_def returned_def
      io_return_def enumerate_eq_zip io_catch_def createAudioTrack_def segmentPath_def
      sys_ffmpeg_def createVideoWithAudio_def cleanupTempFiles_def fileExists_def ignore_failure_def
      sys_unlink_def Let_def first_index)

end
